(* ===== verification/Prelude.thy ===== *)
theory Prelude
  imports Complex_Main
begin

text \<open>
  Shared vocabulary of the development: the collections of unfolding facts, the model of
  Python strings, exceptions and fallible results, list indexing that raises, and the
  generic lemmas on results, lists and association lists that the component theories use.
\<close>

section \<open>Fact collections\<close>

named_theorems widget_defs "definitions of the form's widget configurations and option lists"
named_theorems render_defs "definitions of the elements a section of the script emits"
named_theorems table_defs "definitions of the static tables of the documentation page"
named_theorems label_defs "definitions of the string constants the script compares or keys on"

section \<open>Python strings\<close>

text \<open>
  A Python \<open>str\<close> is modelled by its UTF-8 encoding, a list of 8-bit characters. The
  encoding is injective, so \<open>==\<close> on \<open>str\<close> is equality of the encodings, which is the
  only string operation the script performs on non-ASCII text. The non-ASCII characters of
  the literals the script compares are named here by their code points.
\<close>

type_synonym pystr = string

definition u_e_acute :: pystr where \<comment> \<open>U+00E9\<close>
  "u_e_acute = [CHR 0xC3, CHR 0xA9]"

definition u_E_acute :: pystr where \<comment> \<open>U+00C9\<close>
  "u_E_acute = [CHR 0xC3, CHR 0x89]"

definition u_a_grave :: pystr where \<comment> \<open>U+00E0\<close>
  "u_a_grave = [CHR 0xC3, CHR 0xA0]"

definition u_A_grave :: pystr where \<comment> \<open>U+00C0\<close>
  "u_A_grave = [CHR 0xC3, CHR 0x80]"

definition u_e_circ :: pystr where \<comment> \<open>U+00EA\<close>
  "u_e_circ = [CHR 0xC3, CHR 0xAA]"

definition u_e_grave :: pystr where \<comment> \<open>U+00E8\<close>
  "u_e_grave = [CHR 0xC3, CHR 0xA8]"

definition u_check_mark :: pystr where \<comment> \<open>U+2705\<close>
  "u_check_mark = [CHR 0xE2, CHR 0x9C, CHR 0x85]"

definition u_cross_mark :: pystr where \<comment> \<open>U+274C\<close>
  "u_cross_mark = [CHR 0xE2, CHR 0x9D, CHR 0x8C]"

definition u_house :: pystr where \<comment> \<open>U+1F3E0\<close>
  "u_house = [CHR 0xF0, CHR 0x9F, CHR 0x8F, CHR 0xA0]"

definition u_bar_chart :: pystr where \<comment> \<open>U+1F4CA\<close>
  "u_bar_chart = [CHR 0xF0, CHR 0x9F, CHR 0x93, CHR 0x8A]"

definition u_clipboard :: pystr where \<comment> \<open>U+1F4CB\<close>
  "u_clipboard = [CHR 0xF0, CHR 0x9F, CHR 0x93, CHR 0x8B]"

definition u_chart_up :: pystr where \<comment> \<open>U+1F4C8\<close>
  "u_chart_up = [CHR 0xF0, CHR 0x9F, CHR 0x93, CHR 0x88]"

definition u_money_bag :: pystr where \<comment> \<open>U+1F4B0\<close>
  "u_money_bag = [CHR 0xF0, CHR 0x9F, CHR 0x92, CHR 0xB0]"

definition u_apostrophe :: pystr where \<comment> \<open>U+0027\<close>
  "u_apostrophe = [CHR 0x27]"

definition u_information :: pystr where \<comment> \<open>U+2139 U+FE0F\<close>
  "u_information = [CHR 0xE2, CHR 0x84, CHR 0xB9, CHR 0xEF, CHR 0xB8, CHR 0x8F]"

lemmas utf8_defs [label_defs] =
  u_e_acute_def u_E_acute_def u_a_grave_def u_A_grave_def u_e_circ_def u_e_grave_def
  u_check_mark_def u_cross_mark_def
  u_house_def u_bar_chart_def u_information_def u_clipboard_def u_chart_up_def
  u_money_bag_def u_apostrophe_def

text \<open>
  A string literal whose characters no branch of the script inspects (headings, help
  texts, the style sheet) is named by the line of \<^verbatim>\<open>src/app.py\<close> on which it starts.
\<close>

datatype lit = Lit nat

section \<open>Exceptions and results\<close>

text \<open>
  The script has two handlers: \<^verbatim>\<open>except FileNotFoundError\<close> and \<^verbatim>\<open>except Exception\<close>.
  An exception is its class, as far as the handlers tell classes apart, and what it
  carries. \<open>NonException\<close> stands for the classes that derive from \<open>BaseException\<close>
  only (\<open>KeyboardInterrupt\<close>, \<open>SystemExit\<close>), which \<^verbatim>\<open>except Exception\<close> lets through.
\<close>

datatype exn_class = FileNotFoundError | IndexError | OtherException | NonException

datatype exn_detail = Text pystr | OutOfBounds nat nat

datatype py_exn = PyExn (exn_class_of: exn_class) (exn_detail_of: exn_detail)

definition caught_by_FileNotFoundError :: "py_exn \<Rightarrow> bool" where
  "caught_by_FileNotFoundError e \<longleftrightarrow> exn_class_of e = FileNotFoundError"

definition caught_by_Exception :: "py_exn \<Rightarrow> bool" where
  "caught_by_Exception e \<longleftrightarrow> exn_class_of e \<noteq> NonException"

lemma caught_by_FileNotFoundError_simps [simp]:
  "caught_by_FileNotFoundError (PyExn c d) \<longleftrightarrow> c = FileNotFoundError"
  by (simp add: caught_by_FileNotFoundError_def)

lemma caught_by_Exception_simps [simp]:
  "caught_by_Exception (PyExn c d) \<longleftrightarrow> c \<noteq> NonException"
  by (simp add: caught_by_Exception_def)

lemma FileNotFoundError_is_Exception [simp, intro]:
  "caught_by_FileNotFoundError e \<Longrightarrow> caught_by_Exception e"
  by (simp add: caught_by_FileNotFoundError_def caught_by_Exception_def)

text \<open>A computation that may raise returns \<open>Inl\<close> of the exception or \<open>Inr\<close> of its value.\<close>

type_synonym 'a result = "py_exn + 'a"

definition bind_result :: "'a result \<Rightarrow> ('a \<Rightarrow> 'b result) \<Rightarrow> 'b result" where
  "bind_result r f = (case r of Inl e \<Rightarrow> Inl e | Inr x \<Rightarrow> f x)"

lemma bind_result_simps [simp]:
  "bind_result (Inl e) f = Inl e"
  "bind_result (Inr x) f = f x"
  by (simp_all add: bind_result_def)

lemma bind_result_Inr_iff:
  "bind_result r f = Inr y \<longleftrightarrow> (\<exists>x. r = Inr x \<and> f x = Inr y)"
  by (cases r) simp_all

lemma bind_result_Inl_iff:
  "bind_result r f = Inl e \<longleftrightarrow> r = Inl e \<or> (\<exists>x. r = Inr x \<and> f x = Inl e)"
  by (cases r) auto

lemma bind_result_assoc:
  "bind_result (bind_result r f) g = bind_result r (\<lambda>x. bind_result (f x) g)"
  by (cases r) simp_all

lemma bind_result_Inr_right [simp]: "bind_result r Inr = r"
  by (cases r) simp_all

section \<open>Indexing that raises\<close>

text \<open>
  \<open>xs[i]\<close> for a non-negative literal index: the element, or \<open>IndexError\<close> when the
  index is not below the length.
\<close>

definition py_index :: "'a list \<Rightarrow> nat \<Rightarrow> 'a result" where
  "py_index xs i =
     (if i < length xs then Inr (xs ! i)
      else Inl (PyExn IndexError (OutOfBounds i (length xs))))"

lemma py_index_Inr_iff: "py_index xs i = Inr x \<longleftrightarrow> i < length xs \<and> xs ! i = x"
  by (simp add: py_index_def)

lemma py_index_Inl_iff:
  "py_index xs i = Inl e \<longleftrightarrow> length xs \<le> i \<and> e = PyExn IndexError (OutOfBounds i (length xs))"
  by (auto simp: py_index_def)

lemma py_index_in_set: "py_index xs i = Inr x \<Longrightarrow> x \<in> set xs"
  by (auto simp: py_index_Inr_iff)

lemma py_index_raises_Exception:
  "py_index xs i = Inl e \<Longrightarrow> caught_by_Exception e"
  by (auto simp: py_index_Inl_iff)

lemma py_index_Cons_0 [simp]: "py_index (x # xs) 0 = Inr x"
  by (simp add: py_index_def)

lemma py_index_Cons_Suc [simp]:
  "py_index (x # xs) (Suc i) =
     (case py_index xs i of Inr y \<Rightarrow> Inr y
      | Inl _ \<Rightarrow> Inl (PyExn IndexError (OutOfBounds (Suc i) (Suc (length xs)))))"
  by (simp add: py_index_def)

lemma py_index_Nil [simp]: "py_index [] i = Inl (PyExn IndexError (OutOfBounds i 0))"
  by (simp add: py_index_def)

section \<open>Lists and association lists\<close>

text \<open>
  A dictionary literal is an association list in the order the keys are written, and a
  table given column by column is a list of columns.
\<close>

definition keys_of :: "('k \<times> 'v) list \<Rightarrow> 'k list" where
  "keys_of kvs = map fst kvs"

lemma keys_of_simps [simp]:
  "keys_of [] = []"
  "keys_of ((k, v) # kvs) = k # keys_of kvs"
  by (simp_all add: keys_of_def)

lemma length_keys_of [simp]: "length (keys_of kvs) = length kvs"
  by (simp add: keys_of_def)

lemma map_of_keys_of_Some:
  "k \<in> set (keys_of kvs) \<Longrightarrow> \<exists>v. map_of kvs k = Some v"
  by (induction kvs) auto

lemma map_of_keys_of_None: "k \<notin> set (keys_of kvs) \<Longrightarrow> map_of kvs k = None"
  by (induction kvs) auto

lemma dom_map_of_keys_of: "dom (map_of kvs) = set (keys_of kvs)"
  by (simp add: keys_of_def dom_map_of_conv_image_fst)

text \<open>Consecutive intervals: each ends where the next begins.\<close>

fun chained :: "('a \<times> 'a) list \<Rightarrow> bool" where
  "chained [] = True"
| "chained [r] = True"
| "chained (r # s # rs) = (snd r = fst s \<and> chained (s # rs))"

lemma chained_covers:
  fixes v :: "'a :: linorder"
  assumes "chained rs" and "rs \<noteq> []"
    and "fst (hd rs) \<le> v" and "v \<le> snd (last rs)"
  shows "\<exists>r \<in> set rs. fst r \<le> v \<and> v \<le> snd r"
  using assms
proof (induction rs rule: chained.induct)
  case 1
  then show ?case by simp
next
  case (2 r)
  then show ?case by simp
next
  case (3 r s rs)
  show ?case
  proof (cases "v \<le> snd r")
    case True
    with "3.prems" show ?thesis by auto
  next
    case False
    with "3.prems" have "fst (hd (s # rs)) \<le> v" by simp
    moreover from "3.prems" have "chained (s # rs)" and "v \<le> snd (last (s # rs))" by simp_all
    ultimately have "\<exists>r \<in> set (s # rs). fst r \<le> v \<and> v \<le> snd r"
      using "3.IH" by simp
    then show ?thesis by auto
  qed
qed

end
