(* ===== verification/PyFloat.thy ===== *)
theory PyFloat
  imports Prelude
begin

text \<open>
  The floating-point values of the script (the probability returned by the pipeline, the
  literals \<open>0.5\<close>, \<open>1.0\<close>, \<open>0.0\<close> and \<open>100\<close>) with the comparisons of IEEE 754:
  a finite value is the real it denotes, and \<open>NaN\<close> is below, above and equal to nothing.
  A finite value may be any real, not only a double, and zero has no sign. Comparisons
  of finite values are exact, as they are in the machine. The product \<open>float_mul\<close> is
  the exact product of the reals; it is the product \<open>prob * 100\<close> of the gauge, which is
  compared with whole numbers only. The product inside the format specification of the
  metric is rounded to a double, in the theory \<^verbatim>\<open>Percent\<close>.
\<close>

datatype pyfloat = Finite real | PosInf | NegInf | NaN

fun is_nan :: "pyfloat \<Rightarrow> bool" where
  "is_nan NaN = True"
| "is_nan _ = False"

fun float_le :: "pyfloat \<Rightarrow> pyfloat \<Rightarrow> bool" where
  "float_le NaN _ = False"
| "float_le _ NaN = False"
| "float_le NegInf _ = True"
| "float_le _ PosInf = True"
| "float_le (Finite x) (Finite y) = (x \<le> y)"
| "float_le (Finite x) NegInf = False"
| "float_le PosInf _ = False"

fun float_lt :: "pyfloat \<Rightarrow> pyfloat \<Rightarrow> bool" where
  "float_lt NaN _ = False"
| "float_lt _ NaN = False"
| "float_lt (Finite x) (Finite y) = (x < y)"
| "float_lt NegInf NegInf = False"
| "float_lt NegInf _ = True"
| "float_lt PosInf _ = False"
| "float_lt (Finite x) PosInf = True"
| "float_lt (Finite x) NegInf = False"

definition float_ge :: "pyfloat \<Rightarrow> pyfloat \<Rightarrow> bool" where
  "float_ge a b = float_le b a"

fun float_eq :: "pyfloat \<Rightarrow> pyfloat \<Rightarrow> bool" where
  "float_eq NaN _ = False"
| "float_eq _ NaN = False"
| "float_eq a b = (a = b)"

definition inf_of_sign :: "real \<Rightarrow> pyfloat" where
  "inf_of_sign s = (if s = 0 then NaN else if 0 < s then PosInf else NegInf)"

fun float_mul :: "pyfloat \<Rightarrow> pyfloat \<Rightarrow> pyfloat" where
  "float_mul NaN _ = NaN"
| "float_mul _ NaN = NaN"
| "float_mul (Finite x) (Finite y) = Finite (x * y)"
| "float_mul PosInf (Finite y) = inf_of_sign y"
| "float_mul NegInf (Finite y) = inf_of_sign (- y)"
| "float_mul (Finite x) PosInf = inf_of_sign x"
| "float_mul (Finite x) NegInf = inf_of_sign (- x)"
| "float_mul PosInf PosInf = PosInf"
| "float_mul NegInf NegInf = PosInf"
| "float_mul PosInf NegInf = NegInf"
| "float_mul NegInf PosInf = NegInf"

text \<open>
  A value a widget returns or a table cell holds: a \<open>str\<close>, an \<open>int\<close> (unbounded) or
  a \<open>float\<close>.
\<close>

datatype cell = CStr pystr | CInt int | CFloat pyfloat

definition in_unit_interval :: "pyfloat \<Rightarrow> bool" where
  "in_unit_interval p \<longleftrightarrow> float_le (Finite 0) p \<and> float_le p (Finite 1)"

section \<open>Order facts\<close>

lemma float_ge_simps [simp]:
  "float_ge a NaN = False"
  "float_ge NaN b = False"
  "float_ge (Finite x) (Finite y) = (y \<le> x)"
  "float_ge PosInf (Finite y) = True"
  "float_ge NegInf (Finite y) = False"
  by (cases a; simp add: float_ge_def) (cases b; simp add: float_ge_def)+

lemma float_le_NaN_right [simp]: "float_le a NaN = False"
  by (cases a) simp_all

lemma float_lt_NaN_right [simp]: "float_lt a NaN = False"
  by (cases a) simp_all

lemma float_eq_NaN_right [simp]: "float_eq a NaN = False"
  by (cases a) simp_all

lemma float_le_refl_iff: "float_le a a \<longleftrightarrow> \<not> is_nan a"
  by (cases a) simp_all

lemma float_eq_iff: "float_eq a b \<longleftrightarrow> a = b \<and> \<not> is_nan a"
  by (cases a; cases b) simp_all

text \<open>Away from \<open>NaN\<close> the comparisons are those of a linear order.\<close>

lemma float_lt_iff_not_ge:
  "\<not> is_nan a \<Longrightarrow> \<not> is_nan b \<Longrightarrow> float_lt a b \<longleftrightarrow> \<not> float_ge a b"
  by (cases a; cases b) (auto simp: float_ge_def)

lemma float_lt_imp_not_ge: "float_lt a b \<Longrightarrow> \<not> float_ge a b"
  by (cases a; cases b) (auto simp: float_ge_def)

lemma float_le_trans: "float_le a b \<Longrightarrow> float_le b c \<Longrightarrow> float_le a c"
  by (cases a; cases b; cases c) simp_all

lemma float_le_antisym: "float_le a b \<Longrightarrow> float_le b a \<Longrightarrow> a = b"
  by (cases a; cases b) simp_all

lemma float_le_total: "\<not> is_nan a \<Longrightarrow> \<not> is_nan b \<Longrightarrow> float_le a b \<or> float_le b a"
  by (cases a; cases b) auto

lemma float_ge_mono: "float_ge a c \<Longrightarrow> float_le a b \<Longrightarrow> float_ge b c"
  unfolding float_ge_def by (rule float_le_trans)

lemma float_ge_not_nan: "float_ge a b \<Longrightarrow> \<not> is_nan a \<and> \<not> is_nan b"
  by (cases a; cases b) (simp_all add: float_ge_def)

lemma in_unit_interval_Finite [simp]:
  "in_unit_interval (Finite x) \<longleftrightarrow> 0 \<le> x \<and> x \<le> 1"
  by (simp add: in_unit_interval_def)

lemma in_unit_interval_cases:
  "in_unit_interval p \<longleftrightarrow> (\<exists>x. p = Finite x \<and> 0 \<le> x \<and> x \<le> 1)"
  by (cases p) (simp_all add: in_unit_interval_def)

lemma in_unit_interval_not_nan: "in_unit_interval p \<Longrightarrow> \<not> is_nan p"
  by (auto simp: in_unit_interval_cases)

section \<open>Scaling by a positive constant\<close>

lemma inf_of_sign_pos [simp]: "0 < c \<Longrightarrow> inf_of_sign c = PosInf"
  by (simp add: inf_of_sign_def)

lemma inf_of_sign_neg [simp]: "0 < c \<Longrightarrow> inf_of_sign (- c) = NegInf"
  by (simp add: inf_of_sign_def)

lemma float_mul_pos_Finite:
  "0 < c \<Longrightarrow> float_mul p (Finite c) =
     (case p of Finite x \<Rightarrow> Finite (x * c) | PosInf \<Rightarrow> PosInf | NegInf \<Rightarrow> NegInf | NaN \<Rightarrow> NaN)"
  by (cases p) simp_all

lemma float_ge_scale:
  assumes "0 < c"
  shows "float_ge (float_mul p (Finite c)) (Finite (t * c)) \<longleftrightarrow> float_ge p (Finite t)"
  using assms by (cases p) simp_all

lemma float_lt_scale:
  assumes "0 < c"
  shows "float_lt (float_mul p (Finite c)) (Finite (t * c)) \<longleftrightarrow> float_lt p (Finite t)"
  using assms by (cases p) simp_all

lemma float_mul_mono:
  assumes "0 < c" and "float_le a b"
  shows "float_le (float_mul a (Finite c)) (float_mul b (Finite c))"
  using assms by (cases a; cases b) simp_all

end
