(* ===== verification/Percent.thy ===== *)
theory Percent
  imports PyFloat "HOL-Library.Log_Nat"
begin

text \<open>
  The format specification \<^verbatim>\<open>.1%\<close> of the probability metric (\<^verbatim>\<open>src/app.py\<close>, line 219).
  Python multiplies the float by 100, which rounds the product to the nearest double
  with ties to even, and prints the double in fixed notation with one digit after the
  point, rounded to nearest with ties to even on its exact value, followed by a percent
  sign; \<open>nan%\<close>, \<open>inf%\<close> and \<open>-inf%\<close> for the special values and for a product that
  overflows. Both roundings are modelled: the text of a double is the text Python
  prints, also where the double nearest to a decimal lies on the other side of a tie
  (\<open>0.4995\<close> reads \<open>50.0%\<close>, \<open>0.9755\<close> reads \<open>97.5%\<close>). The sign of a zero is
  not modelled. The lemmas are those of the two roundings (their error and that they
  keep the order), of the digits of a number, and of the reading of a text, from which
  the facts about what the metric shows follow.
\<close>

section \<open>Definitions\<close>

definition round_half_even :: "real \<Rightarrow> int" where
  "round_half_even x =
     (let f = \<lfloor>x\<rfloor>; d = x - of_int f in
      if d < 1 / 2 then f
      else if 1 / 2 < d then f + 1
      else if even f then f else f + 1)"

text \<open>
  The exponent of a positive number: the \<open>e\<close> with \<open>2\<^sup>e \<le> y < 2\<^sup>e\<^sup>+\<^sup>1\<close>, from the length in
  bits of its whole part, or of the whole part of its inverse.
\<close>

definition expo :: "real \<Rightarrow> int" where
  "expo y = (if 1 \<le> y then bitlen \<lfloor>y\<rfloor> - 1 else - bitlen (\<lceil>1 / y\<rceil> - 1))"

text \<open>
  The double nearest to a real number, ties to even: 53 significant bits, and the fixed
  spacing \<open>2\<^sup>-\<^sup>1\<^sup>0\<^sup>7\<^sup>4\<close> below \<open>2\<^sup>-\<^sup>1\<^sup>0\<^sup>2\<^sup>2\<close>. The exponent is not bounded above here; a result
  of at least \<open>2\<^sup>1\<^sup>0\<^sup>2\<^sup>4\<close> in size is an overflow, which the caller turns into an infinity.
\<close>

definition fl64 :: "real \<Rightarrow> real" where
  "fl64 y =
     (if y = 0 then 0
      else
        (let u = 2 powi (max (expo \<bar>y\<bar>) (- 1022) - 52)
         in of_int (round_half_even (y / u)) * u))"

definition digit_char :: "nat \<Rightarrow> char" where
  "digit_char d = char_of (48 + d)"

function digits_of :: "nat \<Rightarrow> string" where
  "digits_of n =
     (if n < 10 then [digit_char n] else digits_of (n div 10) @ [digit_char (n mod 10)])"
  by pat_completeness auto
termination
  by (relation "measure id") auto

declare digits_of.simps [simp del]

text \<open>Tenths of a percent: the integer whose digits the text shows.\<close>

definition percent_tenths :: "real \<Rightarrow> int" where
  "percent_tenths x = round_half_even (fl64 (x * 100) * 10)"

definition format_percent :: "pyfloat \<Rightarrow> pystr" where
  "format_percent p =
     (case p of
        NaN \<Rightarrow> ''nan%''
      | PosInf \<Rightarrow> ''inf%''
      | NegInf \<Rightarrow> ''-inf%''
      | Finite x \<Rightarrow>
          if 2 ^ 1024 \<le> \<bar>fl64 (x * 100)\<bar> then (if x < 0 then ''-inf%'' else ''inf%'')
          else
            (if x < 0 then ''-'' else [])
            @ digits_of (nat \<bar>percent_tenths x\<bar> div 10)
            @ ''.'' @ [digit_char (nat \<bar>percent_tenths x\<bar> mod 10)] @ ''%'')"

text \<open>
  Reading the text back: the digits as a number, and the text as tenths of a percent.
  The script never reads the text; the reader is the inverse of the format that the
  proofs use to tell two texts apart.
\<close>

definition is_digit :: "char \<Rightarrow> bool" where
  "is_digit c \<longleftrightarrow> 48 \<le> (of_char c :: nat) \<and> (of_char c :: nat) \<le> 57"

definition nat_of_digits :: "string \<Rightarrow> nat" where
  "nat_of_digits cs = foldl (\<lambda>a c. 10 * a + (of_char c - 48)) 0 cs"

definition read_percent :: "pystr \<Rightarrow> nat option" where
  "read_percent s =
     (let body = (if s \<noteq> [] \<and> hd s = CHR ''-'' then tl s else s);
          whole = takeWhile is_digit body;
          rest = dropWhile is_digit body
      in case rest of
           [p, d, q] \<Rightarrow>
             if p = CHR ''.'' \<and> is_digit d \<and> q = CHR ''%'' \<and> whole \<noteq> []
             then Some (10 * nat_of_digits whole + nat_of_digits [d])
             else None
         | _ \<Rightarrow> None)"

section \<open>Rounding\<close>

lemma round_half_even_of_int [simp]: "round_half_even (of_int n) = n"
  by (simp add: round_half_even_def)

lemma round_half_even_numeral [simp]:
  "round_half_even 0 = 0" "round_half_even 1 = 1" "round_half_even (numeral k) = numeral k"
  using round_half_even_of_int [of 0] round_half_even_of_int [of 1]
    round_half_even_of_int [of "numeral k"]
  by simp_all

lemma round_half_even_tie:
  "round_half_even (of_int n + 1 / 2) = (if even n then n else n + 1)"
proof -
  have "\<lfloor>of_int n + (1 / 2 :: real)\<rfloor> = n" by linarith
  then show ?thesis by (simp add: round_half_even_def)
qed

lemma round_half_even_cases:
  "round_half_even x = \<lfloor>x\<rfloor> \<or> round_half_even x = \<lfloor>x\<rfloor> + 1"
  by (simp add: round_half_even_def Let_def)

lemma round_half_even_bound: "\<bar>of_int (round_half_even x) - x\<bar> \<le> 1 / 2"
  unfolding round_half_even_def Let_def by (auto simp: abs_le_iff)

lemma round_half_even_unique:
  assumes "\<bar>of_int n - x\<bar> < 1 / 2"
  shows "round_half_even x = n"
proof -
  from assms have "\<bar>of_int n - of_int (round_half_even x)\<bar> < (1 :: real)"
    using round_half_even_bound [of x] by linarith
  then have "\<bar>n - round_half_even x\<bar> < 1"
    by (metis of_int_diff of_int_abs of_int_less_1_iff)
  then show ?thesis by simp
qed

lemma round_half_even_mono:
  assumes "x \<le> y"
  shows "round_half_even x \<le> round_half_even y"
proof (rule ccontr)
  assume "\<not> ?thesis"
  then have lt: "round_half_even y + 1 \<le> round_half_even x" by simp
  then have "of_int (round_half_even y) + (1 :: real) \<le> of_int (round_half_even x)"
    by (metis of_int_le_iff of_int_add of_int_1)
  with round_half_even_bound [of x] round_half_even_bound [of y] assms
  have x: "of_int (round_half_even x) - x = 1 / 2" and y: "x = y"
    and y': "y - of_int (round_half_even y) = 1 / 2"
    by linarith+
  from x y y' have "of_int (round_half_even x) = of_int (round_half_even y) + (1 :: real)"
    by linarith
  with y show False by simp
qed

lemma round_half_even_nonneg: "0 \<le> x \<Longrightarrow> 0 \<le> round_half_even x"
  using round_half_even_mono [of 0 x] by simp

lemma round_half_even_le_int: "x \<le> of_int n \<Longrightarrow> round_half_even x \<le> n"
  using round_half_even_mono [of x "of_int n"] by simp

text \<open>Rounding half to even is symmetric about zero.\<close>

lemma round_half_even_minus: "round_half_even (- x) = - round_half_even x"
proof (cases "\<bar>of_int (round_half_even x) - x\<bar> < 1 / 2")
  case True
  then have "\<bar>x - of_int (round_half_even x)\<bar> < 1 / 2" by (subst abs_minus_commute)
  then have "\<bar>of_int (- round_half_even x) - (- x)\<bar> < 1 / 2" by simp
  then show ?thesis by (rule round_half_even_unique)
next
  case False
  with round_half_even_bound [of x] have "\<bar>of_int (round_half_even x) - x\<bar> = 1 / 2" by simp
  then obtain n :: int where x: "x = of_int n + 1 / 2"
    by (cases "x \<le> of_int (round_half_even x)")
      (auto simp: abs_if algebra_simps intro: that [of "round_half_even x - 1"] that [of "round_half_even x"])
  have "- x = of_int (- n - 1) + 1 / 2" by (simp add: x)
  then have "round_half_even (- x) = (if even (- n - 1) then - n - 1 else - n)"
    by (simp only: round_half_even_tie) simp
  then show ?thesis by (simp add: x round_half_even_tie)
qed

section \<open>Rounding to a double\<close>

text \<open>The exponent brackets every positive number between two powers of two.\<close>

lemma bitlen_brackets:
  assumes "0 < n"
  shows "0 < bitlen n" and "(2 :: real) ^ nat (bitlen n - 1) \<le> of_int n"
    and "of_int n + 1 \<le> (2 :: real) ^ nat (bitlen n)"
proof -
  from bitlen_bounds [OF assms] have lo: "2 ^ nat (bitlen n - 1) \<le> n" and hi: "n < 2 ^ nat (bitlen n)"
    by simp_all
  from assms hi show "0 < bitlen n" by (cases "0 < bitlen n") simp_all
  from lo show "(2 :: real) ^ nat (bitlen n - 1) \<le> of_int n" by simp
  from hi have "n + 1 \<le> 2 ^ nat (bitlen n)" by simp
  then have "of_int (n + 1) \<le> (2 :: real) ^ nat (bitlen n)"
    by (simp only: of_int_le_numeral_power_cancel_iff)
  then show "of_int n + 1 \<le> (2 :: real) ^ nat (bitlen n)" by simp
qed

lemma expo_bounds:
  assumes "0 < y"
  shows "2 powi expo y \<le> y \<and> y < 2 powi (expo y + 1)"
proof (cases "1 \<le> y")
  case True
  let ?b = "bitlen \<lfloor>y\<rfloor>"
  from True have "0 < \<lfloor>y\<rfloor>" by simp
  note b = bitlen_brackets [OF this]
  from b(2,3) have "(2 :: real) ^ nat (?b - 1) \<le> y" "y < (2 :: real) ^ nat ?b" by linarith+
  moreover from b(1) have "(2 :: real) powi (?b - 1) = 2 ^ nat (?b - 1)" "(2 :: real) powi ?b = 2 ^ nat ?b"
    by (simp_all add: power_int_def)
  ultimately show ?thesis using True by (simp add: expo_def)
next
  case False
  with assms have y: "1 < 1 / y" by simp
  let ?m = "\<lceil>1 / y\<rceil> - 1"
  let ?b = "bitlen ?m"
  from y have "0 < ?m" by linarith
  note b = bitlen_brackets [OF this]
  from b(2,3) have "(2 :: real) ^ nat (?b - 1) < 1 / y" "1 / y \<le> (2 :: real) ^ nat ?b" by linarith+
  with assms have "1 / 2 ^ nat ?b \<le> y" "y < 1 / 2 ^ nat (?b - 1)" by (simp_all add: field_simps)
  moreover from b(1) have "(2 :: real) powi (- ?b) = 1 / 2 ^ nat ?b"
    "(2 :: real) powi (- ?b + 1) = 1 / 2 ^ nat (?b - 1)"
    by (simp_all add: power_int_def field_simps nat_diff_distrib)
  ultimately show ?thesis using False by (simp add: expo_def)
qed

lemma expo_mono:
  assumes "0 < y" and "y \<le> z"
  shows "expo y \<le> expo z"
proof -
  from assms have z: "0 < z" by simp
  from expo_bounds [OF assms(1)] expo_bounds [OF z] assms(2)
  have "(2 :: real) powi expo y < 2 powi (expo z + 1)" by linarith
  moreover have "(2 :: real) powi (expo z + 1) \<le> 2 powi expo y" if "expo z + 1 \<le> expo y"
    using that by (rule power_int_increasing) simp
  ultimately show ?thesis by fastforce
qed

lemma expo_binade:
  assumes "2 ^ k \<le> y" and "y < 2 ^ Suc k"
  shows "expo y = int k"
proof -
  from assms(1) have y: "1 \<le> y" using one_le_power [of "2 :: real" k] by linarith
  have "(2 :: int) ^ k \<le> \<lfloor>y\<rfloor>" using assms(1) by (simp add: le_floor_iff)
  moreover have "\<lfloor>y\<rfloor> < 2 ^ Suc k" using assms(2) by (simp add: floor_less_iff)
  ultimately have "bitlen \<lfloor>y\<rfloor> \<le> int (Suc k)" "int (Suc k) \<le> bitlen \<lfloor>y\<rfloor>"
    by (simp_all add: bitlen_le_iff_power bitlen_ge_iff_power del: of_nat_Suc power_Suc)
  then have "bitlen \<lfloor>y\<rfloor> = int (Suc k)" by simp
  with y show ?thesis by (simp add: expo_def)
qed

lemma fl64_binade:
  assumes "2 ^ k \<le> y" and "y < 2 ^ Suc k" and "k \<le> 52"
  shows "fl64 y = of_int (round_half_even (y * 2 ^ (52 - k))) / 2 ^ (52 - k)"
proof -
  from assms(1) have y: "0 < y" using zero_less_power [of "2 :: real" k] by linarith
  have u: "(2 :: real) powi (int k - 52) = 1 / 2 ^ (52 - k)"
    using assms(3) by (simp add: power_int_def nat_diff_distrib field_simps)
  from y expo_binade [OF assms(1,2)] show ?thesis
    by (simp add: fl64_def u)
qed

text \<open>Rounding moves a number by at most half the spacing of the doubles around it.\<close>

lemma fl64_error:
  "\<bar>fl64 y - y\<bar> \<le> 2 powi (max (expo \<bar>y\<bar>) (- 1022) - 52) / 2"
proof (cases "y = 0")
  case True
  then show ?thesis by (simp add: fl64_def)
next
  case False
  let ?u = "(2 :: real) powi (max (expo \<bar>y\<bar>) (- 1022) - 52)"
  have u: "0 < ?u" by simp
  have "of_int (round_half_even (y / ?u)) * ?u - y = (of_int (round_half_even (y / ?u)) - y / ?u) * ?u"
    using u by (simp add: left_diff_distrib)
  then have "\<bar>of_int (round_half_even (y / ?u)) * ?u - y\<bar>
      = \<bar>of_int (round_half_even (y / ?u)) - y / ?u\<bar> * ?u"
    using u by (simp only: abs_mult abs_of_pos)
  also have "\<dots> \<le> 1 / 2 * ?u"
    using round_half_even_bound [of "y / ?u"] u by (intro mult_right_mono) simp_all
  finally show ?thesis using False by (simp add: fl64_def Let_def)
qed

lemma fl64_binade_error:
  assumes "2 ^ k \<le> y" and "y < 2 ^ Suc k" and "k \<le> 52"
  shows "\<bar>fl64 y - y\<bar> \<le> 1 / 2 ^ (53 - k)"
proof -
  let ?n = "(2 :: real) ^ (52 - k)"
  have "\<bar>of_int (round_half_even (y * ?n)) - y * ?n\<bar> \<le> 1 / 2"
    by (rule round_half_even_bound)
  then have "\<bar>of_int (round_half_even (y * ?n)) / ?n - y\<bar> \<le> 1 / 2 / ?n"
    by (simp add: field_simps abs_le_iff)
  moreover have "(2 :: real) ^ (53 - k) = 2 * ?n"
    using assms(3) by (simp add: Suc_diff_le flip: power_Suc)
  ultimately show ?thesis by (simp add: fl64_binade [OF assms])
qed

text \<open>
  Rounding to a double keeps the sign and the order: within a binade it is the rounding
  of the significand, and across binades the power of two between the two numbers is a
  double that neither rounding can pass.
\<close>

lemma fl64_zero [simp]: "fl64 0 = 0"
  by (simp add: fl64_def)

lemma fl64_nonneg: "0 \<le> y \<Longrightarrow> 0 \<le> fl64 y"
  by (simp add: fl64_def Let_def round_half_even_nonneg)

lemma fl64_minus: "fl64 (- y) = - fl64 y"
  by (simp add: fl64_def Let_def round_half_even_minus)

lemma fl64_pos:
  assumes "0 < y"
  shows "fl64 y = of_int (round_half_even (y / 2 powi (max (expo y) (- 1022) - 52)))
    * 2 powi (max (expo y) (- 1022) - 52)"
  using assms by (simp add: fl64_def Let_def)

lemma fl64_below_next_power:
  assumes "0 < y"
  shows "fl64 y \<le> 2 powi (max (expo y) (- 1022) + 1)"
proof -
  let ?e = "max (expo y) (- 1022)"
  let ?u = "(2 :: real) powi (?e - 52)"
  have top: "2 powi (?e + 1) = 2 ^ 53 * ?u"
    by (simp add: power_int_diff power_int_add)
  from expo_bounds [OF assms] have "y \<le> 2 powi (expo y + 1)" by simp
  also have "\<dots> \<le> 2 powi (?e + 1)" by (rule power_int_increasing) simp_all
  finally have "y \<le> 2 ^ 53 * ?u" by (simp only: top)
  then have "y / ?u \<le> of_int (2 ^ 53)" by (simp add: field_simps)
  then have "round_half_even (y / ?u) \<le> 2 ^ 53" by (rule round_half_even_le_int)
  then have "of_int (round_half_even (y / ?u)) \<le> (2 :: real) ^ 53"
    by (simp only: of_int_le_numeral_power_cancel_iff)
  then have "of_int (round_half_even (y / ?u)) * ?u \<le> 2 ^ 53 * ?u"
    by (rule mult_right_mono) simp
  then show ?thesis by (simp only: fl64_pos [OF assms] top)
qed

lemma fl64_above_power:
  assumes "0 < z" and "- 1022 \<le> expo z"
  shows "2 powi expo z \<le> fl64 z"
proof -
  let ?v = "(2 :: real) powi (expo z - 52)"
  from assms(2) have f: "max (expo z) (- 1022) = expo z" by simp
  have bot: "2 powi expo z = 2 ^ 52 * ?v"
    by (simp add: power_int_diff)
  from expo_bounds [OF assms(1)] have "2 ^ 52 * ?v \<le> z" by (simp only: bot)
  then have "of_int (2 ^ 52) \<le> z / ?v" by (simp add: field_simps)
  then have "round_half_even (of_int (2 ^ 52)) \<le> round_half_even (z / ?v)"
    by (rule round_half_even_mono)
  then have "(2 :: real) ^ 52 \<le> of_int (round_half_even (z / ?v))"
    by (simp only: round_half_even_of_int numeral_power_le_of_int_cancel_iff)
  then have "2 ^ 52 * ?v \<le> of_int (round_half_even (z / ?v)) * ?v"
    by (rule mult_right_mono) simp
  then show ?thesis by (simp only: fl64_pos [OF assms(1)] f bot)
qed

lemma fl64_mono_pos:
  assumes "0 < y" and "y \<le> z"
  shows "fl64 y \<le> fl64 z"
proof -
  from assms have z: "0 < z" by simp
  let ?e = "max (expo y) (- 1022)" and ?f = "max (expo z) (- 1022)"
  let ?u = "(2 :: real) powi (?e - 52)"
  from expo_mono [OF assms] have ef: "?e \<le> ?f" by simp
  show ?thesis
  proof (cases "?e = ?f")
    case True
    from assms(2) have "y / ?u \<le> z / ?u" by (simp add: divide_right_mono)
    then have "round_half_even (y / ?u) \<le> round_half_even (z / ?u)" by (rule round_half_even_mono)
    then have "of_int (round_half_even (y / ?u)) * ?u \<le> of_int (round_half_even (z / ?u)) * ?u"
      by (simp add: mult_right_mono)
    then show ?thesis by (simp add: fl64_pos [OF assms(1)] fl64_pos [OF z] True)
  next
    case False
    with ef have lt: "?e + 1 \<le> expo z" and fz: "- 1022 \<le> expo z" by simp_all
    from assms(1) have "fl64 y \<le> 2 powi (?e + 1)" by (rule fl64_below_next_power)
    also from lt have "\<dots> \<le> 2 powi expo z" by (rule power_int_increasing) simp
    also from z fz have "\<dots> \<le> fl64 z" by (rule fl64_above_power)
    finally show ?thesis .
  qed
qed

lemma fl64_mono:
  assumes "y \<le> z"
  shows "fl64 y \<le> fl64 z"
proof -
  consider "0 < y" | "y \<le> 0" "0 \<le> z" | "z < 0" using assms by linarith
  then show ?thesis
  proof cases
    case 1
    then show ?thesis using assms by (rule fl64_mono_pos)
  next
    case 2
    then have "0 \<le> fl64 z" "0 \<le> fl64 (- y)" by (simp_all add: fl64_nonneg)
    then show ?thesis by (simp add: fl64_minus)
  next
    case 3
    with assms have "0 < - z" "- z \<le> - y" by simp_all
    then have "fl64 (- z) \<le> fl64 (- y)" by (rule fl64_mono_pos)
    then show ?thesis by (simp add: fl64_minus)
  qed
qed

text \<open>
  The mark of the gauge is a double, and the largest double below one half has a product
  with 100 that rounds to the double just below the mark.
\<close>

lemma fl64_50 [simp]: "fl64 50 = 50"
proof -
  have "fl64 50 = of_int (round_half_even (50 * 2 ^ (52 - 5))) / 2 ^ (52 - 5)"
    by (rule fl64_binade) simp_all
  then show ?thesis by simp
qed

lemma fl64_product_below_half:
  "fl64 ((2 ^ 53 - 1) / 2 ^ 54 * 100) = 50 - 1 / 2 ^ 47"
proof -
  let ?y = "(2 ^ 53 - 1) / 2 ^ 54 * 100 :: real"
  have "fl64 ?y = of_int (round_half_even (?y * 2 ^ (52 - 5))) / 2 ^ (52 - 5)"
    by (rule fl64_binade) simp_all
  moreover have "round_half_even (?y * 2 ^ (52 - 5)) = 7036874417766399"
    by (rule round_half_even_unique) (simp add: abs_less_iff)
  ultimately show ?thesis by simp
qed

section \<open>Digits\<close>

lemma digits_of_small: "n < 10 \<Longrightarrow> digits_of n = [digit_char n]"
  by (simp add: digits_of.simps)

lemma digits_of_large:
  "10 \<le> n \<Longrightarrow> digits_of n = digits_of (n div 10) @ [digit_char (n mod 10)]"
  by (subst digits_of.simps) simp

lemma of_char_digit_char: "d < 10 \<Longrightarrow> of_char (digit_char d) = 48 + d"
  by (simp add: digit_char_def)

lemma is_digit_digit_char [simp]: "d < 10 \<Longrightarrow> is_digit (digit_char d)"
  by (simp add: is_digit_def of_char_digit_char)

lemma digit_char_inject: "d < 10 \<Longrightarrow> e < 10 \<Longrightarrow> digit_char d = digit_char e \<longleftrightarrow> d = e"
  by (metis of_char_digit_char add_left_cancel)

lemma digits_of_nonempty [simp]: "digits_of n \<noteq> []"
  by (subst digits_of.simps) simp

lemma digits_of_all_digits: "list_all is_digit (digits_of n)"
  by (induction n rule: digits_of.induct) (subst digits_of.simps, simp)

lemma nat_of_digits_snoc:
  "nat_of_digits (cs @ [c]) = 10 * nat_of_digits cs + (of_char c - 48)"
  by (simp add: nat_of_digits_def)

lemma nat_of_digits_digit [simp]: "d < 10 \<Longrightarrow> nat_of_digits [digit_char d] = d"
  by (simp add: nat_of_digits_def of_char_digit_char)

lemma nat_of_digits_of [simp]: "nat_of_digits (digits_of n) = n"
proof (induction n rule: digits_of.induct)
  case (1 n)
  show ?case
  proof (cases "n < 10")
    case True
    then show ?thesis by (simp add: digits_of_small)
  next
    case False
    with 1 show ?thesis
      by (simp add: digits_of_large nat_of_digits_snoc of_char_digit_char)
  qed
qed

lemma digits_of_inject: "digits_of m = digits_of n \<longleftrightarrow> m = n"
  by (metis nat_of_digits_of)

lemma digit_char_numerals:
  "digit_char 0 = CHR ''0''" "digit_char 1 = CHR ''1''" "digit_char 2 = CHR ''2''"
  "digit_char 3 = CHR ''3''" "digit_char 4 = CHR ''4''" "digit_char 5 = CHR ''5''"
  "digit_char 6 = CHR ''6''" "digit_char 7 = CHR ''7''" "digit_char 8 = CHR ''8''"
  "digit_char 9 = CHR ''9''"
  by (simp_all add: digit_char_def char_of_eq_iff)

lemma digits_of_numeral:
  "digits_of (numeral k) =
     (if numeral k < (10 :: nat) then [digit_char (numeral k)]
      else digits_of (numeral k div 10) @ [digit_char (numeral k mod 10)])"
  by (rule digits_of.simps)

lemmas digits_eval = digits_of_numeral digits_of_small digit_char_numerals

section \<open>The text and its reading\<close>

lemma not_digit_punctuation [simp]:
  "\<not> is_digit CHR ''.''" "\<not> is_digit CHR ''-''" "\<not> is_digit CHR ''%''"
  by (simp_all add: is_digit_def)

lemma hd_digits_of_digit: "is_digit (hd (digits_of n))"
  using digits_of_all_digits [of n] digits_of_nonempty [of n]
  by (cases "digits_of n") simp_all

lemma read_percent_text:
  assumes "d < 10" and "sign = [] \<or> sign = ''-''"
  shows "read_percent (sign @ digits_of w @ ''.'' @ [digit_char d] @ ''%'') = Some (10 * w + d)"
proof -
  let ?body = "digits_of w @ ''.'' @ [digit_char d] @ ''%''"
  have hd: "hd ?body \<noteq> CHR ''-''"
    using hd_digits_of_digit [of w] by (auto simp: hd_append)
  have all: "\<forall>c \<in> set (digits_of w). is_digit c"
    using digits_of_all_digits [of w] by (simp add: list_all_iff)
  then have whole: "takeWhile is_digit ?body = digits_of w"
    and rest: "dropWhile is_digit ?body = ''.'' @ [digit_char d] @ ''%''"
    by simp_all
  from assms(2) hd have body:
    "(if sign @ ?body \<noteq> [] \<and> hd (sign @ ?body) = CHR ''-'' then tl (sign @ ?body) else sign @ ?body)
       = ?body"
    by auto
  show ?thesis
    unfolding read_percent_def Let_def body whole rest using assms(1) by simp
qed

lemma format_percent_Finite:
  assumes "\<bar>fl64 (x * 100)\<bar> < 2 ^ 1024"
  shows "format_percent (Finite x) =
     (if x < 0 then ''-'' else [])
     @ digits_of (nat \<bar>percent_tenths x\<bar> div 10)
     @ ''.'' @ [digit_char (nat \<bar>percent_tenths x\<bar> mod 10)] @ ''%''"
  using assms by (simp add: format_percent_def)

lemma format_percent_overflow:
  assumes "2 ^ 1024 \<le> \<bar>fl64 (x * 100)\<bar>"
  shows "format_percent (Finite x) = (if x < 0 then ''-inf%'' else ''inf%'')"
  using assms by (simp add: format_percent_def)

lemma format_percent_specials:
  "format_percent NaN = ''nan%''" "format_percent PosInf = ''inf%''"
  "format_percent NegInf = ''-inf%''"
  by (simp_all add: format_percent_def)

lemma read_format_percent:
  assumes "\<bar>fl64 (x * 100)\<bar> < 2 ^ 1024"
  shows "read_percent (format_percent (Finite x)) = Some (nat \<bar>percent_tenths x\<bar>)"
  unfolding format_percent_Finite [OF assms]
  by (subst read_percent_text) auto

lemma percent_tenths_accuracy: "\<bar>of_int (percent_tenths x) / 10 - fl64 (x * 100)\<bar> \<le> 1 / 20"
  using round_half_even_bound [of "fl64 (x * 100) * 10"]
  by (simp add: percent_tenths_def abs_le_iff) argo

lemma percent_tenths_nonneg: "0 \<le> x \<Longrightarrow> 0 \<le> percent_tenths x"
  by (simp add: percent_tenths_def round_half_even_nonneg fl64_nonneg)

text \<open>The tenths are 500 exactly when the rounded product lies from 49.95 to 50.05.\<close>

lemma round_half_even_eq_500_iff:
  "round_half_even (v * 10) = 500 \<longleftrightarrow> 4995 / 100 \<le> v \<and> v \<le> 5005 / 100"
proof
  assume "round_half_even (v * 10) = 500"
  with round_half_even_bound [of "v * 10"] have "\<bar>500 - v * 10\<bar> \<le> 1 / 2" by simp
  then show "4995 / 100 \<le> v \<and> v \<le> 5005 / 100" by linarith
next
  assume r: "4995 / 100 \<le> v \<and> v \<le> 5005 / 100"
  consider "v = 4995 / 100" | "v = 5005 / 100" | "4995 / 100 < v" "v < 5005 / 100"
    using r by fastforce
  then show "round_half_even (v * 10) = 500"
  proof cases
    case 1
    then have "v * 10 = of_int 499 + 1 / 2" by simp
    then show ?thesis by (simp only: round_half_even_tie) simp
  next
    case 2
    then have "v * 10 = of_int 500 + 1 / 2" by simp
    then show ?thesis by (simp only: round_half_even_tie) simp
  next
    case 3
    then have "\<bar>of_int 500 - v * 10\<bar> < 1 / 2" unfolding abs_less_iff by auto
    then show ?thesis by (rule round_half_even_unique)
  qed
qed

lemma percent_tenths_eq_500_iff:
  "percent_tenths x = 500 \<longleftrightarrow> 4995 / 100 \<le> fl64 (x * 100) \<and> fl64 (x * 100) \<le> 5005 / 100"
  by (simp add: percent_tenths_def round_half_even_eq_500_iff)

lemma format_percent_50:
  "format_percent (Finite x) = ''50.0%'' \<longleftrightarrow> 0 \<le> x \<and> percent_tenths x = 500"
proof
  assume f: "format_percent (Finite x) = ''50.0%''"
  then have fin: "\<bar>fl64 (x * 100)\<bar> < 2 ^ 1024"
    by (rule contrapos_pp) (simp add: format_percent_overflow)
  have "read_percent ''50.0%'' = Some 500"
    using read_percent_text [of 0 "[]" 50] by (simp add: digits_eval)
  with f read_format_percent [OF fin] have t: "\<bar>percent_tenths x\<bar> = 500" by simp
  from f have x: "\<not> x < 0" by (auto simp: format_percent_Finite [OF fin])
  with percent_tenths_nonneg [of x] t show "0 \<le> x \<and> percent_tenths x = 500" by simp
next
  assume t: "0 \<le> x \<and> percent_tenths x = 500"
  then have "\<bar>fl64 (x * 100)\<bar> \<le> 5005 / 100"
    using fl64_nonneg [of "x * 100"] by (simp add: percent_tenths_eq_500_iff)
  then have "\<bar>fl64 (x * 100)\<bar> < 2 ^ 1024" by (rule order_le_less_trans) simp
  with t show "format_percent (Finite x) = ''50.0%''"
    by (simp add: format_percent_Finite digits_eval)
qed

text \<open>
  Just below one half the rounding of the product cannot change the text: the product
  lies between 32 and 64, where doubles are \<open>2\<^sup>-\<^sup>4\<^sup>7\<close> apart.
\<close>

lemma percent_tenths_below_half:
  assumes "4996 / 10000 \<le> x" and "x < 1 / 2"
  shows "percent_tenths x = 500"
proof -
  from assms have "2 ^ 5 \<le> x * 100" "x * 100 < 2 ^ Suc 5" by simp_all
  then have "\<bar>fl64 (x * 100) - x * 100\<bar> \<le> 1 / 2 ^ (53 - 5)"
    by (rule fl64_binade_error) simp
  then have "\<bar>fl64 (x * 100) - x * 100\<bar> \<le> 1 / 1000" by (rule order_trans) simp
  with assms have "\<bar>of_int 500 - fl64 (x * 100) * 10\<bar> < 1 / 2"
    unfolding abs_le_iff abs_less_iff by simp
  then show ?thesis unfolding percent_tenths_def by (rule round_half_even_unique)
qed

section \<open>The text of two doubles next to a tie\<close>

text \<open>
  The double nearest to 0.4995 is below it, and its product with 100 rounds to a double
  above 49.95: the text is \<open>50.0%\<close>. The double nearest to 0.9755 is above it, and its
  product rounds to a double below 97.55: the text is \<open>97.5%\<close>. With an exact product
  the texts would be \<open>49.9%\<close> and \<open>97.6%\<close>.
\<close>

lemma fl64_product_0_4995:
  "fl64 (8998192055486251 / 2 ^ 54 * 100) = 7029837543348634 / 2 ^ 47"
proof -
  let ?y = "8998192055486251 / 2 ^ 54 * 100 :: real"
  have "fl64 ?y = of_int (round_half_even (?y * 2 ^ (52 - 5))) / 2 ^ (52 - 5)"
    by (rule fl64_binade) simp_all
  moreover have "round_half_even (?y * 2 ^ (52 - 5)) = 7029837543348634"
    by (rule round_half_even_unique) (simp add: abs_less_iff)
  ultimately show ?thesis by simp
qed

lemma fl64_product_0_9755:
  "fl64 (4393261436499919 / 2 ^ 52 * 100) = 6864470994531123 / 2 ^ 46"
proof -
  let ?y = "4393261436499919 / 2 ^ 52 * 100 :: real"
  have "fl64 ?y = of_int (round_half_even (?y * 2 ^ (52 - 6))) / 2 ^ (52 - 6)"
    by (rule fl64_binade) simp_all
  moreover have "round_half_even (?y * 2 ^ (52 - 6)) = 6864470994531123"
    by (rule round_half_even_unique) (simp add: abs_less_iff)
  ultimately show ?thesis by simp
qed

lemma format_percent_0_4995: "format_percent (Finite (8998192055486251 / 2 ^ 54)) = ''50.0%''"
proof -
  have "percent_tenths (8998192055486251 / 2 ^ 54) = 500"
    unfolding percent_tenths_def fl64_product_0_4995
    by (rule round_half_even_unique) (simp add: abs_less_iff)
  then show ?thesis by (simp add: format_percent_50)
qed

lemma format_percent_0_9755: "format_percent (Finite (4393261436499919 / 2 ^ 52)) = ''97.5%''"
proof -
  have "percent_tenths (4393261436499919 / 2 ^ 52) = 975"
    unfolding percent_tenths_def fl64_product_0_9755
    by (rule round_half_even_unique) (simp add: abs_less_iff)
  moreover have "\<bar>fl64 (4393261436499919 / 2 ^ 52 * 100)\<bar> < 2 ^ 1024"
    unfolding fl64_product_0_9755 by simp
  ultimately show ?thesis by (simp add: format_percent_Finite digits_eval)
qed

end
