(* ===== verification/Streamlit.thy ===== *)
theory Streamlit
  imports PyFloat
begin

text \<open>
  What the script hands to the UI library, as data. A run of the script is the list of
  the calls it makes, in program order; a \<^verbatim>\<open>with\<close> block is a \<open>Within\<close> node that holds
  the calls made inside it. Figures and tables are records and lists with the fields the
  script sets. Literals that are only displayed are \<open>Lit\<close> references; keyword arguments
  that only style a call (\<open>help\<close>, \<open>use_container_width\<close> of a button, \<open>type\<close>) are
  left out.
\<close>

section \<open>Figures\<close>

record gauge_cfg =
  axis_range :: "int option \<times> int option"
  bar_color :: pystr
  steps :: "((int \<times> int) \<times> pystr) list"
  threshold_line :: "pystr \<times> int"
  threshold_thickness :: real
  threshold_value :: int

record indicator =
  mode :: pystr
  ind_value :: pyfloat
  domain_x :: "int \<times> int"
  domain_y :: "int \<times> int"
  title_text :: lit
  gauge :: gauge_cfg
  layout_height :: "int option"

record bar_chart =
  bar_x :: "pyfloat list"
  bar_y :: "pystr list"
  orientation :: pystr
  bar_title :: lit
  bar_labels :: "(pystr \<times> pystr) list"

datatype figure = Indicator indicator | Bar bar_chart

section \<open>Tables\<close>

text \<open>A dictionary of columns, in the order the keys are written.\<close>

type_synonym columns = "(pystr \<times> pystr list) list"

text \<open>A list of rows, each a dictionary from column name to cell.\<close>

type_synonym dataframe = "(pystr \<times> cell) list list"

section \<open>Elements\<close>

datatype place = Sidebar | Column nat | Container | Tab nat

datatype metric_value = PercentOf pyfloat | MetricText pystr

datatype element =
    SetPageConfig pystr pystr pystr pystr
  | Markdown lit bool
  | Title lit
  | Subheader lit
  | Info lit
  | Warning lit
  | Error lit "py_exn option"
  | Metric lit metric_value
  | PlotlyChart figure bool
  | Dataframe columns bool bool
  | Image pystr lit bool
  | Columns "nat list"
  | Tabs "pystr list"
  | Radio pystr "pystr list"
  | Selectbox pystr "cell list"
  | NumberInput pystr int int int
  | Button lit
  | Within place "element list"

text \<open>The calls of a run with the block structure forgotten, in program order.\<close>

fun leaves :: "element \<Rightarrow> element list" where
  "leaves (Within p es) = concat (map leaves es)"
| "leaves e = [e]"

definition all_leaves :: "element list \<Rightarrow> element list" where
  "all_leaves es = concat (map leaves es)"

definition emits :: "element list \<Rightarrow> element \<Rightarrow> bool" where
  "emits es e \<longleftrightarrow> e \<in> set (all_leaves es)"

fun is_error :: "element \<Rightarrow> bool" where
  "is_error (Error l x) = True"
| "is_error _ = False"

fun is_chart :: "element \<Rightarrow> bool" where
  "is_chart (PlotlyChart f w) = True"
| "is_chart _ = False"

text \<open>
  A stretch of the script: the calls it made and, if an exception ended it, the exception.
  Calls made before the exception stay on the page.
\<close>

type_synonym trace = "element list \<times> py_exn option"

definition emit :: "element list \<Rightarrow> trace" where
  "emit es = (es, None)"

definition of_result :: "element list result \<Rightarrow> trace" where
  "of_result r = (case r of Inr es \<Rightarrow> (es, None) | Inl e \<Rightarrow> ([], Some e))"

definition seq_trace :: "trace \<Rightarrow> trace \<Rightarrow> trace" where
  "seq_trace s t = (case snd s of None \<Rightarrow> (fst s @ fst t, snd t) | Some e \<Rightarrow> s)"

definition in_place :: "place \<Rightarrow> trace \<Rightarrow> trace" where
  "in_place p t = ([Within p (fst t)], snd t)"

definition aborted :: "trace \<Rightarrow> bool" where
  "aborted t \<longleftrightarrow> snd t \<noteq> None"

lemma emit_sel [simp]: "fst (emit es) = es" "snd (emit es) = None"
  by (simp_all add: emit_def)

lemma seq_trace_simps [simp]:
  "seq_trace (es, None) t = (es @ fst t, snd t)"
  "seq_trace (es, Some e) t = (es, Some e)"
  "seq_trace (emit xs) (emit ys) = emit (xs @ ys)"
  "seq_trace (emit xs) (es, x) = (xs @ es, x)"
  "seq_trace t (emit []) = t"
  by (cases t; cases "snd t"; simp add: emit_def seq_trace_def)+

lemma seq_trace_assoc: "seq_trace (seq_trace r s) t = seq_trace r (seq_trace s t)"
  by (cases r; cases s; cases t; cases "snd r"; cases "snd s") (simp_all add: seq_trace_def)

lemma of_result_simps [simp]:
  "of_result (Inr es) = emit es"
  "of_result (Inl e) = ([], Some e)"
  by (simp_all add: of_result_def emit_def)

lemma in_place_simps [simp]:
  "in_place p (es, x) = ([Within p es], x)"
  "in_place p (emit es) = emit [Within p es]"
  by (simp_all add: in_place_def emit_def)

lemma aborted_simps [simp]:
  "aborted (es, x) \<longleftrightarrow> x \<noteq> None"
  "\<not> aborted (emit es)"
  "aborted (in_place p t) \<longleftrightarrow> aborted t"
  "aborted (seq_trace s t) \<longleftrightarrow> aborted s \<or> aborted t"
  by (cases s; cases "snd s"; auto simp: aborted_def emit_def in_place_def seq_trace_def)+

lemma aborted_of_result [simp]: "aborted (of_result r) \<longleftrightarrow> isl r"
  by (cases r) simp_all

lemma fst_seq_trace: "fst (seq_trace s t) = fst s @ (if aborted s then [] else fst t)"
  by (cases s; cases "snd s") (auto simp: seq_trace_def aborted_def)

lemma fst_in_place [simp]: "fst (in_place p t) = [Within p (fst t)]"
  by (simp add: in_place_def)

lemma fst_seq_trace_prefix: "\<exists>rest. fst (seq_trace s t) = fst s @ rest"
  by (cases s; cases "snd s") (auto simp: seq_trace_def)

lemma all_leaves_simps [simp]:
  "all_leaves [] = []"
  "all_leaves (e # es) = leaves e @ all_leaves es"
  by (simp_all add: all_leaves_def)

lemma all_leaves_append [simp]: "all_leaves (xs @ ys) = all_leaves xs @ all_leaves ys"
  by (simp add: all_leaves_def)

lemma leaves_Within [simp]: "leaves (Within p es) = all_leaves es"
  by (simp add: all_leaves_def)

declare leaves.simps(1) [simp del]

lemma emits_Nil [simp]: "\<not> emits [] e"
  by (simp add: emits_def)

lemma emits_Cons: "emits (x # xs) e \<longleftrightarrow> e \<in> set (leaves x) \<or> emits xs e"
  by (simp add: emits_def)

lemma emits_append: "emits (xs @ ys) e \<longleftrightarrow> emits xs e \<or> emits ys e"
  by (auto simp: emits_def)

lemma leaves_not_Within: "e \<in> set (leaves x) \<Longrightarrow> \<forall>p es. e \<noteq> Within p es"
proof (induction x arbitrary: e rule: leaves.induct)
  case (1 p es)
  then show ?case by (auto simp: all_leaves_def)
qed auto

end
