(* ===== verification/Gateway.thy ===== *)
theory Gateway
  imports Streamlit
begin

text \<open>
  The model gateway: \<open>load_model\<close> with its \<^verbatim>\<open>@st.cache_resource\<close> decorator
  (\<^verbatim>\<open>src/app.py\<close>, lines 53 to 63) and the scoring expression of line 179. The file system
  is the function that says what \<open>joblib.load\<close> would return for a path at the moment of
  the call; the pipeline is the function \<open>predict_proba\<close> computes, which may raise.
\<close>

section \<open>The pipeline and the artifact\<close>

type_synonym pipeline = "dataframe \<Rightarrow> pyfloat list list result"

type_synonym loader = "pystr \<Rightarrow> pipeline result"

definition artifact_path :: pystr where
  "artifact_path = ''loan_pipeline.joblib''"

section \<open>Loading\<close>

text \<open>
  The body of \<open>load_model\<close>: the value returned and the elements emitted, or the exception
  that leaves the function. Only \<open>FileNotFoundError\<close> is handled.
\<close>

definition load_model :: "loader \<Rightarrow> (pipeline option \<times> element list) result" where
  "load_model jl =
     (case jl artifact_path of
        Inr m \<Rightarrow> Inr (Some m, [])
      | Inl e \<Rightarrow>
          if caught_by_FileNotFoundError e then Inr (None, [Error (Lit 58) None])
          else Inl e)"

text \<open>
  The decorator: one process-wide slot. A call with a filled slot returns the stored value
  and replays the stored elements without running the body; a call with an empty slot runs
  the body and stores what it returns, the value \<open>None\<close> included. An exception leaves the
  slot empty.
\<close>

type_synonym 'a resource_cache = "('a \<times> element list) option"

definition cache_resource ::
  "('w \<Rightarrow> ('a \<times> element list) result) \<Rightarrow> 'a resource_cache \<Rightarrow> 'w \<Rightarrow>
     ('a \<times> element list) result \<times> 'a resource_cache" where
  "cache_resource f c w =
     (case c of
        Some v \<Rightarrow> (Inr v, c)
      | None \<Rightarrow> (case f w of Inl e \<Rightarrow> (Inl e, None) | Inr v \<Rightarrow> (Inr v, Some v)))"

text \<open>Whether a call with this slot runs the body, that is, reads the artifact.\<close>

definition runs_body :: "'a resource_cache \<Rightarrow> bool" where
  "runs_body c \<longleftrightarrow> c = None"

type_synonym model_cache = "pipeline option resource_cache"

text \<open>Line 63, \<^verbatim>\<open>model = load_model()\<close>, through the decorator.\<close>

definition cached_load_model ::
  "model_cache \<Rightarrow> loader \<Rightarrow> (pipeline option \<times> element list) result \<times> model_cache" where
  "cached_load_model c jl = cache_resource load_model c jl"

text \<open>
  The process over its lifetime: the script runs once per interaction, each time against
  the file system of that moment. \<open>process_cache\<close> is the slot after the runs,
  \<open>body_returns\<close> the number of runs in which the body ran and returned.
\<close>

fun process_cache :: "model_cache \<Rightarrow> loader list \<Rightarrow> model_cache" where
  "process_cache c [] = c"
| "process_cache c (jl # jls) = process_cache (snd (cached_load_model c jl)) jls"

fun body_returns :: "model_cache \<Rightarrow> loader list \<Rightarrow> nat" where
  "body_returns c [] = 0"
| "body_returns c (jl # jls) =
     (if runs_body c \<and> \<not> isl (fst (cached_load_model c jl)) then 1 else 0)
       + body_returns (snd (cached_load_model c jl)) jls"


section \<open>Scoring\<close>

text \<open>Line 179: \<^verbatim>\<open>model.predict_proba(input_df)[0][1]\<close>.\<close>

definition score :: "pipeline \<Rightarrow> dataframe \<Rightarrow> pyfloat result" where
  "score m df =
     bind_result (m df) (\<lambda>rows. bind_result (py_index rows 0) (\<lambda>row. py_index row 1))"

text \<open>
  What the script relies on from a pipeline at a data frame: one row of class
  probabilities per input row, two classes, each probability in the unit interval.
\<close>

definition proba_ok :: "pipeline \<Rightarrow> dataframe \<Rightarrow> bool" where
  "proba_ok m df \<longleftrightarrow>
     (\<exists>rows. m df = Inr rows \<and> length rows = length df \<and>
        list_all (\<lambda>row. length row = 2 \<and> list_all in_unit_interval row) rows)"

section \<open>Facts about loading\<close>

lemma load_model_found:
  "jl artifact_path = Inr m \<Longrightarrow> load_model jl = Inr (Some m, [])"
  by (simp add: load_model_def)

lemma load_model_missing:
  "jl artifact_path = Inl e \<Longrightarrow> caught_by_FileNotFoundError e \<Longrightarrow>
     load_model jl = Inr (None, [Error (Lit 58) None])"
  by (simp add: load_model_def)

lemma load_model_raises:
  "jl artifact_path = Inl e \<Longrightarrow> \<not> caught_by_FileNotFoundError e \<Longrightarrow> load_model jl = Inl e"
  by (simp add: load_model_def)

lemmas load_model_simps = load_model_found load_model_missing load_model_raises

lemma load_model_Inl_iff:
  "load_model jl = Inl e \<longleftrightarrow> jl artifact_path = Inl e \<and> \<not> caught_by_FileNotFoundError e"
  by (auto simp: load_model_def split: sum.splits)

lemma load_model_Inr_cases:
  assumes "load_model jl = Inr (r, es)"
  obtains (found) m where "jl artifact_path = Inr m" "r = Some m" "es = []"
  | (missing) e where "jl artifact_path = Inl e" "caught_by_FileNotFoundError e"
      "r = None" "es = [Error (Lit 58) None]"
  using assms by (auto simp: load_model_def split: sum.splits if_splits)

lemma load_model_never_raises_FileNotFoundError:
  "load_model jl = Inl e \<Longrightarrow> \<not> caught_by_FileNotFoundError e"
  by (simp add: load_model_Inl_iff)

section \<open>Facts about the cache\<close>

lemma cache_resource_hit [simp]: "cache_resource f (Some v) w = (Inr v, Some v)"
  by (simp add: cache_resource_def)

lemma cache_resource_miss:
  "cache_resource f None w = (case f w of Inl e \<Rightarrow> (Inl e, None) | Inr v \<Rightarrow> (Inr v, Some v))"
  by (simp add: cache_resource_def)

lemma cache_resource_slot:
  "snd (cache_resource f c w) = (case c of Some v \<Rightarrow> Some v
      | None \<Rightarrow> (case f w of Inl e \<Rightarrow> None | Inr v \<Rightarrow> Some v))"
  by (simp add: cache_resource_def split: option.splits sum.splits)

lemma cache_resource_result_stored:
  "cache_resource f c w = (Inr v, c') \<Longrightarrow> c' = Some v"
  by (auto simp: cache_resource_def split: option.splits sum.splits)

lemma cache_resource_raise_empty:
  "cache_resource f c w = (Inl e, c') \<Longrightarrow> c = None \<and> c' = None \<and> f w = Inl e"
  by (auto simp: cache_resource_def split: option.splits sum.splits)

lemma cached_load_model_hit [simp]: "cached_load_model (Some v) jl = (Inr v, Some v)"
  by (simp add: cached_load_model_def)

lemma cached_load_model_miss:
  "cached_load_model None jl =
     (case load_model jl of Inl e \<Rightarrow> (Inl e, None) | Inr v \<Rightarrow> (Inr v, Some v))"
  by (simp add: cached_load_model_def cache_resource_miss)

lemma process_cache_filled [simp]: "process_cache (Some v) jls = Some v"
  by (induction jls) simp_all

lemma body_returns_filled [simp]: "body_returns (Some v) jls = 0"
  by (induction jls) (simp_all add: runs_body_def)

lemma process_cache_append:
  "process_cache c (xs @ ys) = process_cache (process_cache c xs) ys"
  by (induction xs arbitrary: c) simp_all

section \<open>Facts about scoring\<close>

lemma score_Inr_iff:
  "score m df = Inr p \<longleftrightarrow>
     (\<exists>rows. m df = Inr rows \<and> 0 < length rows \<and> 1 < length (rows ! 0) \<and> p = rows ! 0 ! 1)"
  by (auto simp: score_def bind_result_Inr_iff py_index_Inr_iff)

lemma score_pipeline_raises: "m df = Inl e \<Longrightarrow> score m df = Inl e"
  by (simp add: score_def)

lemma score_no_rows:
  "m df = Inr [] \<Longrightarrow> score m df = Inl (PyExn IndexError (OutOfBounds 0 0))"
  by (simp add: score_def)

lemma score_short_row:
  "m df = Inr (row # rows) \<Longrightarrow> length row \<le> 1 \<Longrightarrow>
     score m df = Inl (PyExn IndexError (OutOfBounds 1 (length row)))"
  by (simp add: score_def py_index_def)

lemma score_first_row:
  "m df = Inr ((a # p # row) # rows) \<Longrightarrow> score m df = Inr p"
  by (simp add: score_def)

lemma score_Inl_cases:
  assumes "score m df = Inl e"
  obtains (pipeline) "m df = Inl e"
  | (index) "\<exists>rows. m df = Inr rows" "exn_class_of e = IndexError"
  using assms
  by (auto simp: score_def bind_result_Inl_iff py_index_Inl_iff)

lemma score_proba_ok:
  assumes "proba_ok m df" and "df \<noteq> []"
  shows "\<exists>p. score m df = Inr p \<and> in_unit_interval p"
proof -
  from assms obtain row rows where rows: "m df = Inr (row # rows)"
    and row: "length row = 2" "list_all in_unit_interval row"
    by (cases df) (auto simp: proba_ok_def length_Suc_conv)
  from row obtain a p where "row = [a, p]"
    by (auto simp: length_Suc_conv numeral_2_eq_2)
  with rows row show ?thesis by (simp add: score_first_row)
qed

section \<open>Properties of the gateway\<close>

text \<open>
  C4. \<open>load_model\<close> on every branch: an exception leaves it only if \<open>joblib.load\<close>
  raised it and it is not a \<open>FileNotFoundError\<close>; a return of \<open>None\<close> comes with
  exactly the not-found notice and only after a \<open>FileNotFoundError\<close>; a return of a
  pipeline is the loaded one and emits nothing.
\<close>

theorem load_model_contract:
  "(case load_model jl of
      Inl e \<Rightarrow> jl artifact_path = Inl e \<and> \<not> caught_by_FileNotFoundError e
    | Inr (None, es) \<Rightarrow>
        es = [Error (Lit 58) None] \<and>
        (\<exists>e. jl artifact_path = Inl e \<and> caught_by_FileNotFoundError e)
    | Inr (Some m, es) \<Rightarrow> es = [] \<and> jl artifact_path = Inr m)"
  by (auto simp: load_model_def split: sum.splits)

text \<open>
  C3. Over any sequence of script runs, against any file systems, the body of
  \<open>load_model\<close> returns at most once: the artifact is loaded at most once per process.
\<close>

theorem load_at_most_once: "body_returns c jls \<le> 1"
proof (induction jls arbitrary: c)
  case Nil
  show ?case by simp
next
  case (Cons jl jls)
  show ?case
  proof (cases "snd (cached_load_model c jl)")
    case None
    then have "isl (fst (cached_load_model c jl))"
      by (cases "cached_load_model c jl"; cases "fst (cached_load_model c jl)")
        (auto simp: cached_load_model_def dest: cache_resource_result_stored)
    with None Cons.IH [of None] show ?thesis by simp
  next
    case (Some v)
    then show ?thesis by simp
  qed
qed

text \<open>
  C7. The failure is cached: once a run has found the artifact missing, every later run
  gets \<open>None\<close> for the model and the notice replayed, whatever the file system holds by
  then, and the artifact is not read again.
\<close>

theorem missing_artifact_is_cached:
  assumes "jl artifact_path = Inl e" and "caught_by_FileNotFoundError e"
  shows "cached_load_model (process_cache None (jl # jls)) jl' =
           (Inr (None, [Error (Lit 58) None]), Some (None, [Error (Lit 58) None]))
         \<and> \<not> runs_body (process_cache None (jl # jls))"
  using assms by (simp add: cached_load_model_miss load_model_missing runs_body_def)

theorem missing_artifact_is_cached_witness:
  "cached_load_model
     (process_cache None
        [\<lambda>_. Inl (PyExn FileNotFoundError (Text artifact_path)), \<lambda>_. Inr (\<lambda>df. Inr [])])
     (\<lambda>_. Inr (\<lambda>df. Inr [[Finite 0, Finite 1]])) =
   (Inr (None, [Error (Lit 58) None]), Some (None, [Error (Lit 58) None]))
   \<and> \<not> runs_body
       (process_cache None
          [\<lambda>_. Inl (PyExn FileNotFoundError (Text artifact_path)), \<lambda>_. Inr (\<lambda>df. Inr [])])"
  using missing_artifact_is_cached
    [of "\<lambda>_. Inl (PyExn FileNotFoundError (Text artifact_path))"
        "PyExn FileNotFoundError (Text artifact_path)"
        "[\<lambda>_. Inr (\<lambda>df. Inr [])]" "\<lambda>_. Inr (\<lambda>df. Inr [[Finite 0, Finite 1]])"]
  by simp

text \<open>
  C10. The scoring expression on every outcome of the pipeline: its exception is passed on
  unchanged, an array without rows or a first row with fewer than two entries raises
  \<open>IndexError\<close>, and otherwise the score is the second entry of the first row.
\<close>

theorem score_outcomes:
  "score m df =
     (case m df of
        Inl e \<Rightarrow> Inl e
      | Inr [] \<Rightarrow> Inl (PyExn IndexError (OutOfBounds 0 0))
      | Inr ([] # rows) \<Rightarrow> Inl (PyExn IndexError (OutOfBounds 1 0))
      | Inr ([a] # rows) \<Rightarrow> Inl (PyExn IndexError (OutOfBounds 1 1))
      | Inr ((a # p # row) # rows) \<Rightarrow> Inr p)"
  by (simp add: score_def split: sum.splits list.splits)

end
