(* ===== verification/Form.thy ===== *)
theory Form
  imports Streamlit
begin

text \<open>
  The input form of the prediction page (\<^verbatim>\<open>src/app.py\<close>, lines 86 to 149): eleven widget
  calls, each the configuration the script passes and the value the call returns. The
  values the calls return are the state of the form; the user changes one at a time, and
  the library offers a select box only its options and a number input only values from
  its minimum upwards. The first run sees the first option of every select box and the
  \<open>value\<close> argument of every number input.
\<close>

section \<open>Widget configurations\<close>

record 'a selectbox_cfg =
  sb_label :: pystr
  sb_options :: "'a list"

record number_input_cfg =
  ni_label :: pystr
  ni_min_value :: int
  ni_step :: int
  ni_value :: int

definition gender_box :: "pystr selectbox_cfg" where
  "gender_box = \<lparr>sb_label = ''Genre'', sb_options = [''Male'', ''Female'']\<rparr>"

definition education_box :: "pystr selectbox_cfg" where
  "education_box =
     \<lparr>sb_label = u_E_acute @ ''ducation'', sb_options = [''Graduate'', ''Not Graduate'']\<rparr>"

definition married_box :: "pystr selectbox_cfg" where
  "married_box = \<lparr>sb_label = ''Mari'' @ u_e_acute @ ''(e)'', sb_options = [''Yes'', ''No'']\<rparr>"

definition self_employed_box :: "pystr selectbox_cfg" where
  "self_employed_box =
     \<lparr>sb_label = ''Ind'' @ u_e_acute @ ''pendant'', sb_options = [''Yes'', ''No'']\<rparr>"

definition dependents_box :: "pystr selectbox_cfg" where
  "dependents_box =
     \<lparr>sb_label = ''Personnes '' @ u_a_grave @ '' charge'',
      sb_options = [''0'', ''1'', ''2'', ''3+'']\<rparr>"

definition property_area_box :: "pystr selectbox_cfg" where
  "property_area_box =
     \<lparr>sb_label = ''Zone de propri'' @ u_e_acute @ ''t'' @ u_e_acute,
      sb_options = [''Urban'', ''Semiurban'', ''Rural'']\<rparr>"

definition applicant_income_input :: number_input_cfg where
  "applicant_income_input =
     \<lparr>ni_label = ''Revenu du demandeur ($)'', ni_min_value = 0, ni_step = 500,
      ni_value = 5000\<rparr>"

definition coapplicant_income_input :: number_input_cfg where
  "coapplicant_income_input =
     \<lparr>ni_label = ''Revenu du co-demandeur ($)'', ni_min_value = 0, ni_step = 500,
      ni_value = 0\<rparr>"

definition loan_amount_input :: number_input_cfg where
  "loan_amount_input =
     \<lparr>ni_label = ''Montant du pr'' @ u_e_circ @ ''t (k$)'', ni_min_value = 0, ni_step = 10,
      ni_value = 100\<rparr>"

definition loan_amount_term_box :: "int selectbox_cfg" where
  "loan_amount_term_box =
     \<lparr>sb_label = ''Dur'' @ u_e_acute @ ''e du pr'' @ u_e_circ @ ''t (jours)'',
      sb_options = [360, 180, 480, 300, 240, 120, 84]\<rparr>"

definition credit_history_box :: "pyfloat selectbox_cfg" where
  "credit_history_box =
     \<lparr>sb_label = ''Historique de cr'' @ u_e_acute @ ''dit'',
      sb_options = [Finite 1, Finite 0]\<rparr>"

text \<open>The \<open>format_func\<close> of the credit history box, line 147.\<close>

definition credit_history_format :: "pyfloat \<Rightarrow> pystr" where
  "credit_history_format x =
     (if float_eq x (Finite 1) then u_check_mark @ '' Bon historique''
      else u_cross_mark @ '' Historique faible'')"

lemmas box_defs [widget_defs] =
  gender_box_def education_box_def married_box_def self_employed_box_def
  dependents_box_def property_area_box_def loan_amount_term_box_def credit_history_box_def

lemmas input_defs [widget_defs] =
  applicant_income_input_def coapplicant_income_input_def loan_amount_input_def

section \<open>What the widgets return\<close>

definition selectbox_default :: "'a selectbox_cfg \<Rightarrow> 'a option" where
  "selectbox_default cfg = (case sb_options cfg of [] \<Rightarrow> None | x # _ \<Rightarrow> Some x)"

definition selectbox_accepts :: "'a selectbox_cfg \<Rightarrow> 'a \<Rightarrow> bool" where
  "selectbox_accepts cfg v \<longleftrightarrow> v \<in> set (sb_options cfg)"

definition number_input_accepts :: "number_input_cfg \<Rightarrow> int \<Rightarrow> bool" where
  "number_input_accepts cfg v \<longleftrightarrow> ni_min_value cfg \<le> v"

text \<open>The variables the widget calls assign, by the names the script gives them.\<close>

record form =
  gender :: pystr
  education :: pystr
  married :: pystr
  self_employed :: pystr
  dependents :: pystr
  property_area :: pystr
  applicant_income :: int
  coapplicant_income :: int
  loan_amount :: int
  loan_amount_term :: int
  credit_history :: pyfloat

definition init_form :: form where
  "init_form =
     \<lparr>gender = ''Male'', education = ''Graduate'', married = ''Yes'', self_employed = ''Yes'',
      dependents = ''0'', property_area = ''Urban'',
      applicant_income = ni_value applicant_income_input,
      coapplicant_income = ni_value coapplicant_income_input,
      loan_amount = ni_value loan_amount_input,
      loan_amount_term = 360, credit_history = Finite 1\<rparr>"

section \<open>User interaction\<close>

datatype form_event =
    SetGender pystr
  | SetEducation pystr
  | SetMarried pystr
  | SetSelfEmployed pystr
  | SetDependents pystr
  | SetPropertyArea pystr
  | SetApplicantIncome int
  | SetCoapplicantIncome int
  | SetLoanAmount int
  | SetLoanAmountTerm int
  | SetCreditHistory pyfloat

text \<open>One interaction: the new form, or \<open>None\<close> for a value the widget does not offer.\<close>

fun apply_event :: "form \<Rightarrow> form_event \<Rightarrow> form option" where
  "apply_event f (SetGender v) =
     (if selectbox_accepts gender_box v then Some (f\<lparr>gender := v\<rparr>) else None)"
| "apply_event f (SetEducation v) =
     (if selectbox_accepts education_box v then Some (f\<lparr>education := v\<rparr>) else None)"
| "apply_event f (SetMarried v) =
     (if selectbox_accepts married_box v then Some (f\<lparr>married := v\<rparr>) else None)"
| "apply_event f (SetSelfEmployed v) =
     (if selectbox_accepts self_employed_box v then Some (f\<lparr>self_employed := v\<rparr>) else None)"
| "apply_event f (SetDependents v) =
     (if selectbox_accepts dependents_box v then Some (f\<lparr>dependents := v\<rparr>) else None)"
| "apply_event f (SetPropertyArea v) =
     (if selectbox_accepts property_area_box v then Some (f\<lparr>property_area := v\<rparr>) else None)"
| "apply_event f (SetApplicantIncome v) =
     (if number_input_accepts applicant_income_input v
      then Some (f\<lparr>applicant_income := v\<rparr>) else None)"
| "apply_event f (SetCoapplicantIncome v) =
     (if number_input_accepts coapplicant_income_input v
      then Some (f\<lparr>coapplicant_income := v\<rparr>) else None)"
| "apply_event f (SetLoanAmount v) =
     (if number_input_accepts loan_amount_input v then Some (f\<lparr>loan_amount := v\<rparr>) else None)"
| "apply_event f (SetLoanAmountTerm v) =
     (if selectbox_accepts loan_amount_term_box v
      then Some (f\<lparr>loan_amount_term := v\<rparr>) else None)"
| "apply_event f (SetCreditHistory v) =
     (if selectbox_accepts credit_history_box v
      then Some (f\<lparr>credit_history := v\<rparr>) else None)"

fun apply_events :: "form \<Rightarrow> form_event list \<Rightarrow> form option" where
  "apply_events f [] = Some f"
| "apply_events f (ev # evs) =
     (case apply_event f ev of None \<Rightarrow> None | Some f' \<Rightarrow> apply_events f' evs)"

inductive reachable_form :: "form \<Rightarrow> bool" where
  init: "reachable_form init_form"
| step: "reachable_form f \<Longrightarrow> apply_event f ev = Some f' \<Longrightarrow> reachable_form f'"

text \<open>The invariant: every variable holds a value its widget offers.\<close>

definition valid_form :: "form \<Rightarrow> bool" where
  "valid_form f \<longleftrightarrow>
     selectbox_accepts gender_box (gender f) \<and>
     selectbox_accepts education_box (education f) \<and>
     selectbox_accepts married_box (married f) \<and>
     selectbox_accepts self_employed_box (self_employed f) \<and>
     selectbox_accepts dependents_box (dependents f) \<and>
     selectbox_accepts property_area_box (property_area f) \<and>
     number_input_accepts applicant_income_input (applicant_income f) \<and>
     number_input_accepts coapplicant_income_input (coapplicant_income f) \<and>
     number_input_accepts loan_amount_input (loan_amount f) \<and>
     selectbox_accepts loan_amount_term_box (loan_amount_term f) \<and>
     selectbox_accepts credit_history_box (credit_history f)"

section \<open>The calls of the form\<close>

definition selectbox_element :: "('a \<Rightarrow> cell) \<Rightarrow> 'a selectbox_cfg \<Rightarrow> element" where
  "selectbox_element to_cell cfg = Selectbox (sb_label cfg) (map to_cell (sb_options cfg))"

definition number_input_element :: "number_input_cfg \<Rightarrow> element" where
  "number_input_element cfg =
     NumberInput (ni_label cfg) (ni_min_value cfg) (ni_step cfg) (ni_value cfg)"

definition form_section :: "element list" where
  "form_section =
     [Within Container
        [Subheader (Lit 88),
         Columns [1, 1, 1],
         Within (Column 0)
           [selectbox_element CStr gender_box, selectbox_element CStr education_box],
         Within (Column 1)
           [selectbox_element CStr married_box, selectbox_element CStr self_employed_box],
         Within (Column 2)
           [selectbox_element CStr dependents_box, selectbox_element CStr property_area_box],
         Subheader (Lit 103),
         Columns [1, 1, 1],
         Within (Column 0) [number_input_element applicant_income_input],
         Within (Column 1) [number_input_element coapplicant_income_input],
         Within (Column 2) [number_input_element loan_amount_input],
         Subheader (Lit 133),
         Columns [1, 1],
         Within (Column 0) [selectbox_element CInt loan_amount_term_box],
         Within (Column 1) [selectbox_element CFloat credit_history_box]]]"

fun is_widget :: "element \<Rightarrow> bool" where
  "is_widget (Radio l os) = True"
| "is_widget (Selectbox l os) = True"
| "is_widget (NumberInput l a b c) = True"
| "is_widget (Button l) = True"
| "is_widget _ = False"

definition widgets_of :: "element list \<Rightarrow> element list" where
  "widgets_of es = filter is_widget (all_leaves es)"

declare selectbox_element_def [render_defs] number_input_element_def [render_defs]
  form_section_def [render_defs]

section \<open>Facts about the widgets\<close>

lemma selectbox_accepts_simps:
  "selectbox_accepts gender_box v \<longleftrightarrow> v = ''Male'' \<or> v = ''Female''"
  "selectbox_accepts education_box v \<longleftrightarrow> v = ''Graduate'' \<or> v = ''Not Graduate''"
  "selectbox_accepts married_box v \<longleftrightarrow> v = ''Yes'' \<or> v = ''No''"
  "selectbox_accepts self_employed_box v \<longleftrightarrow> v = ''Yes'' \<or> v = ''No''"
  "selectbox_accepts dependents_box v \<longleftrightarrow> v = ''0'' \<or> v = ''1'' \<or> v = ''2'' \<or> v = ''3+''"
  "selectbox_accepts property_area_box v \<longleftrightarrow>
     v = ''Urban'' \<or> v = ''Semiurban'' \<or> v = ''Rural''"
  by (auto simp: selectbox_accepts_def box_defs)

lemma selectbox_accepts_term:
  "selectbox_accepts loan_amount_term_box n \<longleftrightarrow> n \<in> {360, 180, 480, 300, 240, 120, 84}"
  by (auto simp: selectbox_accepts_def box_defs)

lemma selectbox_accepts_credit:
  "selectbox_accepts credit_history_box x \<longleftrightarrow> x = Finite 1 \<or> x = Finite 0"
  by (auto simp: selectbox_accepts_def box_defs)

lemma number_input_accepts_simps:
  "number_input_accepts applicant_income_input v \<longleftrightarrow> 0 \<le> v"
  "number_input_accepts coapplicant_income_input v \<longleftrightarrow> 0 \<le> v"
  "number_input_accepts loan_amount_input v \<longleftrightarrow> 0 \<le> v"
  by (simp_all add: number_input_accepts_def input_defs)

lemmas accepts_simps =
  selectbox_accepts_simps selectbox_accepts_term selectbox_accepts_credit
  number_input_accepts_simps

lemma ni_value_simps [simp]:
  "ni_value applicant_income_input = 5000"
  "ni_value coapplicant_income_input = 0"
  "ni_value loan_amount_input = 100"
  by (simp_all add: input_defs)

lemma selectbox_default_accepted:
  "selectbox_default cfg = Some v \<Longrightarrow> selectbox_accepts cfg v"
  by (auto simp: selectbox_default_def selectbox_accepts_def split: list.splits)

lemma number_input_default_accepted:
  "ni_min_value cfg \<le> ni_value cfg \<Longrightarrow> number_input_accepts cfg (ni_value cfg)"
  by (simp add: number_input_accepts_def)

lemma number_input_step_up:
  "number_input_accepts cfg v \<Longrightarrow> 0 \<le> ni_step cfg \<Longrightarrow>
     number_input_accepts cfg (v + ni_step cfg)"
  by (simp add: number_input_accepts_def)

lemma init_form_defaults:
  "selectbox_default gender_box = Some (gender init_form)"
  "selectbox_default education_box = Some (education init_form)"
  "selectbox_default married_box = Some (married init_form)"
  "selectbox_default self_employed_box = Some (self_employed init_form)"
  "selectbox_default dependents_box = Some (dependents init_form)"
  "selectbox_default property_area_box = Some (property_area init_form)"
  "selectbox_default loan_amount_term_box = Some (loan_amount_term init_form)"
  "selectbox_default credit_history_box = Some (credit_history init_form)"
  by (simp_all add: selectbox_default_def init_form_def box_defs)

section \<open>The invariant\<close>

lemma valid_form_init: "valid_form init_form"
  by (simp add: valid_form_def init_form_def accepts_simps)

lemma valid_form_apply_event:
  "valid_form f \<Longrightarrow> apply_event f ev = Some f' \<Longrightarrow> valid_form f'"
  by (cases ev) (auto simp: valid_form_def split: if_splits)

lemma valid_form_apply_events:
  "valid_form f \<Longrightarrow> apply_events f evs = Some f' \<Longrightarrow> valid_form f'"
proof (induction evs arbitrary: f)
  case Nil
  then show ?case by simp
next
  case (Cons ev evs)
  then show ?case
    by (auto split: option.splits dest: valid_form_apply_event)
qed

lemma reachable_form_valid: "reachable_form f \<Longrightarrow> valid_form f"
  by (induction rule: reachable_form.induct)
    (auto intro: valid_form_init valid_form_apply_event)

lemma reachable_form_apply_events:
  "reachable_form f \<Longrightarrow> apply_events f evs = Some f' \<Longrightarrow> reachable_form f'"
proof (induction evs arbitrary: f)
  case Nil
  then show ?case by simp
next
  case (Cons ev evs)
  then show ?case
    by (auto split: option.splits intro: reachable_form.step)
qed

lemma reachable_form_iff_events:
  "reachable_form f \<longleftrightarrow> (\<exists>evs. apply_events init_form evs = Some f)"
proof
  assume "reachable_form f"
  then show "\<exists>evs. apply_events init_form evs = Some f"
  proof (induction rule: reachable_form.induct)
    case init
    have "apply_events init_form [] = Some init_form" by simp
    then show ?case by blast
  next
    case (step f ev f')
    then obtain evs where evs: "apply_events init_form evs = Some f" by blast
    have "apply_events g (xs @ [ev]) = Some f'" if "apply_events g xs = Some f" for g xs
      using that step.hyps(2) by (induction xs arbitrary: g) (auto split: option.splits)
    with evs show ?case by blast
  qed
next
  assume "\<exists>evs. apply_events init_form evs = Some f"
  then show "reachable_form f"
    by (auto intro: reachable_form_apply_events reachable_form.init)
qed

section \<open>Properties of the form\<close>

text \<open>
  C18. Whatever the user does, every variable of the form holds a value of its domain:
  each categorical variable one of its options, each amount a non-negative integer, the
  term one of the seven listed, the credit history \<open>1.0\<close> or \<open>0.0\<close>.
\<close>

theorem form_values_in_domain:
  assumes "reachable_form f"
  shows "gender f \<in> {''Male'', ''Female''}
     \<and> education f \<in> {''Graduate'', ''Not Graduate''}
     \<and> married f \<in> {''Yes'', ''No''}
     \<and> self_employed f \<in> {''Yes'', ''No''}
     \<and> dependents f \<in> {''0'', ''1'', ''2'', ''3+''}
     \<and> property_area f \<in> {''Urban'', ''Semiurban'', ''Rural''}
     \<and> 0 \<le> applicant_income f \<and> 0 \<le> coapplicant_income f \<and> 0 \<le> loan_amount f
     \<and> loan_amount_term f \<in> {360, 180, 480, 300, 240, 120, 84}
     \<and> credit_history f \<in> {Finite 1, Finite 0}"
  using reachable_form_valid [OF assms] by (simp add: valid_form_def accepts_simps)

theorem form_values_in_domain_witness:
  "reachable_form (init_form\<lparr>credit_history := Finite 0\<rparr>)
     \<and> credit_history (init_form\<lparr>credit_history := Finite 0\<rparr>) \<in> {Finite 1, Finite 0}
     \<and> 0 \<le> applicant_income (init_form\<lparr>credit_history := Finite 0\<rparr>)"
proof -
  have "apply_event init_form (SetCreditHistory (Finite 0))
      = Some (init_form\<lparr>credit_history := Finite 0\<rparr>)"
    by (simp add: accepts_simps)
  with reachable_form.init have r: "reachable_form (init_form\<lparr>credit_history := Finite 0\<rparr>)"
    by (rule reachable_form.step)
  from form_values_in_domain [OF r] r show ?thesis by simp
qed

text \<open>
  A value a widget does not offer never enters the form: an interaction is accepted
  exactly when its value is an option of the select box or at least the minimum of the
  number input, and an accepted interaction changes that variable and no other.
\<close>

theorem apply_event_accepts:
  "(apply_event f (SetGender s) \<noteq> None \<longleftrightarrow> s \<in> {''Male'', ''Female''})
   \<and> (apply_event f (SetApplicantIncome n) \<noteq> None \<longleftrightarrow> 0 \<le> n)
   \<and> (apply_event f (SetCoapplicantIncome n) \<noteq> None \<longleftrightarrow> 0 \<le> n)
   \<and> (apply_event f (SetLoanAmount n) \<noteq> None \<longleftrightarrow> 0 \<le> n)
   \<and> (apply_event f (SetLoanAmountTerm n) \<noteq> None
        \<longleftrightarrow> n \<in> {360, 180, 480, 300, 240, 120, 84})
   \<and> (apply_event f (SetCreditHistory x) \<noteq> None \<longleftrightarrow> x \<in> {Finite 1, Finite 0})
   \<and> (apply_event f (SetApplicantIncome n) = Some f' \<longrightarrow> f' = f\<lparr>applicant_income := n\<rparr>)
   \<and> (apply_event f (SetGender s) = Some f' \<longrightarrow> f' = f\<lparr>gender := s\<rparr>)"
  by (auto simp: accepts_simps)

theorem apply_event_accepts_witness:
  "apply_event init_form (SetApplicantIncome (- 1)) = None
     \<and> apply_event init_form (SetGender ''Other'') = None
     \<and> apply_event init_form (SetApplicantIncome 7500) = Some (init_form\<lparr>applicant_income := 7500\<rparr>)"
  using apply_event_accepts [of init_form "''Other''" "- 1" "Finite 1"]
    apply_event_accepts [of init_form "''Male''" 7500 "Finite 1"
      "init_form\<lparr>applicant_income := 7500\<rparr>"]
  by (simp add: accepts_simps)

text \<open>
  The form makes eleven widget calls and no two of them are the same call, so no
  two widgets of the page share an identity.
\<close>

theorem form_widgets_distinct:
  "length (widgets_of form_section) = 11 \<and> distinct (widgets_of form_section)"
  by (simp add: widgets_of_def render_defs widget_defs label_defs)

text \<open>
  The two options of the credit history box are shown under different labels, and
  the label of good history is shown for \<open>1.0\<close> and for no other option.
\<close>

theorem credit_history_format_labels:
  "credit_history_format (Finite 1) = u_check_mark @ '' Bon historique''
   \<and> credit_history_format (Finite 0) = u_cross_mark @ '' Historique faible''
   \<and> distinct (map credit_history_format (sb_options credit_history_box))
   \<and> (\<forall>x \<in> set (sb_options credit_history_box).
         credit_history_format x = credit_history_format (Finite 1) \<longrightarrow> x = Finite 1)"
  by (simp add: credit_history_format_def credit_history_box_def label_defs)

theorem credit_history_format_labels_witness:
  "credit_history_format (Finite 1) \<noteq> credit_history_format (Finite 0)"
  using credit_history_format_labels by (simp add: credit_history_box_def)

end
