(* ===== verification/Decision.thy ===== *)
theory Decision
  imports Streamlit Percent
begin

text \<open>
  The decision policy and what is drawn from it (\<^verbatim>\<open>src/app.py\<close>, lines 180 to 232): the
  decision string, the gauge figure, the banner, the two metrics and the condition under
  which the recommendations are shown. The script writes its threshold four times (\<open>0.5\<close>
  on lines 180 and 226, \<open>50\<close> on line 203, \<open>50%\<close> on line 221); each definition here
  carries the literal of its own line.
\<close>

section \<open>Decision\<close>

definition decide :: "pyfloat \<Rightarrow> pystr" where
  "decide prob = (if float_ge prob (Finite (5 / 10)) then ''Approved'' else ''Not Approved'')"

definition show_recommendations :: "pystr \<Rightarrow> pyfloat \<Rightarrow> bool" where
  "show_recommendations decision prob \<longleftrightarrow>
     decision = ''Not Approved'' \<and> float_lt prob (Finite (5 / 10))"

section \<open>Display\<close>

definition gauge_indicator :: "pyfloat \<Rightarrow> indicator" where
  "gauge_indicator prob =
     \<lparr>mode = ''gauge+number+delta'',
      ind_value = float_mul prob (Finite 100),
      domain_x = (0, 1), domain_y = (0, 1),
      title_text = Lit 191,
      gauge =
        \<lparr>axis_range = (None, Some 100),
         bar_color = ''darkblue'',
         steps =
           [((0, 30), ''lightcoral''), ((30, 70), ''lightyellow''), ((70, 100), ''lightgreen'')],
         threshold_line = (''red'', 4),
         threshold_thickness = 75 / 100,
         threshold_value = 50\<rparr>,
      layout_height = Some 300\<rparr>"

definition decision_banner :: "pystr \<Rightarrow> element" where
  "decision_banner decision =
     (if decision = ''Approved'' then Markdown (Lit 212) True else Markdown (Lit 214) True)"

definition decision_metrics :: "pyfloat \<Rightarrow> element list" where
  "decision_metrics prob =
     [Columns [1, 1],
      Within (Column 0) [Metric (Lit 219) (PercentOf prob)],
      Within (Column 1) [Metric (Lit 221) (MetricText ''50%'')]]"

text \<open>Lines 183 to 232: everything the script shows for a probability.\<close>

definition result_card :: "pyfloat \<Rightarrow> element list" where
  "result_card prob =
     [Within Container
        ([Markdown (Lit 184) True,
          PlotlyChart (Indicator (gauge_indicator prob)) True,
          decision_banner (decide prob)]
         @ decision_metrics prob
         @ [Markdown (Lit 223) True]
         @ (if show_recommendations (decide prob) prob then [Warning (Lit 227)] else []))]"

text \<open>The band of the gauge a displayed value falls on, the first that holds it.\<close>

text \<open>Lines 219 and 221: the text a metric is given as its value.\<close>

definition metric_text :: "metric_value \<Rightarrow> pystr" where
  "metric_text v = (case v of PercentOf p \<Rightarrow> format_percent p | MetricText s \<Rightarrow> s)"

definition in_step :: "pyfloat \<Rightarrow> (int \<times> int) \<times> pystr \<Rightarrow> bool" where
  "in_step v s \<longleftrightarrow>
     float_le (Finite (of_int (fst (fst s)))) v \<and> float_le v (Finite (of_int (snd (fst s))))"

definition band_of :: "indicator \<Rightarrow> pystr option" where
  "band_of ind = map_option snd (find (in_step (ind_value ind)) (steps (gauge ind)))"

declare decision_banner_def [render_defs] decision_metrics_def [render_defs]
  result_card_def [render_defs]

section \<open>Facts about the decision\<close>

lemma decide_Finite [simp]:
  "decide (Finite x) = (if 1 / 2 \<le> x then ''Approved'' else ''Not Approved'')"
  by (simp add: decide_def)

lemma decide_specials [simp]:
  "decide NaN = ''Not Approved''"
  "decide PosInf = ''Approved''"
  "decide NegInf = ''Not Approved''"
  by (simp_all add: decide_def)

lemma decide_range: "decide p = ''Approved'' \<or> decide p = ''Not Approved''"
  by (simp add: decide_def)

lemma decide_Approved_iff: "decide p = ''Approved'' \<longleftrightarrow> float_ge p (Finite (1 / 2))"
  by (simp add: decide_def)

lemma decide_Not_Approved_iff: "decide p = ''Not Approved'' \<longleftrightarrow> \<not> float_ge p (Finite (1 / 2))"
  by (simp add: decide_def)

lemma show_recommendations_iff:
  "show_recommendations (decide p) p \<longleftrightarrow> float_lt p (Finite (1 / 2))"
  by (auto simp: show_recommendations_def decide_Not_Approved_iff dest: float_lt_imp_not_ge)

lemma decision_banner_decide:
  "decision_banner (decide p) =
     (if float_ge p (Finite (1 / 2)) then Markdown (Lit 212) True else Markdown (Lit 214) True)"
  by (simp add: decision_banner_def decide_def)

section \<open>Facts about the gauge\<close>

lemma gauge_indicator_sel [simp]:
  "ind_value (gauge_indicator p) = float_mul p (Finite 100)"
  "steps (gauge (gauge_indicator p)) =
     [((0, 30), ''lightcoral''), ((30, 70), ''lightyellow''), ((70, 100), ''lightgreen'')]"
  "threshold_value (gauge (gauge_indicator p)) = 50"
  "axis_range (gauge (gauge_indicator p)) = (None, Some 100)"
  "layout_height (gauge_indicator p) = Some 300"
  by (simp_all add: gauge_indicator_def)

lemma gauge_steps_chained: "chained (map fst (steps (gauge (gauge_indicator p))))"
  by simp

lemma band_of_Finite:
  "band_of (gauge_indicator (Finite x)) =
     (if 0 \<le> x \<and> x \<le> 3 / 10 then Some ''lightcoral''
      else if 3 / 10 < x \<and> x \<le> 7 / 10 then Some ''lightyellow''
      else if 7 / 10 < x \<and> x \<le> 1 then Some ''lightgreen''
      else None)"
  by (auto simp: band_of_def in_step_def)

section \<open>Facts about the card\<close>

lemma leaves_decision_banner [simp]: "leaves (decision_banner d) = [decision_banner d]"
  by (simp add: decision_banner_def)

lemma decision_banner_kind [simp]:
  "\<not> is_error (decision_banner d)" "\<not> is_chart (decision_banner d)"
  by (simp_all add: decision_banner_def)

lemma all_leaves_result_card:
  "all_leaves (result_card p) =
     [Markdown (Lit 184) True,
      PlotlyChart (Indicator (gauge_indicator p)) True,
      decision_banner (decide p),
      Columns [1, 1],
      Metric (Lit 219) (PercentOf p),
      Metric (Lit 221) (MetricText ''50%''),
      Markdown (Lit 223) True]
     @ (if float_lt p (Finite (1 / 2)) then [Warning (Lit 227)] else [])"
  by (simp add: result_card_def decision_metrics_def show_recommendations_iff)

lemma result_card_no_error: "\<not> list_ex is_error (all_leaves (result_card p))"
  by (simp add: all_leaves_result_card)

lemma result_card_one_chart: "length (filter is_chart (all_leaves (result_card p))) = 1"
  by (simp add: all_leaves_result_card)

section \<open>Properties of the decision policy\<close>

text \<open>
  C2. The decision is exact at the threshold: a finite probability is approved if and
  only if it is at least one half, positive infinity is approved, and negative infinity
  and \<open>NaN\<close> are not; in particular \<open>0.5\<close> and \<open>1.0\<close> are approved and \<open>0.499999\<close> and
  \<open>0.0\<close> are not.
\<close>

theorem decide_threshold_exact:
  "decide p =
     (case p of
        Finite x \<Rightarrow> if 1 / 2 \<le> x then ''Approved'' else ''Not Approved''
      | PosInf \<Rightarrow> ''Approved''
      | NegInf \<Rightarrow> ''Not Approved''
      | NaN \<Rightarrow> ''Not Approved'')
   \<and> decide (Finite (5 / 10)) = ''Approved''
   \<and> decide (Finite (499999 / 1000000)) = ''Not Approved''
   \<and> decide (Finite 1) = ''Approved''
   \<and> decide (Finite 0) = ''Not Approved''"
  by (cases p) simp_all

theorem decide_threshold_exact_witness:
  "decide (Finite (82 / 100)) = ''Approved'' \<and> decide (Finite (2 / 10)) = ''Not Approved''"
  using decide_threshold_exact [of "Finite (82 / 100)"] decide_threshold_exact [of "Finite (2 / 10)"]
  by simp

text \<open>
  C25. The decision is monotonic: a probability at least as large as an approved one is
  approved.
\<close>

theorem decide_monotone:
  assumes "float_le p q" and "decide p = ''Approved''"
  shows "decide q = ''Approved''"
  using assms by (auto simp: decide_Approved_iff intro: float_ge_mono)

theorem decide_monotone_witness:
  "float_le (Finite (1 / 2)) (Finite (82 / 100)) \<and> decide (Finite (1 / 2)) = ''Approved''
     \<and> decide (Finite (82 / 100)) = ''Approved''"
  using decide_monotone [of "Finite (1 / 2)" "Finite (82 / 100)"] by simp

text \<open>
  C11. For a probability that is a number, the recommendations are shown exactly when the
  decision is \<open>Not Approved\<close>: the second conjunct of the condition on line 226 never
  decides.
\<close>

theorem recommendations_iff_rejected:
  assumes "\<not> is_nan p"
  shows "show_recommendations (decide p) p \<longleftrightarrow> decide p = ''Not Approved''"
  using assms
  by (simp add: show_recommendations_iff decide_Not_Approved_iff float_lt_iff_not_ge)

theorem recommendations_iff_rejected_witness:
  "\<not> is_nan (Finite (2 / 10)) \<and> show_recommendations (decide (Finite (2 / 10))) (Finite (2 / 10))
     \<and> decide (Finite (2 / 10)) = ''Not Approved''"
  using recommendations_iff_rejected [of "Finite (2 / 10)"] by simp

text \<open>
  C16. The condition of line 226 on every float: the recommendations are shown exactly
  for the probabilities below one half, and the only float that is rejected without
  recommendations is \<open>NaN\<close>, for which the second conjunct of the condition, and not
  the decision, decides.
\<close>

theorem recommendations_iff_below_threshold:
  "(show_recommendations (decide p) p \<longleftrightarrow> float_lt p (Finite (1 / 2)))
   \<and> (decide p = ''Not Approved'' \<and> \<not> show_recommendations (decide p) p \<longleftrightarrow> is_nan p)"
  by (cases p) (auto simp: show_recommendations_def decide_def float_ge_def)

text \<open>
  The gauge under rounding. The value of the gauge is the product taken exact; Python
  rounds it to a double. For every probability that is a double (at most the largest
  double below one half, or at least one half) the rounded product reaches the mark 50
  in the same cases, so the comparison drawn on the gauge is the one the decision makes.
\<close>

lemma gauge_agrees_rounded:
  assumes "x \<le> (2 ^ 53 - 1) / 2 ^ 54 \<or> 1 / 2 \<le> x"
  shows "50 \<le> fl64 (x * 100) \<longleftrightarrow> decide (Finite x) = ''Approved''"
proof (cases "1 / 2 \<le> x")
  case True
  then have "fl64 50 \<le> fl64 (x * 100)" by (intro fl64_mono) simp
  with True show ?thesis by (simp add: decide_Approved_iff)
next
  case False
  with assms have "fl64 (x * 100) \<le> fl64 ((2 ^ 53 - 1) / 2 ^ 54 * 100)"
    by (intro fl64_mono) simp
  then have "fl64 (x * 100) < 50" by (simp only: fl64_product_below_half) simp
  with False show ?thesis by (simp add: decide_Approved_iff)
qed

text \<open>
  C20. The gauge agrees with the decision: the value it displays reaches the threshold
  mark drawn on it exactly when the decision is \<open>Approved\<close>.
\<close>

theorem gauge_agrees_with_decision:
  "float_ge (ind_value (gauge_indicator p))
       (Finite (of_int (threshold_value (gauge (gauge_indicator p)))))
     \<longleftrightarrow> decide p = ''Approved''"
  using float_ge_scale [of 100 p "1 / 2"] by (simp add: decide_Approved_iff)

theorem gauge_agrees_with_decision_witness:
  "float_ge (ind_value (gauge_indicator (Finite (82 / 100))))
     (Finite (of_int (threshold_value (gauge (gauge_indicator (Finite (82 / 100)))))))
   \<and> decide (Finite (82 / 100)) = ''Approved''"
  using gauge_agrees_with_decision [of "Finite (82 / 100)"] by simp

text \<open>
  C31. Every probability of the unit interval is displayed on a band of the gauge, and
  the band is consistent with the decision: the green band is shown only for approved
  and the red band only for rejected probabilities.
\<close>

theorem gauge_band_sound:
  assumes "in_unit_interval p"
  shows "(\<exists>c. band_of (gauge_indicator p) = Some c)
     \<and> (band_of (gauge_indicator p) = Some ''lightgreen'' \<longrightarrow> decide p = ''Approved'')
     \<and> (band_of (gauge_indicator p) = Some ''lightcoral'' \<longrightarrow> decide p = ''Not Approved'')"
proof -
  from assms obtain x where p: "p = Finite x" "0 \<le> x" "x \<le> 1"
    by (auto simp: in_unit_interval_cases)
  then show ?thesis
    by (simp add: band_of_Finite)
qed

theorem gauge_band_sound_witness:
  "in_unit_interval (Finite (82 / 100))
     \<and> band_of (gauge_indicator (Finite (82 / 100))) = Some ''lightgreen''
     \<and> decide (Finite (82 / 100)) = ''Approved''"
  using gauge_band_sound [of "Finite (82 / 100)"] by (simp add: band_of_Finite)

text \<open>
  C17. The probability metric can read as the threshold beside it while the decision is a
  rejection. The text is \<open>50.0%\<close> exactly when the double that \<^verbatim>\<open>prob * 100\<close> rounds to
  lies from 49.95 to 50.05; and for every probability from 0.4996 up to one half the
  text is \<open>50.0%\<close> and the decision is \<open>Not Approved\<close>, whatever the rounding of the
  product does.
\<close>

theorem threshold_text_ambiguous:
  "(metric_text (PercentOf (Finite x)) = ''50.0%'' \<longleftrightarrow>
      0 \<le> x \<and> 4995 / 100 \<le> fl64 (x * 100) \<and> fl64 (x * 100) \<le> 5005 / 100)
   \<and> (4996 / 10000 \<le> x \<and> x < 1 / 2 \<longrightarrow>
        decide (Finite x) = ''Not Approved'' \<and> metric_text (PercentOf (Finite x)) = ''50.0%'')"
  by (auto simp: metric_text_def format_percent_50 percent_tenths_eq_500_iff
      percent_tenths_below_half)

theorem threshold_text_ambiguous_witness:
  "decide (Finite (4996 / 10000)) = ''Not Approved''
   \<and> metric_text (PercentOf (Finite (4996 / 10000))) = ''50.0%''"
  using threshold_text_ambiguous [of "4996 / 10000"] by simp

end
