(* ===== verification/Handler.thy ===== *)
theory Handler
  imports Gateway Form Decision
begin

text \<open>
  The prediction request handler (\<^verbatim>\<open>src/app.py\<close>, lines 151 to 235): the right-hand
  column of the prediction page. It builds the one-row data frame from the variables of
  the form, scores it, and shows the result card, or the error if scoring raised an
  \<open>Exception\<close>. The calls that draw the card are taken not to raise, and neither is
  \<^verbatim>\<open>pd.DataFrame\<close> on the row, which the script calls before the \<^verbatim>\<open>try\<close>: inside the
  \<^verbatim>\<open>try\<close> only the scoring expression raises.
\<close>

section \<open>The request\<close>

text \<open>Lines 163 to 175: the dictionary literal, in the order its keys are written.\<close>

definition input_row :: "form \<Rightarrow> (pystr \<times> cell) list" where
  "input_row f =
     [(''Gender'', CStr (gender f)),
      (''Married'', CStr (married f)),
      (''Dependents'', CStr (dependents f)),
      (''Education'', CStr (education f)),
      (''Self_Employed'', CStr (self_employed f)),
      (''ApplicantIncome'', CInt (applicant_income f)),
      (''CoapplicantIncome'', CInt (coapplicant_income f)),
      (''LoanAmount'', CInt (loan_amount f)),
      (''Loan_Amount_Term'', CInt (loan_amount_term f)),
      (''Credit_History'', CFloat (credit_history f)),
      (''Property_Area'', CStr (property_area f))]"

text \<open>The column names of the data frame, in order.\<close>

definition column_names :: "pystr list" where
  "column_names =
     [''Gender'', ''Married'', ''Dependents'', ''Education'', ''Self_Employed'',
      ''ApplicantIncome'', ''CoapplicantIncome'', ''LoanAmount'', ''Loan_Amount_Term'',
      ''Credit_History'', ''Property_Area'']"

definition input_df :: "form \<Rightarrow> dataframe" where
  "input_df f = [input_row f]"

section \<open>The handler\<close>

text \<open>
  Lines 177 to 235, the \<^verbatim>\<open>try\<close> statement: the elements shown, or the exception that
  \<^verbatim>\<open>except Exception\<close> does not catch.
\<close>

definition prediction :: "pipeline \<Rightarrow> form \<Rightarrow> element list result" where
  "prediction m f =
     (case score m (input_df f) of
        Inr prob \<Rightarrow> Inr (result_card prob)
      | Inl e \<Rightarrow>
          if caught_by_Exception e then Inr [Error (Lit 235) (Some e)]
          else Inl e)"

text \<open>
  Lines 151 to 235: the column with its heading, the button, and the prediction when the
  button was pressed in this run and a model is loaded. An exception the prediction lets
  through ends the column after the button.
\<close>

definition predict_column :: "bool \<Rightarrow> pipeline option \<Rightarrow> form \<Rightarrow> trace" where
  "predict_column predict_btn model f =
     in_place (Column 1)
       (seq_trace (emit [Subheader (Lit 152), Button (Lit 156)])
          (of_result
             (case model of
                None \<Rightarrow> Inr []
              | Some m \<Rightarrow> if predict_btn then prediction m f else Inr [])))"

declare input_row_def [render_defs] input_df_def [render_defs]

section \<open>Facts about the request\<close>

lemma keys_of_input_row [simp]: "keys_of (input_row f) = column_names"
  by (simp add: input_row_def column_names_def)

lemma distinct_column_names: "distinct column_names"
  by (simp add: column_names_def)

lemma length_input_df [simp]: "length (input_df f) = 1"
  by (simp add: input_df_def)

lemma input_df_nonempty [simp]: "input_df f \<noteq> []"
  by (simp add: input_df_def)

lemma map_of_input_row:
  "map_of (input_row f) ''Gender'' = Some (CStr (gender f))"
  "map_of (input_row f) ''Married'' = Some (CStr (married f))"
  "map_of (input_row f) ''Dependents'' = Some (CStr (dependents f))"
  "map_of (input_row f) ''Education'' = Some (CStr (education f))"
  "map_of (input_row f) ''Self_Employed'' = Some (CStr (self_employed f))"
  "map_of (input_row f) ''ApplicantIncome'' = Some (CInt (applicant_income f))"
  "map_of (input_row f) ''CoapplicantIncome'' = Some (CInt (coapplicant_income f))"
  "map_of (input_row f) ''LoanAmount'' = Some (CInt (loan_amount f))"
  "map_of (input_row f) ''Loan_Amount_Term'' = Some (CInt (loan_amount_term f))"
  "map_of (input_row f) ''Credit_History'' = Some (CFloat (credit_history f))"
  "map_of (input_row f) ''Property_Area'' = Some (CStr (property_area f))"
  by (simp_all add: input_row_def)

lemma input_row_inject: "input_row f = input_row g \<longleftrightarrow> f = g"
  by (cases f; cases g) (auto simp: input_row_def)

section \<open>Facts about the handler\<close>

lemma prediction_scored:
  "score m (input_df f) = Inr p \<Longrightarrow> prediction m f = Inr (result_card p)"
  by (simp add: prediction_def)

lemma prediction_caught:
  "score m (input_df f) = Inl e \<Longrightarrow> caught_by_Exception e \<Longrightarrow>
     prediction m f = Inr [Error (Lit 235) (Some e)]"
  by (simp add: prediction_def)

lemma prediction_uncaught:
  "score m (input_df f) = Inl e \<Longrightarrow> \<not> caught_by_Exception e \<Longrightarrow> prediction m f = Inl e"
  by (simp add: prediction_def)

lemmas prediction_simps = prediction_scored prediction_caught prediction_uncaught

lemma prediction_cases:
  obtains (scored) p where "score m (input_df f) = Inr p" "prediction m f = Inr (result_card p)"
  | (caught) e where "score m (input_df f) = Inl e" "caught_by_Exception e"
      "prediction m f = Inr [Error (Lit 235) (Some e)]"
  | (uncaught) e where "score m (input_df f) = Inl e" "\<not> caught_by_Exception e"
      "prediction m f = Inl e"
  by (cases "score m (input_df f)") (auto simp: prediction_def)

lemma prediction_Inl_iff:
  "prediction m f = Inl e \<longleftrightarrow> score m (input_df f) = Inl e \<and> \<not> caught_by_Exception e"
  by (auto simp: prediction_def split: sum.splits)

lemma prediction_uncaught_from_pipeline:
  "prediction m f = Inl e \<Longrightarrow> m (input_df f) = Inl e"
  by (auto simp: prediction_Inl_iff elim!: score_Inl_cases simp: caught_by_Exception_def)

lemma prediction_Inl_iff_pipeline:
  "prediction m f = Inl e \<longleftrightarrow> m (input_df f) = Inl e \<and> \<not> caught_by_Exception e"
proof
  assume "prediction m f = Inl e"
  then show "m (input_df f) = Inl e \<and> \<not> caught_by_Exception e"
    by (simp add: prediction_uncaught_from_pipeline prediction_Inl_iff)
next
  assume "m (input_df f) = Inl e \<and> \<not> caught_by_Exception e"
  then show "prediction m f = Inl e"
    by (simp add: prediction_Inl_iff score_pipeline_raises)
qed

lemma predict_column_idle:
  "predict_column False model f =
     ([Within (Column 1) [Subheader (Lit 152), Button (Lit 156)]], None)"
  by (simp add: predict_column_def emit_def split: option.splits)

lemma predict_column_no_model:
  "predict_column b None f = ([Within (Column 1) [Subheader (Lit 152), Button (Lit 156)]], None)"
  by (simp add: predict_column_def emit_def)

lemma predict_column_pressed:
  "predict_column True (Some m) f =
     (case prediction m f of
        Inr shown \<Rightarrow>
          ([Within (Column 1) ([Subheader (Lit 152), Button (Lit 156)] @ shown)], None)
      | Inl e \<Rightarrow> ([Within (Column 1) [Subheader (Lit 152), Button (Lit 156)]], Some e))"
  by (simp add: predict_column_def emit_def split: sum.splits)

lemma predict_column_aborted_iff:
  "aborted (predict_column b model f) \<longleftrightarrow>
     b \<and> (\<exists>m e. model = Some m \<and> prediction m f = Inl e)"
  by (cases b; cases model)
    (auto simp: predict_column_idle predict_column_no_model predict_column_pressed
      split: sum.splits)

section \<open>Properties of the handler\<close>

text \<open>
  C1. A prediction fails atomically. Whatever the pipeline does, the handler shows either
  the whole result card for the probability scored, or the error message alone for the
  exception caught, or it lets through an exception that is not an \<open>Exception\<close>; and what
  it shows never holds both an error and a chart.
\<close>

theorem prediction_atomic:
  "(case prediction m f of
      Inl e \<Rightarrow> score m (input_df f) = Inl e \<and> \<not> caught_by_Exception e
    | Inr es \<Rightarrow>
        ((\<exists>p. score m (input_df f) = Inr p \<and> es = result_card p) \<or>
         (\<exists>e. score m (input_df f) = Inl e \<and> caught_by_Exception e \<and>
              es = [Error (Lit 235) (Some e)]))
        \<and> \<not> (list_ex is_error (all_leaves es) \<and> list_ex is_chart (all_leaves es)))"
proof (cases rule: prediction_cases [of m f])
  case (scored p)
  then show ?thesis using result_card_no_error [of p] by simp
next
  case (caught e)
  then show ?thesis by simp
next
  case (uncaught e)
  then show ?thesis by simp
qed

theorem prediction_atomic_witness:
  "prediction (\<lambda>df. Inr [[Finite (18 / 100), Finite (82 / 100)]]) init_form =
     Inr (result_card (Finite (82 / 100)))
   \<and> prediction (\<lambda>df. Inr [[Finite 1]]) init_form =
     Inr [Error (Lit 235) (Some (PyExn IndexError (OutOfBounds 1 1)))]"
  using prediction_atomic [of "\<lambda>df. Inr [[Finite (18 / 100), Finite (82 / 100)]]" init_form]
    prediction_atomic [of "\<lambda>df. Inr [[Finite 1]]" init_form]
  by (simp add: prediction_def score_def)

text \<open>
  C26. Without a loaded model nothing is predicted and nothing is reported: pressing the
  button shows the heading and the button and no error, whatever the form holds.
\<close>

theorem no_model_no_prediction:
  "predict_column predict_btn None f =
     ([Within (Column 1) [Subheader (Lit 152), Button (Lit 156)]], None)
   \<and> \<not> list_ex is_error (all_leaves (fst (predict_column predict_btn None f)))"
  by (simp add: predict_column_no_model)

theorem no_model_no_prediction_witness:
  "predict_column True None init_form =
     ([Within (Column 1) [Subheader (Lit 152), Button (Lit 156)]], None)"
  using no_model_no_prediction [of True init_form] by simp

text \<open>
  With a model and the button pressed, the column shows the heading, the button and
  then exactly what the prediction shows; an exception the prediction lets through ends
  the run with the heading and the button on the page.
\<close>

theorem predict_column_pressed_outcomes:
  "predict_column True (Some m) f =
     (case prediction m f of
        Inr shown \<Rightarrow>
          ([Within (Column 1) ([Subheader (Lit 152), Button (Lit 156)] @ shown)], None)
      | Inl e \<Rightarrow> ([Within (Column 1) [Subheader (Lit 152), Button (Lit 156)]], Some e))
   \<and> predict_column False (Some m) f =
       ([Within (Column 1) [Subheader (Lit 152), Button (Lit 156)]], None)"
  by (simp add: predict_column_pressed predict_column_idle)

theorem predict_column_pressed_outcomes_witness:
  "predict_column True (Some (\<lambda>df. Inr [[Finite (8 / 10), Finite (2 / 10)]])) init_form =
     ([Within (Column 1)
         ([Subheader (Lit 152), Button (Lit 156)] @ result_card (Finite (2 / 10)))], None)
   \<and> predict_column True
       (Some (\<lambda>df. Inl (PyExn NonException (Text ''KeyboardInterrupt'')))) init_form =
     ([Within (Column 1) [Subheader (Lit 152), Button (Lit 156)]],
      Some (PyExn NonException (Text ''KeyboardInterrupt'')))"
  using predict_column_pressed_outcomes
    [of "\<lambda>df. Inr [[Finite (8 / 10), Finite (2 / 10)]]" init_form]
    predict_column_pressed_outcomes
    [of "\<lambda>df. Inl (PyExn NonException (Text ''KeyboardInterrupt''))" init_form]
  by (simp add: prediction_def score_def)

text \<open>
  C19. The data frame sent to the pipeline has one row whose columns are the eleven
  names of the schema, each once and in order, and each column holds the variable of
  the form that belongs to it.
\<close>

theorem input_df_columns:
  "length (input_df f) = 1
   \<and> keys_of (input_row f) = column_names \<and> distinct (keys_of (input_row f))
   \<and> map (map_of (input_row f)) column_names =
       map Some
         [CStr (gender f), CStr (married f), CStr (dependents f), CStr (education f),
          CStr (self_employed f), CInt (applicant_income f), CInt (coapplicant_income f),
          CInt (loan_amount f), CInt (loan_amount_term f), CFloat (credit_history f),
          CStr (property_area f)]"
  by (simp add: distinct_column_names) (simp add: column_names_def map_of_input_row)

theorem input_df_columns_witness:
  "map (map_of (input_row init_form)) column_names =
     map Some
       [CStr ''Male'', CStr ''Yes'', CStr ''0'', CStr ''Graduate'', CStr ''Yes'', CInt 5000,
        CInt 0, CInt 100, CInt 360, CFloat (Finite 1), CStr ''Urban'']"
  using input_df_columns [of init_form] by (simp add: init_form_def)

end
