(* ===== verification/Documentation.thy ===== *)
theory Documentation
  imports Handler
begin

text \<open>
  The documentation page (\<^verbatim>\<open>src/app.py\<close>, lines 239 to 332): three tabs, the table of
  variables built from a dictionary of columns, the feature importance image with the
  example bar chart that replaces it when the file is missing, and the usage guide.
  \<open>pd.DataFrame\<close> and \<open>px.bar\<close> are modelled as far as they can raise here: both take
  columns that must have the same length. What \<open>Image.open\<close> returns for a path is a
  parameter.
\<close>

section \<open>The table of variables\<close>

text \<open>Lines 246 to 273.\<close>

definition variables_data :: columns where
  "variables_data =
     [(''Variable'',
       [''Gender'', ''Married'', ''Dependents'', ''Education'', ''Self_Employed'',
        ''ApplicantIncome'', ''CoapplicantIncome'', ''LoanAmount'',
        ''Loan_Amount_Term'', ''Credit_History'', ''Property_Area'']),
      (''Type'',
       [''Cat'' @ u_e_acute @ ''gorielle'', ''Cat'' @ u_e_acute @ ''gorielle'',
        ''Cat'' @ u_e_acute @ ''gorielle'', ''Cat'' @ u_e_acute @ ''gorielle'',
        ''Cat'' @ u_e_acute @ ''gorielle'',
        ''Num'' @ u_e_acute @ ''rique'', ''Num'' @ u_e_acute @ ''rique'',
        ''Num'' @ u_e_acute @ ''rique'', ''Num'' @ u_e_acute @ ''rique'', ''Binaire'',
        ''Cat'' @ u_e_acute @ ''gorielle'']),
      (''Description'',
       [''Genre du demandeur'',
        ''Statut marital'',
        ''Nombre de personnes '' @ u_a_grave @ '' charge'',
        ''Niveau d'' @ u_apostrophe @ u_e_acute @ ''ducation'',
        ''Statut d'' @ u_apostrophe @ ''ind'' @ u_e_acute @ ''pendant'',
        ''Revenu mensuel du demandeur'',
        ''Revenu mensuel du co-demandeur'',
        ''Montant du pr'' @ u_e_circ @ ''t demand'' @ u_e_acute @ '' (en milliers)'',
        ''Dur'' @ u_e_acute @ ''e du pr'' @ u_e_circ @ ''t en jours'',
        ''Historique de cr'' @ u_e_acute @ ''dit (1=bon, 0=faible)'',
        ''Zone g'' @ u_e_acute @ ''ographique de la propri'' @ u_e_acute @ ''t'' @ u_e_acute]),
      (''Impact'',
       [''Faible'', ''Moyen'', ''Moyen'', ''Moyen'', ''Moyen'',
        u_E_acute @ ''lev'' @ u_e_acute, u_E_acute @ ''lev'' @ u_e_acute,
        u_E_acute @ ''lev'' @ u_e_acute, ''Moyen'',
        ''Tr'' @ u_e_grave @ ''s '' @ u_e_acute @ ''lev'' @ u_e_acute, ''Moyen''])]"

text \<open>
  \<open>pd.DataFrame\<close> of a dictionary of lists: the table, or \<open>ValueError\<close> when the lists
  differ in length.
\<close>

definition pd_DataFrame :: "columns \<Rightarrow> columns result" where
  "pd_DataFrame cols =
     (case cols of
        [] \<Rightarrow> Inr cols
      | c # cs \<Rightarrow>
          if list_all (\<lambda>d. length (snd d) = length (snd c)) cs then Inr cols
          else Inl (PyExn OtherException (Text ''All arrays must be of the same length'')))"

text \<open>Lines 243 to 276.\<close>

definition variables_tab :: trace where
  "variables_tab =
     in_place (Tab 0)
       (seq_trace (emit [Subheader (Lit 244)])
          (of_result
             (bind_result (pd_DataFrame variables_data)
                (\<lambda>df_variables. Inr [Dataframe df_variables True True]))))"

section \<open>Feature importance\<close>

definition image_path :: pystr where
  "image_path = ''feature_importance.png''"

text \<open>Lines 291 to 293.\<close>

definition features :: "pystr list" where
  "features =
     [''Credit_History'', ''ApplicantIncome'', ''LoanAmount'', ''CoapplicantIncome'',
      ''Property_Area'', ''Loan_Amount_Term'', ''Education'', ''Married'']"

definition importance :: "pyfloat list" where
  "importance =
     [Finite (35 / 100), Finite (18 / 100), Finite (15 / 100), Finite (12 / 100),
      Finite (8 / 100), Finite (6 / 100), Finite (4 / 100), Finite (2 / 100)]"

text \<open>
  \<open>px.bar\<close> with list arguments, lines 295 to 301: the figure, or \<open>ValueError\<close> when
  \<open>x\<close> and \<open>y\<close> differ in length.
\<close>

definition px_bar :: "pyfloat list \<Rightarrow> pystr list \<Rightarrow> bar_chart result" where
  "px_bar xs ys =
     (if length xs = length ys then
        Inr \<lparr>bar_x = xs, bar_y = ys, orientation = ''h'', bar_title = Lit 299,
             bar_labels = [(''x'', ''Importance''), (''y'', ''Caract'' @ u_e_acute @ ''ristiques'')]\<rparr>
      else Inl (PyExn OtherException (Text ''All arguments should have the same length'')))"

text \<open>Lines 288 to 302: the handler of \<^verbatim>\<open>except FileNotFoundError\<close>.\<close>

definition importance_fallback :: trace where
  "importance_fallback =
     seq_trace (emit [Warning (Lit 288)])
       (of_result
          (bind_result (px_bar importance features) (\<lambda>fig. Inr [PlotlyChart (Bar fig) True])))"

text \<open>Lines 284 to 302: the \<^verbatim>\<open>try\<close> statement of the image column.\<close>

type_synonym opener = "pystr \<Rightarrow> unit result"

definition importance_image :: "opener \<Rightarrow> trace" where
  "importance_image io =
     (case io image_path of
        Inr img \<Rightarrow> emit [Image image_path (Lit 286) True]
      | Inl e \<Rightarrow>
          if caught_by_FileNotFoundError e then importance_fallback
          else ([], Some e))"

text \<open>Lines 278 to 312.\<close>

definition importance_tab :: "opener \<Rightarrow> trace" where
  "importance_tab io =
     in_place (Tab 1)
       (seq_trace (emit [Subheader (Lit 279), Columns [2, 1]])
          (seq_trace (in_place (Column 0) (importance_image io))
             (in_place (Column 1) (emit [Info (Lit 305)]))))"

text \<open>Lines 314 to 332.\<close>

definition guide_tab :: trace where
  "guide_tab = in_place (Tab 2) (emit [Subheader (Lit 315), Markdown (Lit 317) False])"

section \<open>The page\<close>

definition tab_labels :: "pystr list" where
  "tab_labels =
     [u_clipboard @ '' Variables'',
      u_chart_up @ '' Importance des caract'' @ u_e_acute @ ''ristiques'',
      u_information @ '' Guide'']"

text \<open>Lines 239 to 332.\<close>

definition documentation_page :: "opener \<Rightarrow> trace" where
  "documentation_page io =
     seq_trace (emit [Title (Lit 239), Tabs tab_labels])
       (seq_trace variables_tab (seq_trace (importance_tab io) guide_tab))"

text \<open>How the table names the kind of a column, against the cell the handler sends.\<close>

definition type_matches :: "pystr \<Rightarrow> cell \<Rightarrow> bool" where
  "type_matches t c =
     (case c of
        CStr s \<Rightarrow> t = ''Cat'' @ u_e_acute @ ''gorielle''
      | CInt n \<Rightarrow> t = ''Num'' @ u_e_acute @ ''rique''
      | CFloat x \<Rightarrow> t = ''Binaire'')"

declare variables_data_def [table_defs] features_def [table_defs] importance_def [table_defs]
  tab_labels_def [table_defs]

section \<open>Facts about the tables\<close>

lemma pd_DataFrame_Inr_iff:
  "pd_DataFrame cols = Inr df \<longleftrightarrow>
     df = cols \<and> (\<forall>c \<in> set cols. \<forall>d \<in> set cols. length (snd c) = length (snd d))"
  by (cases cols) (auto simp: pd_DataFrame_def list_all_iff)

lemma pd_DataFrame_variables_data [simp]: "pd_DataFrame variables_data = Inr variables_data"
  by (simp add: pd_DataFrame_def variables_data_def)

lemma map_of_variables_data_Variable:
  "map_of variables_data ''Variable'' = Some column_names"
  by (simp add: variables_data_def column_names_def)

lemma px_bar_Inr_iff:
  "px_bar xs ys = Inr fig \<longleftrightarrow>
     length xs = length ys \<and>
     fig = \<lparr>bar_x = xs, bar_y = ys, orientation = ''h'', bar_title = Lit 299,
            bar_labels = [(''x'', ''Importance''), (''y'', ''Caract'' @ u_e_acute @ ''ristiques'')]\<rparr>"
  by (auto simp: px_bar_def)

lemma px_bar_importance [simp]:
  "px_bar importance features =
     Inr \<lparr>bar_x = importance, bar_y = features, orientation = ''h'', bar_title = Lit 299,
          bar_labels = [(''x'', ''Importance''), (''y'', ''Caract'' @ u_e_acute @ ''ristiques'')]\<rparr>"
  by (simp add: px_bar_def importance_def features_def)

lemma variables_tab_eq:
  "variables_tab = ([Within (Tab 0) [Subheader (Lit 244), Dataframe variables_data True True]], None)"
  by (simp add: variables_tab_def emit_def)

lemma importance_fallback_eq:
  "importance_fallback =
     ([Warning (Lit 288),
       PlotlyChart
         (Bar \<lparr>bar_x = importance, bar_y = features, orientation = ''h'', bar_title = Lit 299,
               bar_labels = [(''x'', ''Importance''), (''y'', ''Caract'' @ u_e_acute @ ''ristiques'')]\<rparr>) True], None)"
  by (simp add: importance_fallback_def emit_def)

lemma importance_image_cases:
  "importance_image io =
     (case io image_path of
        Inr img \<Rightarrow> ([Image image_path (Lit 286) True], None)
      | Inl e \<Rightarrow>
          if caught_by_FileNotFoundError e then importance_fallback else ([], Some e))"
  by (simp add: importance_image_def emit_def split: sum.splits)

lemmas documentation_page_unfold =
  documentation_page_def importance_tab_def importance_image_cases variables_tab_eq
  guide_tab_def importance_fallback_eq emit_def

lemma aborted_importance_image:
  "aborted (importance_image io) \<longleftrightarrow>
     (\<exists>e. io image_path = Inl e \<and> \<not> caught_by_FileNotFoundError e)"
  by (auto simp: importance_image_cases importance_fallback_eq split: sum.splits)

lemma not_aborted_static [simp]:
  "\<not> aborted variables_tab" "\<not> aborted guide_tab" "\<not> aborted importance_fallback"
  by (simp_all add: variables_tab_def guide_tab_def importance_fallback_def)

lemma aborted_importance_tab: "aborted (importance_tab io) \<longleftrightarrow> aborted (importance_image io)"
  by (simp add: importance_tab_def)

lemma aborted_documentation_page:
  "aborted (documentation_page io) \<longleftrightarrow>
     (\<exists>e. io image_path = Inl e \<and> \<not> caught_by_FileNotFoundError e)"
  by (simp add: documentation_page_def aborted_importance_tab aborted_importance_image)

section \<open>Properties of the documentation page\<close>

text \<open>
  C30. The table of variables is well formed and documents the request: its four columns
  have eleven entries each, so \<open>pd.DataFrame\<close> does not raise, and its \<open>Variable\<close> column
  lists exactly the columns of the data frame sent to the pipeline, in the same order.
\<close>

theorem variables_table_well_formed:
  "pd_DataFrame variables_data = Inr variables_data
   \<and> keys_of variables_data = [''Variable'', ''Type'', ''Description'', ''Impact'']
   \<and> list_all (\<lambda>c. length (snd c) = 11) variables_data
   \<and> map_of variables_data ''Variable'' = Some (keys_of (input_row f))"
  by (simp add: map_of_variables_data_Variable) (simp add: variables_data_def)

theorem variables_table_well_formed_witness:
  "map_of variables_data ''Variable'' = Some (keys_of (input_row init_form))"
  using variables_table_well_formed [of init_form] by simp

text \<open>
  The kind the table gives for each variable is the kind of value the handler sends
  for it: a string for a categorical variable, an integer for a numeric one, a float for
  the binary one.
\<close>

theorem documented_types_match_request:
  "\<exists>types. map_of variables_data ''Type'' = Some types
     \<and> list_all2 type_matches types (map snd (input_row f))"
  by (simp add: variables_data_def input_row_def type_matches_def)

theorem documented_types_match_request_witness:
  "\<exists>types. map_of variables_data ''Type'' = Some types
     \<and> list_all2 type_matches types (map snd (input_row init_form))"
  using documented_types_match_request [of init_form] .

text \<open>
  The example chart is well formed: it has as many values as features, so \<open>px.bar\<close>
  does not raise; the features are distinct columns of the request; the values are
  shares of the unit interval in descending order, and as decimals they add up to one.
\<close>

theorem importance_chart_well_formed:
  "px_bar importance features =
     Inr \<lparr>bar_x = importance, bar_y = features, orientation = ''h'', bar_title = Lit 299,
          bar_labels = [(''x'', ''Importance''), (''y'', ''Caract'' @ u_e_acute @ ''ristiques'')]\<rparr>
   \<and> length importance = length features
   \<and> distinct features \<and> list_all (\<lambda>x. x \<in> set column_names) features
   \<and> list_all in_unit_interval importance
   \<and> sorted_wrt float_ge importance
   \<and> importance = map Finite [35 / 100, 18 / 100, 15 / 100, 12 / 100, 8 / 100, 6 / 100, 4 / 100, 2 / 100]
   \<and> sum_list [35 / 100, 18 / 100, 15 / 100, 12 / 100, 8 / 100, 6 / 100, 4 / 100, 2 / 100 :: real] = 1"
  by simp (simp add: importance_def features_def column_names_def)

text \<open>
  C29. The documentation page on every outcome of opening the image: the image when the
  file opens, the warning and the example chart when it is missing, and otherwise the
  exception, which ends the run inside the image column, after the table of variables
  and before the explanation and the guide.
\<close>

theorem documentation_page_outcomes:
  "documentation_page io =
     (case io image_path of
        Inr img \<Rightarrow>
          ([Title (Lit 239), Tabs tab_labels,
            Within (Tab 0) [Subheader (Lit 244), Dataframe variables_data True True],
            Within (Tab 1)
              [Subheader (Lit 279), Columns [2, 1],
               Within (Column 0) [Image image_path (Lit 286) True],
               Within (Column 1) [Info (Lit 305)]],
            Within (Tab 2) [Subheader (Lit 315), Markdown (Lit 317) False]], None)
      | Inl e \<Rightarrow>
          if caught_by_FileNotFoundError e then
            ([Title (Lit 239), Tabs tab_labels,
              Within (Tab 0) [Subheader (Lit 244), Dataframe variables_data True True],
              Within (Tab 1)
                [Subheader (Lit 279), Columns [2, 1],
                 Within (Column 0) (fst importance_fallback),
                 Within (Column 1) [Info (Lit 305)]],
              Within (Tab 2) [Subheader (Lit 315), Markdown (Lit 317) False]], None)
          else
            ([Title (Lit 239), Tabs tab_labels,
              Within (Tab 0) [Subheader (Lit 244), Dataframe variables_data True True],
              Within (Tab 1) [Subheader (Lit 279), Columns [2, 1], Within (Column 0) []]],
             Some e))"
  by (simp add: documentation_page_unfold split: sum.splits)

theorem documentation_page_outcomes_witness:
  "snd (documentation_page (\<lambda>p. Inl (PyExn FileNotFoundError (Text p)))) = None
   \<and> snd (documentation_page (\<lambda>p. Inl (PyExn OtherException (Text ''cannot identify image file''))))
       = Some (PyExn OtherException (Text ''cannot identify image file''))"
  using documentation_page_outcomes [of "\<lambda>p. Inl (PyExn FileNotFoundError (Text p))"]
    documentation_page_outcomes
      [of "\<lambda>p. Inl (PyExn OtherException (Text ''cannot identify image file''))"]
  by simp

end
