(* ===== verification/App.thy ===== *)
theory App
  imports Documentation
begin

text \<open>
  The script as a whole (\<^verbatim>\<open>src/app.py\<close>, lines 1 to 377): page configuration and style
  sheet, the cached model load, the sidebar with the navigation radio, the page chosen by
  the \<^verbatim>\<open>if\<close>/\<^verbatim>\<open>elif\<close> chain, and the footer. One run takes the world of that moment
  (what \<open>joblib.load\<close> and \<open>Image.open\<close> would return), the resource cache of the process
  and the session (the page, the variables of the form, whether the button was pressed
  for this run) and gives the trace of the run and the cache after it.
\<close>

section \<open>World and session\<close>

record world =
  joblib_load :: loader
  image_open :: opener

record session =
  page :: pystr
  widgets :: form
  predict_btn :: bool

section \<open>Static parts\<close>

text \<open>Lines 11 to 16 and 19 to 49.\<close>

definition page_config :: element where
  "page_config = SetPageConfig ''Loan Approval Predictor'' u_money_bag ''wide'' ''expanded''"

definition style_sheet :: element where
  "style_sheet = Markdown (Lit 19) True"

text \<open>Line 69: the options of the navigation radio.\<close>

definition page_options :: "pystr list" where
  "page_options =
     [u_house @ '' Pr'' @ u_e_acute @ ''diction'',
      u_bar_chart @ '' Documentation'',
      u_information @ '' '' @ u_A_grave @ '' propos'']"

text \<open>Lines 66 to 75.\<close>

definition sidebar :: "element list" where
  "sidebar =
     [Within Sidebar
        [Title (Lit 67), Markdown (Lit 68) False, Radio ''Navigation'' page_options,
         Markdown (Lit 71) False, Markdown (Lit 72) False, Info (Lit 73)]]"

text \<open>Lines 336 to 368.\<close>

definition about_page :: trace where
  "about_page =
     emit
       [Title (Lit 336), Columns [1, 1],
        Within (Column 0) [Subheader (Lit 341), Markdown (Lit 342) False],
        Within (Column 1) [Subheader (Lit 354), Markdown (Lit 355) False],
        Markdown (Lit 363) False, Info (Lit 364)]"

text \<open>Lines 371 to 377.\<close>

definition footer :: "element list" where
  "footer = [Markdown (Lit 371) False, Markdown (Lit 373) True]"

section \<open>Pages\<close>

text \<open>Lines 80 to 235.\<close>

definition prediction_page :: "bool \<Rightarrow> pipeline option \<Rightarrow> form \<Rightarrow> trace" where
  "prediction_page btn model f =
     seq_trace
       (emit
          [Markdown (Lit 80) True, Markdown (Lit 81) False, Columns [2, 1],
           Within (Column 0) form_section])
       (predict_column btn model f)"

text \<open>
  Lines 78, 238 and 335: the chain compares the value of the radio with three literals;
  a value equal to none of them selects no page.
\<close>

definition page_body :: "opener \<Rightarrow> pipeline option \<Rightarrow> session \<Rightarrow> trace" where
  "page_body io model s =
     (if page s = u_house @ '' Pr'' @ u_e_acute @ ''diction''
        then prediction_page (predict_btn s) model (widgets s)
      else if page s = u_bar_chart @ '' Documentation'' then documentation_page io
      else if page s = u_information @ '' '' @ u_A_grave @ '' propos'' then about_page
      else emit [])"

section \<open>One run\<close>

text \<open>
  Lines 1 to 377. An exception of \<open>load_model\<close> ends the run after the style sheet; an
  exception of the page ends it before the footer.
\<close>

definition run_script :: "world \<Rightarrow> model_cache \<Rightarrow> session \<Rightarrow> trace \<times> model_cache" where
  "run_script w c s =
     (case cached_load_model c (joblib_load w) of
        (Inl e, c') \<Rightarrow> (([page_config, style_sheet], Some e), c')
      | (Inr (model, notice), c') \<Rightarrow>
          (seq_trace (emit ([page_config, style_sheet] @ notice @ sidebar))
             (seq_trace (page_body (image_open w) model s) (emit footer)),
           c'))"

definition init_session :: session where
  "init_session =
     \<lparr>page = u_house @ '' Pr'' @ u_e_acute @ ''diction'', widgets = init_form,
      predict_btn = False\<rparr>"

declare page_config_def [render_defs] style_sheet_def [render_defs] sidebar_def [render_defs]
  about_page_def [render_defs] footer_def [render_defs]

declare page_options_def [label_defs]

section \<open>Facts about the dispatch\<close>

lemma page_options_distinct: "distinct page_options"
  by (simp add: label_defs)

lemma page_body_prediction:
  "page s = page_options ! 0 \<Longrightarrow>
     page_body io model s = prediction_page (predict_btn s) model (widgets s)"
  by (simp add: page_body_def page_options_def)

lemma page_body_documentation:
  "page s = page_options ! 1 \<Longrightarrow> page_body io model s = documentation_page io"
  by (simp add: page_body_def label_defs)

lemma page_body_about:
  "page s = page_options ! 2 \<Longrightarrow> page_body io model s = about_page"
  by (simp add: page_body_def label_defs)

lemma page_body_other:
  "page s \<notin> set page_options \<Longrightarrow> page_body io model s = emit []"
  by (simp add: page_body_def page_options_def)

lemma in_page_options_iff:
  "p \<in> set page_options \<longleftrightarrow> p = page_options ! 0 \<or> p = page_options ! 1 \<or> p = page_options ! 2"
  by (auto simp: page_options_def)

lemma init_session_page: "page init_session = page_options ! 0"
  by (simp add: init_session_def page_options_def)

section \<open>Facts about aborted runs\<close>

lemma aborted_prediction_page:
  "aborted (prediction_page btn model f) \<longleftrightarrow> aborted (predict_column btn model f)"
  by (simp add: prediction_page_def)

lemma not_aborted_about_page [simp]: "\<not> aborted about_page"
  by (simp add: about_page_def)

lemma aborted_page_body:
  "aborted (page_body io model s) \<longleftrightarrow>
     (page s = page_options ! 0 \<and> aborted (predict_column (predict_btn s) model (widgets s)))
     \<or> (page s = page_options ! 1 \<and> aborted (documentation_page io))"
  by (auto simp: page_body_def aborted_prediction_page label_defs)

lemma run_script_load_raises:
  "cached_load_model c (joblib_load w) = (Inl e, c') \<Longrightarrow>
     run_script w c s = (([page_config, style_sheet], Some e), c')"
  by (simp add: run_script_def)

lemma run_script_loaded:
  "cached_load_model c (joblib_load w) = (Inr (model, notice), c') \<Longrightarrow>
     run_script w c s =
       (seq_trace (emit ([page_config, style_sheet] @ notice @ sidebar))
          (seq_trace (page_body (image_open w) model s) (emit footer)), c')"
  by (simp add: run_script_def)

lemma snd_run_script: "snd (run_script w c s) = snd (cached_load_model c (joblib_load w))"
  by (simp add: run_script_def split: prod.splits sum.splits)

lemma run_script_keeps_cache: "snd (run_script w (Some v) s) = Some v"
  by (simp add: snd_run_script)

lemma run_script_cases:
  obtains (raised) e c' where "cached_load_model c (joblib_load w) = (Inl e, c')"
      "run_script w c s = (([page_config, style_sheet], Some e), c')"
  | (loaded) model notice c' where "cached_load_model c (joblib_load w) = (Inr (model, notice), c')"
      "run_script w c s =
         (seq_trace (emit ([page_config, style_sheet] @ notice @ sidebar))
            (seq_trace (page_body (image_open w) model s) (emit footer)), c')"
proof (cases "cached_load_model c (joblib_load w)")
  case (Pair r c')
  then show ?thesis
    by (cases r) (auto intro: raised loaded simp: run_script_def)
qed

lemma fst_seq_trace_emit [simp]: "fst (seq_trace (emit es) t) = es @ fst t"
  by (cases t) simp

lemma seq_trace_footer:
  "\<not> aborted t \<Longrightarrow> seq_trace t (emit es) = (fst t @ es, None)"
  by (cases t) (simp add: emit_def)

section \<open>Properties of the script\<close>

text \<open>
  C22. The dispatch is exhaustive and exclusive over the options of the navigation radio:
  the three options are different strings, and each selects its own page, the prediction
  page, the documentation page and the about page in this order.
\<close>

theorem page_dispatch:
  "length page_options = 3 \<and> distinct page_options
   \<and> page_body io model (s\<lparr>page := page_options ! 0\<rparr>)
       = prediction_page (predict_btn s) model (widgets s)
   \<and> page_body io model (s\<lparr>page := page_options ! 1\<rparr>) = documentation_page io
   \<and> page_body io model (s\<lparr>page := page_options ! 2\<rparr>) = about_page"
  by (simp add: page_body_prediction page_body_documentation page_body_about
      page_options_distinct) (simp add: page_options_def)

theorem page_dispatch_witness:
  "page_body (\<lambda>p. Inr ()) None (init_session\<lparr>page := page_options ! 2\<rparr>) = about_page"
  using page_dispatch [of "\<lambda>p. Inr ()" None init_session] by simp

text \<open>
  C27. Every run opens with the page configuration, as the UI library requires of the
  first call, followed by the style sheet; and a run that no exception ends closes with
  the footer.
\<close>

theorem run_script_frame:
  "(\<exists>rest. fst (fst (run_script w c s)) = page_config # style_sheet # rest)
   \<and> (aborted (fst (run_script w c s))
        \<or> (\<exists>body. fst (fst (run_script w c s)) = body @ footer))"
proof (cases rule: run_script_cases [of c w s])
  case (raised e c')
  then show ?thesis by simp
next
  case (loaded model notice c')
  show ?thesis
  proof (cases "aborted (page_body (image_open w) model s)")
    case True
    with loaded show ?thesis by simp
  next
    case False
    with loaded show ?thesis by (simp add: seq_trace_footer)
  qed
qed

theorem run_script_frame_witness:
  "\<exists>body. fst (fst (run_script \<lparr>joblib_load = \<lambda>p. Inr (\<lambda>df. Inr []), image_open = \<lambda>p. Inr ()\<rparr>
       None (init_session\<lparr>page := page_options ! 2\<rparr>))) = body @ footer"
  using run_script_frame [of "\<lparr>joblib_load = \<lambda>p. Inr (\<lambda>df. Inr []), image_open = \<lambda>p. Inr ()\<rparr>"
      None "init_session\<lparr>page := page_options ! 2\<rparr>"]
  by (simp add: run_script_def cached_load_model_miss load_model_def page_body_about)

text \<open>
  C13. A run ends with an exception in exactly three situations: the cache is empty and
  \<open>joblib.load\<close> raises something other than \<open>FileNotFoundError\<close>; the documentation
  page is shown and \<open>Image.open\<close> raises something other than \<open>FileNotFoundError\<close>; the
  button of the prediction page was pressed, a model is loaded, and the pipeline raises
  something that is not an \<open>Exception\<close>.
\<close>

theorem run_script_aborts_iff:
  "(aborted (fst (run_script w c s)) \<longleftrightarrow>
      (case fst (cached_load_model c (joblib_load w)) of
         Inl e \<Rightarrow> True
       | Inr (model, notice) \<Rightarrow>
           (page s = page_options ! 1 \<and>
              (\<exists>e. image_open w image_path = Inl e \<and> \<not> caught_by_FileNotFoundError e))
           \<or> (page s = page_options ! 0 \<and> predict_btn s \<and>
                 (\<exists>m e. model = Some m \<and> m (input_df (widgets s)) = Inl e
                    \<and> \<not> caught_by_Exception e))))
   \<and> (isl (fst (cached_load_model c (joblib_load w))) \<longleftrightarrow>
         (c = None \<and>
            (\<exists>e. joblib_load w artifact_path = Inl e \<and> \<not> caught_by_FileNotFoundError e)))"
proof -
  have load: "isl (fst (cached_load_model c (joblib_load w))) \<longleftrightarrow>
      (c = None \<and> (\<exists>e. joblib_load w artifact_path = Inl e \<and> \<not> caught_by_FileNotFoundError e))"
    by (cases c) (auto simp: cached_load_model_miss load_model_def split: sum.splits)
  have pred: "aborted (predict_column b model f) \<longleftrightarrow>
      b \<and> (\<exists>m e. model = Some m \<and> m (input_df f) = Inl e \<and> \<not> caught_by_Exception e)"
    for b model f
    by (simp add: predict_column_aborted_iff prediction_Inl_iff_pipeline)
  show ?thesis
  proof (cases rule: run_script_cases [of c w s])
    case (raised e c')
    with load show ?thesis by simp
  next
    case (loaded model notice c')
    with load show ?thesis
      by (simp add: aborted_page_body aborted_documentation_page pred) blast
  qed
qed

theorem run_script_aborts_iff_witness:
  "aborted (fst (run_script
       \<lparr>joblib_load = \<lambda>p. Inl (PyExn OtherException (Text ''invalid load key'')),
        image_open = \<lambda>p. Inr ()\<rparr> None init_session))"
  using run_script_aborts_iff
    [of "\<lparr>joblib_load = \<lambda>p. Inl (PyExn OtherException (Text ''invalid load key'')),
          image_open = \<lambda>p. Inr ()\<rparr>" None init_session]
  by (simp add: cached_load_model_miss load_model_def)

text \<open>
  C28. The degraded mode: with the artifact missing, a run of the prediction page with the
  button pressed completes, shows the not-found notice, the sidebar, the form, the
  heading and the button of the result column and the footer, and no prediction; and it
  leaves the failure in the cache.
\<close>

theorem degraded_mode_run:
  assumes "joblib_load w artifact_path = Inl e" and "caught_by_FileNotFoundError e"
    and "page s = page_options ! 0"
  shows "run_script w None s =
     (([page_config, style_sheet, Error (Lit 58) None] @ sidebar
        @ [Markdown (Lit 80) True, Markdown (Lit 81) False, Columns [2, 1],
           Within (Column 0) form_section,
           Within (Column 1) [Subheader (Lit 152), Button (Lit 156)]]
        @ footer, None),
      Some (None, [Error (Lit 58) None]))"
  using assms
  by (simp add: run_script_def cached_load_model_miss load_model_missing page_body_prediction
      prediction_page_def predict_column_no_model emit_def)

theorem degraded_mode_run_witness:
  "snd (run_script \<lparr>joblib_load = \<lambda>p. Inl (PyExn FileNotFoundError (Text p)),
        image_open = \<lambda>p. Inr ()\<rparr> None (init_session\<lparr>predict_btn := True\<rparr>))
     = Some (None, [Error (Lit 58) None])"
  using degraded_mode_run
    [of "\<lparr>joblib_load = \<lambda>p. Inl (PyExn FileNotFoundError (Text p)), image_open = \<lambda>p. Inr ()\<rparr>"
        "PyExn FileNotFoundError (Text artifact_path)" "init_session\<lparr>predict_btn := True\<rparr>"]
  by (simp add: init_session_page)

end
