(* ===== verification/Session.thy ===== *)
theory Session
  imports App
begin

text \<open>
  A session over time: the user acts on one widget, the script runs again, and the
  process keeps its resource cache from run to run. The state between two runs is the
  cache and the session as the last run left it. The UI library decides three things,
  modelled here as it documents them: the radio offers its options only; the button
  reads true in the run its press triggers and false afterwards; a widget that a run
  does not call loses its state, so the form is back at its defaults after a visit to
  another page.
\<close>

section \<open>State and events\<close>

record app_state =
  cache :: model_cache
  current :: session

datatype user_event = Navigate pystr | Edit form_event | Press

text \<open>The session the next run sees, or \<open>None\<close> for an action the page does not offer.\<close>

fun user_update :: "session \<Rightarrow> user_event \<Rightarrow> session option" where
  "user_update s (Navigate p) =
     (if p \<in> set page_options
      then Some (s\<lparr>page := p,
                   widgets := (if p = page_options ! 0 then widgets s else init_form)\<rparr>)
      else None)"
| "user_update s (Edit ev) =
     (if page s = page_options ! 0
      then map_option (\<lambda>f. s\<lparr>widgets := f\<rparr>) (apply_event (widgets s) ev)
      else None)"
| "user_update s Press =
     (if page s = page_options ! 0 then Some (s\<lparr>predict_btn := True\<rparr>) else None)"

text \<open>One interaction: the trace of the run it triggers and the state it leaves.\<close>

definition interact :: "world \<Rightarrow> app_state \<Rightarrow> user_event \<Rightarrow> (trace \<times> app_state) option" where
  "interact w st ev =
     (case user_update (current st) ev of
        None \<Rightarrow> None
      | Some s \<Rightarrow>
          Some (fst (run_script w (cache st) s),
                \<lparr>cache = snd (run_script w (cache st) s),
                 current = s\<lparr>predict_btn := False\<rparr>\<rparr>))"

text \<open>The first run of a fresh process.\<close>

definition first_run :: "world \<Rightarrow> trace \<times> app_state" where
  "first_run w =
     (fst (run_script w None init_session),
      \<lparr>cache = snd (run_script w None init_session), current = init_session\<rparr>)"

text \<open>A sequence of interactions, each against the world of its moment.\<close>

fun interacts :: "app_state \<Rightarrow> (world \<times> user_event) list \<Rightarrow> app_state option" where
  "interacts st [] = Some st"
| "interacts st ((w, ev) # rest) =
     (case interact w st ev of None \<Rightarrow> None | Some (t, st') \<Rightarrow> interacts st' rest)"

inductive reachable :: "app_state \<Rightarrow> bool" where
  start: "reachable (snd (first_run w))"
| step: "reachable st \<Longrightarrow> interact w st ev = Some (t, st') \<Longrightarrow> reachable st'"

section \<open>Invariants\<close>

definition session_ok :: "session \<Rightarrow> bool" where
  "session_ok s \<longleftrightarrow>
     page s \<in> set page_options \<and> valid_form (widgets s) \<and> \<not> predict_btn s
     \<and> (page s \<noteq> page_options ! 0 \<longrightarrow> widgets s = init_form)"

definition cache_ok :: "model_cache \<Rightarrow> bool" where
  "cache_ok c \<longleftrightarrow>
     (case c of
        None \<Rightarrow> True
      | Some (None, notice) \<Rightarrow> notice = [Error (Lit 58) None]
      | Some (Some m, notice) \<Rightarrow> notice = [])"

definition state_ok :: "app_state \<Rightarrow> bool" where
  "state_ok st \<longleftrightarrow> session_ok (current st) \<and> cache_ok (cache st)"

fun is_gauge :: "element \<Rightarrow> bool" where
  "is_gauge (PlotlyChart (Indicator i) b) = True"
| "is_gauge _ = False"

section \<open>Facts about single steps\<close>

lemma session_ok_init: "session_ok init_session"
  by (simp add: session_ok_def init_session_def valid_form_init page_options_def)

fun_cases user_update_NavigateE: "user_update s (Navigate p) = Some s'"
  and user_update_EditE: "user_update s (Edit ev) = Some s'"
  and user_update_PressE: "user_update s Press = Some s'"

lemmas user_update_elims = user_update_NavigateE user_update_EditE user_update_PressE

lemma user_update_ok:
  assumes "session_ok s" and "user_update s ev = Some s'"
  shows "session_ok (s'\<lparr>predict_btn := False\<rparr>)"
  using assms
  by (cases ev)
    (auto elim!: user_update_elims simp: session_ok_def valid_form_init
      split: if_splits dest: valid_form_apply_event)

lemma cache_ok_load: "cache_ok c \<Longrightarrow> cache_ok (snd (cached_load_model c jl))"
  by (cases c)
    (auto simp: cache_ok_def cached_load_model_miss load_model_def split: sum.splits option.splits)

lemma cache_ok_run_script: "cache_ok c \<Longrightarrow> cache_ok (snd (run_script w c s))"
  by (simp add: snd_run_script cache_ok_load)

lemma interact_Some_iff:
  "interact w st ev = Some (t, st') \<longleftrightarrow>
     (\<exists>s. user_update (current st) ev = Some s
        \<and> t = fst (run_script w (cache st) s)
        \<and> st' = \<lparr>cache = snd (run_script w (cache st) s), current = s\<lparr>predict_btn := False\<rparr>\<rparr>)"
  by (auto simp: interact_def split: option.splits)

lemma cache_ok_None [simp]: "cache_ok None"
  by (simp add: cache_ok_def)

lemma state_ok_first_run: "state_ok (snd (first_run w))"
  by (simp add: state_ok_def first_run_def session_ok_init cache_ok_run_script)

lemma state_ok_interact:
  "state_ok st \<Longrightarrow> interact w st ev = Some (t, st') \<Longrightarrow> state_ok st'"
  by (auto simp: state_ok_def interact_Some_iff intro: user_update_ok cache_ok_run_script)

lemma reachable_state_ok: "reachable st \<Longrightarrow> state_ok st"
  by (induction rule: reachable.induct) (auto intro: state_ok_first_run state_ok_interact)

lemma interact_keeps_cache:
  "interact w st ev = Some (t, st') \<Longrightarrow> cache st = Some v \<Longrightarrow> cache st' = Some v"
  by (auto simp: interact_Some_iff run_script_keeps_cache)

section \<open>Facts about what a run shows\<close>

lemma interacts_keeps_cache:
  assumes "interacts st evs = Some st'" and "cache st = Some v"
  shows "cache st' = Some v"
  using assms
proof (induction evs arbitrary: st)
  case Nil
  then show ?case by simp
next
  case (Cons wev evs)
  obtain w ev where wev: "wev = (w, ev)" by (cases wev)
  with Cons.prems obtain t st1 where st1: "interact w st ev = Some (t, st1)"
    and rest: "interacts st1 evs = Some st'"
    by (auto split: option.splits)
  from st1 Cons.prems(2) have "cache st1 = Some v" by (rule interact_keeps_cache)
  with rest show ?case by (rule Cons.IH)
qed

lemma run_script_warm:
  "run_script w (Some (model, notice)) s =
     (seq_trace (emit ([page_config, style_sheet] @ notice @ sidebar))
        (seq_trace (page_body (image_open w) model s) (emit footer)),
      Some (model, notice))"
  by (simp add: run_script_def)

lemma run_script_pressed_scored:
  assumes "page s = page_options ! 0" and "predict_btn s"
    and "score m (input_df (widgets s)) = Inr p"
  shows "fst (run_script w (Some (Some m, [])) s) =
     ([page_config, style_sheet] @ sidebar
        @ [Markdown (Lit 80) True, Markdown (Lit 81) False, Columns [2, 1],
           Within (Column 0) form_section,
           Within (Column 1) ([Subheader (Lit 152), Button (Lit 156)] @ result_card p)]
        @ footer, None)"
  using assms
  by (simp add: run_script_warm page_body_prediction prediction_page_def
      predict_column_pressed prediction_scored emit_def)

lemma no_gauge_static [simp]:
  "\<not> list_ex is_gauge (all_leaves sidebar)"
  "\<not> list_ex is_gauge (all_leaves footer)"
  "\<not> list_ex is_gauge (all_leaves form_section)"
  "\<not> list_ex is_gauge (all_leaves (fst about_page))"
  by (simp_all add: render_defs)

lemma no_gauge_documentation [simp]:
  "\<not> list_ex is_gauge (all_leaves (fst (documentation_page io)))"
  by (simp add: documentation_page_unfold split: sum.splits)

lemma no_gauge_idle_column [simp]:
  "\<not> list_ex is_gauge (all_leaves (fst (predict_column False model f)))"
  by (simp add: predict_column_idle)

lemma no_gauge_idle_body:
  "\<not> predict_btn s \<Longrightarrow> \<not> list_ex is_gauge (all_leaves (fst (page_body io model s)))"
  by (simp add: page_body_def prediction_page_def)

lemma cache_ok_notice:
  assumes "cache_ok c" and "cached_load_model c jl = (Inr (model, notice), c')"
  shows "notice = [] \<or> notice = [Error (Lit 58) None]"
  using assms
  by (cases c)
    (auto simp: cache_ok_def cached_load_model_miss load_model_def
      split: sum.splits option.splits if_splits)

lemma no_gauge_idle_run:
  assumes "cache_ok c" and "\<not> predict_btn s"
  shows "\<not> list_ex is_gauge (all_leaves (fst (fst (run_script w c s))))"
proof (cases rule: run_script_cases [of c w s])
  case (raised e c')
  then show ?thesis by (simp add: render_defs)
next
  case (loaded model notice c')
  from cache_ok_notice [OF assms(1) loaded(1)] have "\<not> list_ex is_gauge (all_leaves notice)"
    by auto
  with loaded(2) assms(2) show ?thesis
    by (simp add: fst_seq_trace no_gauge_idle_body) (simp add: render_defs)
qed

lemma user_update_not_pressed:
  "user_update s ev = Some s' \<Longrightarrow> ev \<noteq> Press \<Longrightarrow> predict_btn s' = predict_btn s"
  by (cases ev) (auto elim!: user_update_elims split: if_splits)

lemma interacts_snoc:
  assumes "interacts st evs = Some st1" and "interact w st1 ev = Some (t, st2)"
  shows "interacts st (evs @ [(w, ev)]) = Some st2"
  using assms by (induction evs arbitrary: st) (auto split: option.splits)

lemma reachable_interacts:
  "reachable st \<Longrightarrow> interacts st evs = Some st' \<Longrightarrow> reachable st'"
proof (induction evs arbitrary: st)
  case Nil
  then show ?case by simp
next
  case (Cons wev evs)
  then show ?case
    by (cases wev) (auto split: option.splits intro: reachable.step)
qed

section \<open>Properties of sessions\<close>

text \<open>
  C12. In every state a session can reach, the page is one of the three options, the
  variables of the form are in their domains, the form is at its defaults whenever
  another page is shown, the button reads false, and the cache, if filled, holds either
  a model and no notice or no model and the not-found notice.
\<close>

theorem reachable_invariant:
  assumes "reachable st"
  shows "page (current st) \<in> set page_options
     \<and> valid_form (widgets (current st))
     \<and> \<not> predict_btn (current st)
     \<and> (page (current st) \<noteq> page_options ! 0 \<longrightarrow> widgets (current st) = init_form)
     \<and> (case cache st of
          None \<Rightarrow> True
        | Some (None, notice) \<Rightarrow> notice = [Error (Lit 58) None]
        | Some (Some m, notice) \<Rightarrow> notice = [])"
  using reachable_state_ok [OF assms] by (simp add: state_ok_def session_ok_def cache_ok_def)

theorem reachable_invariant_witness:
  "valid_form (widgets (current (snd (first_run
      \<lparr>joblib_load = \<lambda>p. Inl (PyExn FileNotFoundError (Text p)), image_open = \<lambda>p. Inr ()\<rparr>))))
   \<and> cache (snd (first_run
      \<lparr>joblib_load = \<lambda>p. Inl (PyExn FileNotFoundError (Text p)), image_open = \<lambda>p. Inr ()\<rparr>))
     = Some (None, [Error (Lit 58) None])"
  using reachable_invariant [OF reachable.start
      [of "\<lparr>joblib_load = \<lambda>p. Inl (PyExn FileNotFoundError (Text p)), image_open = \<lambda>p. Inr ()\<rparr>"]]
  by (simp add: first_run_def snd_run_script cached_load_model_miss load_model_def)

text \<open>
  The cache is written once: whatever it holds stays in it through every later
  interaction, against every later state of the file system.
\<close>

theorem cache_written_once:
  assumes "interacts st evs = Some st'" and "cache st = Some v"
  shows "cache st' = Some v"
  using assms by (rule interacts_keeps_cache)

theorem cache_written_once_witness:
  "cache (the (interacts \<lparr>cache = Some (None, [Error (Lit 58) None]), current = init_session\<rparr>
      [(\<lparr>joblib_load = \<lambda>p. Inr (\<lambda>df. Inr []), image_open = \<lambda>p. Inr ()\<rparr>, Press)]))
     = Some (None, [Error (Lit 58) None])"
proof -
  let ?st = "\<lparr>cache = Some (None, [Error (Lit 58) None]), current = init_session\<rparr>"
  let ?w = "\<lparr>joblib_load = \<lambda>p. Inr (\<lambda>df. Inr []), image_open = \<lambda>p. Inr ()\<rparr>"
  obtain st' where st': "interacts ?st [(?w, Press)] = Some st'"
    by (simp add: interact_def init_session_page)
  from cache_written_once [OF st'] st' show ?thesis by simp
qed

text \<open>
  C21. A result is shown only in the run a press of the button triggers: the run after
  any other interaction shows no gauge, on any page and whatever the cache holds.
\<close>

theorem result_only_after_press:
  assumes "reachable st" and "interact w st ev = Some (t, st')" and "ev \<noteq> Press"
  shows "\<not> list_ex is_gauge (all_leaves (fst t))"
proof -
  from assms(1) have ok: "state_ok st" by (rule reachable_state_ok)
  from assms(2) obtain s where s: "user_update (current st) ev = Some s"
    and t: "t = fst (run_script w (cache st) s)"
    by (auto simp: interact_Some_iff)
  from s assms(3) ok have "\<not> predict_btn s"
    by (simp add: user_update_not_pressed state_ok_def session_ok_def)
  with ok t show ?thesis by (simp add: no_gauge_idle_run state_ok_def)
qed

theorem result_only_after_press_witness:
  "\<not> list_ex is_gauge (all_leaves (fst (fst (the (interact
      \<lparr>joblib_load = \<lambda>p. Inr (\<lambda>df. Inr [[Finite 0, Finite 1]]), image_open = \<lambda>p. Inr ()\<rparr>
      (snd (first_run
         \<lparr>joblib_load = \<lambda>p. Inr (\<lambda>df. Inr [[Finite 0, Finite 1]]), image_open = \<lambda>p. Inr ()\<rparr>))
      (Edit (SetCreditHistory (Finite 0))))))))"
proof -
  let ?w = "\<lparr>joblib_load = \<lambda>p. Inr (\<lambda>df. Inr [[Finite 0, Finite 1]]), image_open = \<lambda>p. Inr ()\<rparr>"
  obtain t st' where i: "interact ?w (snd (first_run ?w)) (Edit (SetCreditHistory (Finite 0)))
      = Some (t, st')"
    by (simp add: interact_def first_run_def init_session_page accepts_simps)
  from result_only_after_press [OF reachable.start i] i show ?thesis by simp
qed

text \<open>
  The states a session can reach are exactly the states the runs produce: a state is
  reachable if and only if some first run followed by some list of interactions, each
  against its own state of the file system, ends in it.
\<close>

theorem reachable_iff_interacts:
  "reachable st \<longleftrightarrow> (\<exists>w0 evs. interacts (snd (first_run w0)) evs = Some st)"
proof
  assume "reachable st"
  then show "\<exists>w0 evs. interacts (snd (first_run w0)) evs = Some st"
  proof (induction rule: reachable.induct)
    case (start w0)
    have "interacts (snd (first_run w0)) [] = Some (snd (first_run w0))" by simp
    then show ?case by blast
  next
    case (step st w ev t st')
    then obtain w0 evs where "interacts (snd (first_run w0)) evs = Some st" by blast
    from this step.hyps(2) have "interacts (snd (first_run w0)) (evs @ [(w, ev)]) = Some st'"
      by (rule interacts_snoc)
    then show ?case by blast
  qed
next
  assume "\<exists>w0 evs. interacts (snd (first_run w0)) evs = Some st"
  then show "reachable st" by (auto intro: reachable_interacts reachable.start)
qed

end
