(* ===== verification/Layout.thy ===== *)
theory Layout
  imports Session
begin

text \<open>
  The shape of what a run hands to the UI library. The library refuses a script that
  configures the page after another call or twice, and one that makes the same widget
  call twice; and the script itself would stop at a \<^verbatim>\<open>with\<close> on a column or a tab that the
  call before it did not return (the unpacking of \<^verbatim>\<open>st.columns\<close> and \<^verbatim>\<open>st.tabs\<close> into names
  fails when the numbers differ). A well-formed output is one to which none of this
  applies. The theorem of this theory is that every run of \<^verbatim>\<open>src/app.py\<close> is well formed,
  on every page and on every outcome of the load, the image and the pipeline.
\<close>

section \<open>Well-formed output\<close>

text \<open>A container can be entered if the call that made it came before, at the same level.\<close>

fun place_ok :: "nat \<Rightarrow> nat \<Rightarrow> place \<Rightarrow> bool" where
  "place_ok nc nt (Column i) = (i < nc)"
| "place_ok nc nt (Tab i) = (i < nt)"
| "place_ok nc nt Sidebar = True"
| "place_ok nc nt Container = True"

text \<open>
  \<open>wf_layout nc nt es\<close>: the calls \<open>es\<close> of one block are in order, when the block starts
  with \<open>nc\<close> columns and \<open>nt\<close> tabs to enter. A block inside a container starts with none.
\<close>

fun wf_layout :: "nat \<Rightarrow> nat \<Rightarrow> element list \<Rightarrow> bool" where
  "wf_layout nc nt [] = True"
| "wf_layout nc nt (Columns ws # es) =
     (ws \<noteq> [] \<and> list_all (\<lambda>w. 0 < w) ws \<and> wf_layout (length ws) nt es)"
| "wf_layout nc nt (Tabs ls # es) = (ls \<noteq> [] \<and> wf_layout nc (length ls) es)"
| "wf_layout nc nt (Within pl b # es) =
     (place_ok nc nt pl \<and> wf_layout 0 0 b \<and> wf_layout nc nt es)"
| "wf_layout nc nt (SetPageConfig t i l b # es) = False"
| "wf_layout nc nt (e # es) = wf_layout nc nt es"

text \<open>The columns and tabs a block leaves to enter.\<close>

fun scope_after :: "nat \<Rightarrow> nat \<Rightarrow> element list \<Rightarrow> nat \<times> nat" where
  "scope_after nc nt [] = (nc, nt)"
| "scope_after nc nt (Columns ws # es) = scope_after (length ws) nt es"
| "scope_after nc nt (Tabs ls # es) = scope_after nc (length ls) es"
| "scope_after nc nt (e # es) = scope_after nc nt es"

text \<open>A whole run: the page configuration first and once, and no widget call twice.\<close>

definition wf_script :: "element list \<Rightarrow> bool" where
  "wf_script es \<longleftrightarrow>
     (case es of
        SetPageConfig t i l b # rest \<Rightarrow> wf_layout 0 0 rest \<and> distinct (widgets_of rest)
      | _ \<Rightarrow> False)"

section \<open>Facts about blocks\<close>

lemma wf_layout_append:
  "wf_layout nc nt (xs @ ys) \<longleftrightarrow>
     wf_layout nc nt xs
     \<and> wf_layout (fst (scope_after nc nt xs)) (snd (scope_after nc nt xs)) ys"
  by (induction nc nt xs rule: wf_layout.induct) auto

lemma widgets_of_append [simp]: "widgets_of (xs @ ys) = widgets_of xs @ widgets_of ys"
  by (simp add: widgets_of_def all_leaves_append)

lemma widgets_of_Nil [simp]: "widgets_of [] = []"
  by (simp add: widgets_of_def)

lemma widgets_of_Cons:
  "widgets_of (e # es)
     = (case e of Within pl b \<Rightarrow> widgets_of b | _ \<Rightarrow> if is_widget e then [e] else [])
       @ widgets_of es"
  by (cases e) (simp_all add: widgets_of_def)

section \<open>The parts of the script\<close>

lemma wf_layout_static [simp]:
  "wf_layout 0 0 sidebar" "wf_layout nc nt footer" "wf_layout 0 0 form_section"
  "wf_layout 0 0 (result_card p)" "wf_layout 0 0 (fst about_page)"
  by (simp_all add: render_defs decision_banner_def)

lemma scope_after_sidebar [simp]: "scope_after nc nt sidebar = (nc, nt)"
  by (simp add: sidebar_def)

lemma widgets_of_static [simp]:
  "widgets_of sidebar = [Radio ''Navigation'' page_options]" "widgets_of footer = []"
  "widgets_of (result_card p) = []" "widgets_of (fst about_page) = []"
  by (simp_all add: widgets_of_def render_defs decision_banner_def)

text \<open>The result column: the heading and the button, then nothing, a card or one error.\<close>

lemma fst_predict_column:
  obtains shown where
    "fst (predict_column b model f) = [Within (Column 1) ([Subheader (Lit 152), Button (Lit 156)] @ shown)]"
    "shown = [] \<or> (\<exists>p. shown = result_card p) \<or> (\<exists>e. shown = [Error (Lit 235) (Some e)])"
proof (cases "b \<and> model \<noteq> None")
  case False
  then have "fst (predict_column b model f) = [Within (Column 1) ([Subheader (Lit 152), Button (Lit 156)] @ [])]"
    by (cases b; cases model) (simp_all add: predict_column_idle predict_column_no_model)
  then show ?thesis by (rule that) simp
next
  case True
  then obtain m where m: "b" "model = Some m" by auto
  show ?thesis
  proof (cases rule: prediction_cases [of m f])
    case (scored p)
    with m show ?thesis by (intro that [of "result_card p"]) (auto simp: predict_column_pressed)
  next
    case (caught e)
    with m show ?thesis
      by (intro that [of "[Error (Lit 235) (Some e)]"]) (auto simp: predict_column_pressed)
  next
    case (uncaught e)
    with m show ?thesis by (intro that [of "[]"]) (auto simp: predict_column_pressed)
  qed
qed

lemma wf_layout_prediction_page: "wf_layout 0 0 (fst (prediction_page b model f))"
  by (rule fst_predict_column [of b model f]) (auto simp: prediction_page_def)

lemma widgets_of_prediction_page:
  "widgets_of (fst (prediction_page b model f)) = widgets_of form_section @ [Button (Lit 156)]"
  by (rule fst_predict_column [of b model f])
    (auto simp: prediction_page_def widgets_of_Cons)

lemma fst_documentation_page:
  obtains shown where
    "fst (documentation_page io)
       = [Title (Lit 239), Tabs tab_labels,
          Within (Tab 0) [Subheader (Lit 244), Dataframe variables_data True True],
          Within (Tab 1) ([Subheader (Lit 279), Columns [2, 1], Within (Column 0) shown]
             @ (if aborted (importance_image io) then [] else [Within (Column 1) [Info (Lit 305)]]))]
          @ (if aborted (importance_image io) then []
             else [Within (Tab 2) [Subheader (Lit 315), Markdown (Lit 317) False]])"
    "wf_layout 0 0 shown" "widgets_of shown = []"
  by (rule that [of "fst (importance_image io)"])
    (auto simp: documentation_page_unfold widgets_of_Cons split: sum.splits)

lemma wf_layout_documentation_page: "wf_layout 0 0 (fst (documentation_page io))"
  by (rule fst_documentation_page [of io]) (auto simp: tab_labels_def)

lemma widgets_of_documentation_page: "widgets_of (fst (documentation_page io)) = []"
  by (rule fst_documentation_page [of io]) (auto simp: widgets_of_Cons)

lemma wf_layout_page_body: "wf_layout 0 0 (fst (page_body io model s))"
  by (simp add: page_body_def wf_layout_prediction_page wf_layout_documentation_page)

lemma widgets_of_page_body:
  "widgets_of (fst (page_body io model s))
     = (if page s = page_options ! 0 then widgets_of form_section @ [Button (Lit 156)] else [])"
  by (simp add: page_body_def widgets_of_prediction_page widgets_of_documentation_page
      page_options_def)

lemma radio_not_in_form: "Radio ''Navigation'' page_options \<notin> set (widgets_of form_section)"
  by (simp add: widgets_of_def render_defs widget_defs)

lemma button_not_in_form: "Button (Lit 156) \<notin> set (widgets_of form_section)"
  by (simp add: widgets_of_def render_defs widget_defs)

text \<open>What follows the page configuration in a run whose load returned.\<close>

lemma wf_script_shape:
  assumes "notice = [] \<or> notice = [Error (Lit 58) None]"
  shows "wf_layout 0 0
       (style_sheet # notice @ sidebar @ fst (page_body io model s) @ (if b then [] else footer))
     \<and> distinct (widgets_of
       (style_sheet # notice @ sidebar @ fst (page_body io model s) @ (if b then [] else footer)))"
proof -
  from assms have notice:
    "wf_layout 0 0 notice" "scope_after 0 0 notice = (0, 0)" "widgets_of notice = []"
    by (auto simp: widgets_of_def)
  from notice show ?thesis
    using radio_not_in_form button_not_in_form form_widgets_distinct
    by (simp add: style_sheet_def wf_layout_append wf_layout_page_body widgets_of_Cons
        widgets_of_page_body)
qed

section \<open>Every run is well formed\<close>

text \<open>
  C8. Every run is well formed. Whatever the world, the session and the page, with a cache
  that holds nothing or what a load left there, the output of the run starts with the
  page configuration and configures the page nowhere else, enters only columns and tabs
  that the call before returned, and makes no widget call twice.
\<close>

theorem run_output_well_formed:
  assumes "cache_ok c"
  shows "wf_script (fst (fst (run_script w c s)))"
proof (cases "cached_load_model c (joblib_load w)")
  case (Pair r c')
  show ?thesis
  proof (cases r)
    case (Inl e)
    with Pair show ?thesis
      by (simp add: run_script_def wf_script_def page_config_def style_sheet_def widgets_of_def)
  next
    case (Inr loaded)
    obtain model notice where loaded: "loaded = (model, notice)" by (cases loaded)
    let ?body = "page_body (image_open w) model s"
    let ?rest = "style_sheet # notice @ sidebar @ fst ?body @ (if aborted ?body then [] else footer)"
    from Pair Inr loaded have "cached_load_model c (joblib_load w) = (Inr (model, notice), c')"
      by simp
    with assms have "notice = [] \<or> notice = [Error (Lit 58) None]"
      by (rule cache_ok_notice)
    then have "wf_layout 0 0 ?rest \<and> distinct (widgets_of ?rest)"
      by (rule wf_script_shape)
    with Pair Inr loaded show ?thesis
      by (cases "aborted ?body")
        (simp_all add: run_script_def fst_seq_trace wf_script_def page_config_def)
  qed
qed

theorem run_output_well_formed_witness:
  "wf_script (fst (fst (run_script
       \<lparr>joblib_load = \<lambda>p. Inr (\<lambda>df. Inr [[Finite (1 / 4), Finite (3 / 4)]]),
        image_open = \<lambda>p. Inr ()\<rparr> None (init_session\<lparr>predict_btn := True\<rparr>))))"
  using run_output_well_formed
    [of None "\<lparr>joblib_load = \<lambda>p. Inr (\<lambda>df. Inr [[Finite (1 / 4), Finite (3 / 4)]]),
        image_open = \<lambda>p. Inr ()\<rparr>" "init_session\<lparr>predict_btn := True\<rparr>"]
  by simp

end
