(* ===== verification/Concurrent.thy ===== *)
theory Concurrent
  imports Session
begin

text \<open>
  Several sessions in one process. Each session has its own widget values; the resource
  cache of \<open>load_model\<close> (\<^verbatim>\<open>src/app.py\<close>, lines 53 to 63) is shared by all of them. The
  UI library runs the scripts of different sessions in different threads, and the
  specification (section 5) asks that the one-time load be guarded by a lock. The
  library does it this way: a run reads the cache; if it is empty the run waits for the
  lock of the cache, reads the cache again once it holds the lock, and only if the cache
  is still empty calls the body and stores what the body returned; then it gives the
  lock back.

  Each of these is a step of its own here, so that runs can overlap between any two of
  them: the first reading (\<open>Begin\<close>), the taking of the lock (\<open>Acquire\<close>), the second
  reading (\<open>Look\<close>), and the call of the body with the store (\<open>Load\<close>). Only \<open>Acquire\<close>
  asks whether the lock is free; the steps after it ask nothing of the lock, as a thread
  inside a critical section does not. That no second run calls the body is therefore a
  theorem about the lock, and it fails when \<open>Acquire\<close> does not wait. What a run draws
  depends on nothing shared but the model it was given, so it is part of the step that
  gave the run its model.
\<close>

section \<open>State\<close>

text \<open>What a client asks for: the first run of a new session, or a run after an action.\<close>

datatype request = Open | Do user_event

text \<open>
  Where a run that found the cache empty stands: waiting for the lock, holding it before
  the second reading, or holding it after a second reading that found nothing.
\<close>

datatype stage = Missed | Holding | Loading

record client =
  view :: "session option"
  job :: "(request \<times> stage) option"

text \<open>\<open>loads\<close> counts the calls of the body of \<open>load_model\<close> that returned.\<close>

record process =
  shared :: model_cache
  holder :: "nat option"
  clients :: "nat \<Rightarrow> client"
  loads :: nat

definition boot :: process where
  "boot = \<lparr>shared = None, holder = None, clients = (\<lambda>i. \<lparr>view = None, job = None\<rparr>), loads = 0\<rparr>"

text \<open>The session a request runs the script with, if the session offers the request.\<close>

fun requested :: "session option \<Rightarrow> request \<Rightarrow> session option" where
  "requested None Open = Some init_session"
| "requested (Some s) (Do ev) = user_update s ev"
| "requested _ _ = None"

section \<open>Steps\<close>

datatype label = Begin nat request world | Acquire nat | Look nat world | Load nat world

fun actor :: "label \<Rightarrow> nat" where
  "actor (Begin i r w) = i"
| "actor (Acquire i) = i"
| "actor (Look i w) = i"
| "actor (Load i w) = i"

text \<open>The end of a run of client \<open>i\<close> for the session \<open>s\<close>: the widget values are kept.\<close>

definition finish_run :: "process \<Rightarrow> nat \<Rightarrow> session \<Rightarrow> process" where
  "finish_run p i s =
     p\<lparr>clients := (clients p)(i := \<lparr>view = Some (s\<lparr>predict_btn := False\<rparr>), job = None\<rparr>)\<rparr>"

text \<open>
  One step: what the client is shown, if the step ends its run, and the next state. A run
  that was given a cached value is \<open>run_script\<close> on that value. A run that called the body
  is \<open>run_script\<close> on an empty cache; the cache takes what the decorated function leaves
  in an empty slot, and keeps what it has when the body raised.
\<close>

fun pstep :: "process \<Rightarrow> label \<Rightarrow> (trace option \<times> process) option" where
  "pstep p (Begin i r w) =
     (case (job (clients p i), requested (view (clients p i)) r) of
        (None, Some s) \<Rightarrow>
          (case shared p of
             None \<Rightarrow>
               Some (None, p\<lparr>clients := (clients p)(i := (clients p i)\<lparr>job := Some (r, Missed)\<rparr>)\<rparr>)
           | Some v \<Rightarrow> Some (Some (fst (run_script w (Some v) s)), finish_run p i s))
      | _ \<Rightarrow> None)"
| "pstep p (Acquire i) =
     (case (job (clients p i), holder p) of
        (Some (r, Missed), None) \<Rightarrow>
          Some (None, p\<lparr>holder := Some i,
                         clients := (clients p)(i := (clients p i)\<lparr>job := Some (r, Holding)\<rparr>)\<rparr>)
      | _ \<Rightarrow> None)"
| "pstep p (Look i w) =
     (case job (clients p i) of
        Some (r, Holding) \<Rightarrow>
          (case (requested (view (clients p i)) r, shared p) of
             (Some s, None) \<Rightarrow>
               Some (None, p\<lparr>clients := (clients p)(i := (clients p i)\<lparr>job := Some (r, Loading)\<rparr>)\<rparr>)
           | (Some s, Some v) \<Rightarrow>
               Some (Some (fst (run_script w (Some v) s)), (finish_run p i s)\<lparr>holder := None\<rparr>)
           | (None, c) \<Rightarrow> None)
      | _ \<Rightarrow> None)"
| "pstep p (Load i w) =
     (case job (clients p i) of
        Some (r, Loading) \<Rightarrow>
          (case requested (view (clients p i)) r of
             Some s \<Rightarrow>
               Some (Some (fst (run_script w None s)),
                     (finish_run p i s)
                       \<lparr>shared := (case snd (cached_load_model None (joblib_load w)) of
                                     None \<Rightarrow> shared p
                                   | Some v \<Rightarrow> Some v),
                        holder := None,
                        loads := loads p + (if isl (load_model (joblib_load w)) then 0 else 1)\<rparr>)
           | None \<Rightarrow> None)
      | _ \<Rightarrow> None)"

text \<open>A schedule: the steps in the order they happen, and the traces shown on the way.\<close>

fun psteps :: "process \<Rightarrow> label list \<Rightarrow> ((nat \<times> trace) list \<times> process) option" where
  "psteps p [] = Some ([], p)"
| "psteps p (l # ls) =
     (case pstep p l of
        None \<Rightarrow> None
      | Some (out, p') \<Rightarrow>
          map_option (\<lambda>(shown, q). ((case out of None \<Rightarrow> [] | Some t \<Rightarrow> [(actor l, t)]) @ shown, q))
            (psteps p' ls))"

inductive preachable :: "process \<Rightarrow> bool" where
  boot: "preachable boot"
| step: "preachable p \<Longrightarrow> pstep p l = Some (out, p') \<Longrightarrow> preachable p'"

section \<open>Invariant\<close>

text \<open>
  The lock names the run that is past \<open>Acquire\<close>, and only that one; the body has
  returned once or the cache is empty; a run that is about to call the body faces an
  empty cache; the cache and the sessions have the shapes a single session gives them.
\<close>

definition lock_ok :: "process \<Rightarrow> bool" where
  "lock_ok p \<longleftrightarrow>
     (\<forall>i. (\<exists>r. job (clients p i) = Some (r, Holding) \<or> job (clients p i) = Some (r, Loading))
          \<longleftrightarrow> holder p = Some i)"

definition loads_ok :: "process \<Rightarrow> bool" where
  "loads_ok p \<longleftrightarrow> loads p = (if shared p = None then 0 else 1)"

definition loading_ok :: "process \<Rightarrow> bool" where
  "loading_ok p \<longleftrightarrow> (\<forall>i r. job (clients p i) = Some (r, Loading) \<longrightarrow> shared p = None)"

definition views_ok :: "process \<Rightarrow> bool" where
  "views_ok p \<longleftrightarrow>
     cache_ok (shared p) \<and> (\<forall>i s. view (clients p i) = Some s \<longrightarrow> session_ok s)"

definition process_ok :: "process \<Rightarrow> bool" where
  "process_ok p \<longleftrightarrow> lock_ok p \<and> loads_ok p \<and> loading_ok p \<and> views_ok p"

section \<open>Facts about single steps\<close>

lemma finish_run_simps [simp]:
  "shared (finish_run p i s) = shared p" "holder (finish_run p i s) = holder p"
  "loads (finish_run p i s) = loads p"
  "clients (finish_run p i s) =
     (clients p)(i := \<lparr>view = Some (s\<lparr>predict_btn := False\<rparr>), job = None\<rparr>)"
  by (simp_all add: finish_run_def)

text \<open>What the decorated function leaves in an empty slot.\<close>

lemma stored_after_load:
  "snd (cached_load_model None jl) = (case load_model jl of Inl e \<Rightarrow> None | Inr v \<Rightarrow> Some v)"
  by (simp add: cached_load_model_miss split: sum.splits)

lemma pstep_cases [consumes 1, case_names begin_miss begin_hit acquire look_miss look_hit load]:
  assumes "pstep p l = Some (out, p')"
  obtains
    (begin_miss) i r w s where "l = Begin i r w" and "job (clients p i) = None"
      and "requested (view (clients p i)) r = Some s" and "shared p = None" and "out = None"
      and "p' = p\<lparr>clients := (clients p)(i := (clients p i)\<lparr>job := Some (r, Missed)\<rparr>)\<rparr>"
  | (begin_hit) i r w s v where "l = Begin i r w" and "job (clients p i) = None"
      and "requested (view (clients p i)) r = Some s" and "shared p = Some v"
      and "out = Some (fst (run_script w (Some v) s))" and "p' = finish_run p i s"
  | (acquire) i r where "l = Acquire i" and "job (clients p i) = Some (r, Missed)"
      and "holder p = None" and "out = None"
      and "p' = p\<lparr>holder := Some i,
                    clients := (clients p)(i := (clients p i)\<lparr>job := Some (r, Holding)\<rparr>)\<rparr>"
  | (look_miss) i w r s where "l = Look i w" and "job (clients p i) = Some (r, Holding)"
      and "requested (view (clients p i)) r = Some s" and "shared p = None" and "out = None"
      and "p' = p\<lparr>clients := (clients p)(i := (clients p i)\<lparr>job := Some (r, Loading)\<rparr>)\<rparr>"
  | (look_hit) i w r s v where "l = Look i w" and "job (clients p i) = Some (r, Holding)"
      and "requested (view (clients p i)) r = Some s" and "shared p = Some v"
      and "out = Some (fst (run_script w (Some v) s))"
      and "p' = (finish_run p i s)\<lparr>holder := None\<rparr>"
  | (load) i w r s where "l = Load i w" and "job (clients p i) = Some (r, Loading)"
      and "requested (view (clients p i)) r = Some s"
      and "out = Some (fst (run_script w None s))"
      and "p' = (finish_run p i s)
            \<lparr>shared := (case load_model (joblib_load w) of Inl e \<Rightarrow> shared p | Inr v \<Rightarrow> Some v),
             holder := None,
             loads := loads p + (if isl (load_model (joblib_load w)) then 0 else 1)\<rparr>"
  using assms
  by (cases l)
    (auto simp: stored_after_load split: option.splits prod.splits stage.splits sum.splits)

lemma requested_ok:
  assumes "requested v r = Some s" and "\<And>s0. v = Some s0 \<Longrightarrow> session_ok s0"
  shows "session_ok (s\<lparr>predict_btn := False\<rparr>)"
proof (cases v)
  case None
  with assms(1) have "s = init_session" by (cases r) simp_all
  then show ?thesis using session_ok_init by (simp add: session_ok_def)
next
  case (Some s0)
  with assms(1) obtain ev where "user_update s0 ev = Some s" by (cases r) simp_all
  with assms(2) [OF Some] show ?thesis by (rule user_update_ok)
qed

section \<open>Every step keeps the invariant\<close>

lemma lock_ok_past: 
  "lock_ok p \<Longrightarrow> job (clients p i) = Some (r, g) \<Longrightarrow> g \<noteq> Missed \<Longrightarrow> holder p = Some i"
  by (cases g) (auto simp: lock_ok_def)

lemma lock_ok_holder:
  "lock_ok p \<Longrightarrow> holder p = Some i \<Longrightarrow>
     \<exists>r. job (clients p i) = Some (r, Holding) \<or> job (clients p i) = Some (r, Loading)"
  by (auto simp: lock_ok_def)

lemma lock_ok_free:
  "lock_ok p \<Longrightarrow> holder p = None \<Longrightarrow> job (clients p j) = Some (r, g) \<Longrightarrow> g = Missed"
  by (cases g) (auto simp: lock_ok_def)

lemma lock_ok_other:
  "lock_ok p \<Longrightarrow> holder p = Some i \<Longrightarrow> j \<noteq> i \<Longrightarrow> job (clients p j) = Some (r, g) \<Longrightarrow>
     g = Missed"
  by (cases g) (auto simp: lock_ok_def)

lemma lock_ok_step:
  assumes "pstep p l = Some (out, p')" and "lock_ok p"
  shows "lock_ok p'"
  using assms(1)
proof (cases rule: pstep_cases)
  case (begin_miss i r w s)
  from assms(2) begin_miss(2) have "holder p \<noteq> Some i" by (auto dest: lock_ok_holder)
  with assms(2) begin_miss(6) show ?thesis by (auto simp: lock_ok_def)
next
  case (begin_hit i r w s v)
  from assms(2) begin_hit(2) have "holder p \<noteq> Some i" by (auto dest: lock_ok_holder)
  with assms(2) begin_hit(6) show ?thesis by (auto simp: lock_ok_def)
next
  case (acquire i r)
  from assms(2) acquire(3) have "\<And>j r g. job (clients p j) = Some (r, g) \<Longrightarrow> g = Missed"
    by (rule lock_ok_free)
  with acquire(5) show ?thesis by (fastforce simp: lock_ok_def)
next
  case (look_miss i w r s)
  from assms(2) look_miss(2) have "holder p = Some i" by (rule lock_ok_past) simp
  with assms(2) look_miss(6) show ?thesis by (auto simp: lock_ok_def)
next
  case (look_hit i w r s v)
  from assms(2) look_hit(2) have h: "holder p = Some i" by (rule lock_ok_past) simp
  from lock_ok_other [OF assms(2) h] look_hit(6) show ?thesis by (fastforce simp: lock_ok_def)
next
  case (load i w r s)
  from assms(2) load(2) have h: "holder p = Some i" by (rule lock_ok_past) simp
  from lock_ok_other [OF assms(2) h] load(5) show ?thesis by (fastforce simp: lock_ok_def)
qed

lemma loads_ok_step:
  assumes "pstep p l = Some (out, p')" and "loads_ok p" and "loading_ok p"
  shows "loads_ok p'"
  using assms
  by (cases rule: pstep_cases) (auto simp: loads_ok_def loading_ok_def split: sum.splits)

lemma loading_ok_step:
  assumes "pstep p l = Some (out, p')" and "loading_ok p" and "lock_ok p"
  shows "loading_ok p'"
  using assms(1)
proof (cases rule: pstep_cases)
  case (load i w r s)
  from assms(3) load(2) have h: "holder p = Some i" by (rule lock_ok_past) simp
  from lock_ok_other [OF assms(3) h] load(5) show ?thesis by (fastforce simp: loading_ok_def)
qed (use assms(2) in \<open>auto simp: loading_ok_def\<close>)

lemma cache_ok_stored: "load_model jl = Inr v \<Longrightarrow> cache_ok (Some v)"
  using cache_ok_load [of None jl] by (simp add: stored_after_load)

lemma views_ok_step:
  assumes "pstep p l = Some (out, p')" and "views_ok p"
  shows "views_ok p'"
  using assms
  by (cases rule: pstep_cases)
    (auto simp: views_ok_def cache_ok_stored intro: requested_ok split: sum.splits)

lemma process_ok_boot: "process_ok boot"
  by (simp add: process_ok_def lock_ok_def loads_ok_def loading_ok_def views_ok_def boot_def)

lemma process_ok_step: "pstep p l = Some (out, p') \<Longrightarrow> process_ok p \<Longrightarrow> process_ok p'"
  unfolding process_ok_def
  by (blast intro: lock_ok_step loads_ok_step loading_ok_step views_ok_step)

lemma preachable_ok: "preachable p \<Longrightarrow> process_ok p"
  by (induction rule: preachable.induct) (auto intro: process_ok_boot process_ok_step)

text \<open>Once the cache is filled, a step changes it only by calling the body.\<close>

lemma pstep_keeps_cache:
  assumes "pstep p l = Some (out, p')" and "shared p = Some v" and "loading_ok p"
  shows "shared p' = Some v"
  using assms by (cases rule: pstep_cases) (auto simp: loading_ok_def)

section \<open>Facts about schedules\<close>

lemma psteps_preachable:
  "preachable p \<Longrightarrow> psteps p ls = Some (shown, q) \<Longrightarrow> preachable q"
proof (induction ls arbitrary: p shown)
  case Nil
  then show ?case by simp
next
  case (Cons l ls)
  then show ?case
    by (auto split: option.splits intro: preachable.step)
qed

text \<open>
  A load that raises under the lock ends its own run only: the lock is free again,
  nothing is cached, and the next run that takes the lock calls the body again.
\<close>

lemma failed_load_releases_lock:
  assumes "job (clients p i) = Some (r, Loading)"
    and "requested (view (clients p i)) r = Some s" and "shared p = None"
    and "joblib_load w artifact_path = Inl e" and "\<not> caught_by_FileNotFoundError e"
  shows "\<exists>q. pstep p (Load i w) = Some (Some ([page_config, style_sheet], Some e), q)
     \<and> shared q = None \<and> holder q = None \<and> loads q = loads p \<and> job (clients q i) = None"
  using assms
  by (simp add: run_script_def cached_load_model_miss load_model_raises)

section \<open>Properties of a process with several sessions\<close>

text \<open>
  C9. The lock protects the load. In every state a process can reach, however the runs
  of its sessions overlap: the body of \<open>load_model\<close> has returned exactly once if the
  cache is filled and never if it is empty; a run that is about to call the body faces
  an empty cache; and no step changes a cache that is filled. Without the lock two runs
  that start on an empty cache both call the body, and the second overwrites what the
  first stored.
\<close>

theorem lock_protects_load:
  assumes "preachable p"
  shows "loads p = (if shared p = None then 0 else 1)
     \<and> (\<forall>i r. job (clients p i) = Some (r, Loading) \<longrightarrow> shared p = None)
     \<and> (\<forall>l out q v. shared p = Some v \<longrightarrow> pstep p l = Some (out, q) \<longrightarrow> shared q = Some v)"
proof -
  from assms have "loads_ok p" "loading_ok p"
    using preachable_ok by (simp_all add: process_ok_def)
  then show ?thesis
    by (auto simp: loads_ok_def loading_ok_def dest: pstep_keeps_cache)
qed

theorem lock_protects_load_witness:
  "\<exists>shown q.
     psteps boot
       [Begin 0 Open \<lparr>joblib_load = \<lambda>p. Inr (\<lambda>df. Inr []), image_open = \<lambda>p. Inr ()\<rparr>,
        Begin 1 Open \<lparr>joblib_load = \<lambda>p. Inr (\<lambda>df. Inr []), image_open = \<lambda>p. Inr ()\<rparr>,
        Acquire 0,
        Look 0 \<lparr>joblib_load = \<lambda>p. Inr (\<lambda>df. Inr []), image_open = \<lambda>p. Inr ()\<rparr>,
        Load 0 \<lparr>joblib_load = \<lambda>p. Inr (\<lambda>df. Inr []), image_open = \<lambda>p. Inr ()\<rparr>,
        Acquire 1,
        Look 1 \<lparr>joblib_load = \<lambda>p. Inr (\<lambda>df. Inr []), image_open = \<lambda>p. Inr ()\<rparr>]
       = Some (shown, q)
     \<and> map fst shown = [0, 1] \<and> shared q \<noteq> None \<and> loads q = 1"
proof -
  let ?w = "\<lparr>joblib_load = \<lambda>p. Inr (\<lambda>df. Inr []), image_open = \<lambda>p. Inr ()\<rparr>"
  let ?ls = "[Begin 0 Open ?w, Begin 1 Open ?w, Acquire 0, Look 0 ?w, Load 0 ?w, Acquire 1,
    Look 1 ?w]"
  obtain shown q where run: "psteps boot ?ls = Some (shown, q)"
    and shown: "map fst shown = [0, 1]" and q: "shared q \<noteq> None"
    by (simp add: boot_def cached_load_model_miss load_model_found finish_run_def)
  from preachable.boot run have "preachable q" by (rule psteps_preachable)
  from lock_protects_load [OF this, THEN conjunct1] q have "loads q = 1" by simp
  with run shown q show ?thesis
    by - (rule exI [of _ shown], rule exI [of _ q], intro conjI, assumption+)
qed

end
