(* ===== verification/Contract.thy ===== *)
theory Contract
  imports Handler
begin

text \<open>
  The contract the specification states for a prediction, as an abstract model: the
  typed applicant record with its enumerated fields, the three error kinds, the decision
  rule with its named threshold, the recommendations, and \<open>predict\<close> as the composition
  of building the record, scoring and deciding. Nothing here is taken from the code; the
  theorems relate the handler of \<^verbatim>\<open>src/app.py\<close> to it through an abstraction of what the
  handler shows.
\<close>

section \<open>The applicant record\<close>

datatype gender_t = Male | Female
datatype yes_no = Yes | No
datatype dependents_t = Dep0 | Dep1 | Dep2 | Dep3Plus
datatype education_t = Graduate | NotGraduate
datatype term_t = T360 | T180 | T480 | T300 | T240 | T120 | T84
datatype credit_t = GoodHistory | PoorHistory
datatype area_t = Urban | Semiurban | Rural

record applicant_record =
  ar_gender :: gender_t
  ar_married :: yes_no
  ar_dependents :: dependents_t
  ar_education :: education_t
  ar_self_employed :: yes_no
  ar_applicant_income :: nat
  ar_coapplicant_income :: nat
  ar_loan_amount :: nat
  ar_loan_amount_term :: term_t
  ar_credit_history :: credit_t
  ar_property_area :: area_t

section \<open>Errors, decisions, results\<close>

datatype spec_error = ArtifactNotFoundError | ValidationError | ScoringError

datatype decision_t = Approved | NotApproved

datatype recommendation = ImproveCreditHistory | IncreaseIncome | ReduceRequestedAmount

record prediction_result =
  probability :: real
  decision :: decision_t
  recommendations :: "recommendation list"

definition decision_threshold :: real where
  "decision_threshold = 1 / 2"

definition decide_spec :: "real \<Rightarrow> decision_t" where
  "decide_spec p = (if decision_threshold \<le> p then Approved else NotApproved)"

definition recommend_spec :: "decision_t \<Rightarrow> real \<Rightarrow> recommendation list" where
  "recommend_spec d p =
     (case d of
        NotApproved \<Rightarrow> [ImproveCreditHistory, IncreaseIncome, ReduceRequestedAmount]
      | Approved \<Rightarrow> [])"

section \<open>Building the record\<close>

fun parse_gender :: "pystr \<Rightarrow> gender_t option" where
  "parse_gender s = (if s = ''Male'' then Some Male else if s = ''Female'' then Some Female else None)"

fun parse_yes_no :: "pystr \<Rightarrow> yes_no option" where
  "parse_yes_no s = (if s = ''Yes'' then Some Yes else if s = ''No'' then Some No else None)"

fun parse_dependents :: "pystr \<Rightarrow> dependents_t option" where
  "parse_dependents s =
     (if s = ''0'' then Some Dep0 else if s = ''1'' then Some Dep1
      else if s = ''2'' then Some Dep2 else if s = ''3+'' then Some Dep3Plus else None)"

fun parse_education :: "pystr \<Rightarrow> education_t option" where
  "parse_education s =
     (if s = ''Graduate'' then Some Graduate
      else if s = ''Not Graduate'' then Some NotGraduate else None)"

fun parse_area :: "pystr \<Rightarrow> area_t option" where
  "parse_area s =
     (if s = ''Urban'' then Some Urban else if s = ''Semiurban'' then Some Semiurban
      else if s = ''Rural'' then Some Rural else None)"

fun parse_term :: "int \<Rightarrow> term_t option" where
  "parse_term n =
     (if n = 360 then Some T360 else if n = 180 then Some T180 else if n = 480 then Some T480
      else if n = 300 then Some T300 else if n = 240 then Some T240
      else if n = 120 then Some T120 else if n = 84 then Some T84 else None)"

fun parse_credit :: "pyfloat \<Rightarrow> credit_t option" where
  "parse_credit x =
     (if x = Finite 1 then Some GoodHistory else if x = Finite 0 then Some PoorHistory else None)"

fun parse_amount :: "int \<Rightarrow> nat option" where
  "parse_amount n = (if 0 \<le> n then Some (nat n) else None)"

definition record_of_form :: "form \<Rightarrow> applicant_record option" where
  "record_of_form f =
     Option.bind (parse_gender (gender f)) (\<lambda>g.
     Option.bind (parse_yes_no (married f)) (\<lambda>m.
     Option.bind (parse_dependents (dependents f)) (\<lambda>d.
     Option.bind (parse_education (education f)) (\<lambda>e.
     Option.bind (parse_yes_no (self_employed f)) (\<lambda>s.
     Option.bind (parse_amount (applicant_income f)) (\<lambda>ai.
     Option.bind (parse_amount (coapplicant_income f)) (\<lambda>ci.
     Option.bind (parse_amount (loan_amount f)) (\<lambda>la.
     Option.bind (parse_term (loan_amount_term f)) (\<lambda>t.
     Option.bind (parse_credit (credit_history f)) (\<lambda>c.
     Option.bind (parse_area (property_area f)) (\<lambda>a.
       Some \<lparr>ar_gender = g, ar_married = m, ar_dependents = d, ar_education = e,
             ar_self_employed = s, ar_applicant_income = ai, ar_coapplicant_income = ci,
             ar_loan_amount = la, ar_loan_amount_term = t, ar_credit_history = c,
             ar_property_area = a\<rparr>)))))))))))"

definition buildRecord :: "form \<Rightarrow> spec_error + applicant_record" where
  "buildRecord f = (case record_of_form f of None \<Rightarrow> Inl ValidationError | Some r \<Rightarrow> Inr r)"

text \<open>The raw inputs a record stands for.\<close>

fun show_gender :: "gender_t \<Rightarrow> pystr" where
  "show_gender Male = ''Male''" | "show_gender Female = ''Female''"

fun show_yes_no :: "yes_no \<Rightarrow> pystr" where
  "show_yes_no Yes = ''Yes''" | "show_yes_no No = ''No''"

fun show_dependents :: "dependents_t \<Rightarrow> pystr" where
  "show_dependents Dep0 = ''0''" | "show_dependents Dep1 = ''1''"
| "show_dependents Dep2 = ''2''" | "show_dependents Dep3Plus = ''3+''"

fun show_education :: "education_t \<Rightarrow> pystr" where
  "show_education Graduate = ''Graduate''" | "show_education NotGraduate = ''Not Graduate''"

fun show_area :: "area_t \<Rightarrow> pystr" where
  "show_area Urban = ''Urban''" | "show_area Semiurban = ''Semiurban''"
| "show_area Rural = ''Rural''"

fun show_term :: "term_t \<Rightarrow> int" where
  "show_term T360 = 360" | "show_term T180 = 180" | "show_term T480 = 480"
| "show_term T300 = 300" | "show_term T240 = 240" | "show_term T120 = 120"
| "show_term T84 = 84"

fun show_credit :: "credit_t \<Rightarrow> pyfloat" where
  "show_credit GoodHistory = Finite 1" | "show_credit PoorHistory = Finite 0"

definition form_of_record :: "applicant_record \<Rightarrow> form" where
  "form_of_record r =
     \<lparr>gender = show_gender (ar_gender r), education = show_education (ar_education r),
      married = show_yes_no (ar_married r), self_employed = show_yes_no (ar_self_employed r),
      dependents = show_dependents (ar_dependents r),
      property_area = show_area (ar_property_area r),
      applicant_income = int (ar_applicant_income r),
      coapplicant_income = int (ar_coapplicant_income r),
      loan_amount = int (ar_loan_amount r),
      loan_amount_term = show_term (ar_loan_amount_term r),
      credit_history = show_credit (ar_credit_history r)\<rparr>"

section \<open>The contract of a prediction\<close>

type_synonym scorer = "applicant_record \<Rightarrow> spec_error + real"

definition predict_spec :: "scorer \<Rightarrow> form \<Rightarrow> spec_error + prediction_result" where
  "predict_spec sc f =
     (case buildRecord f of
        Inl e \<Rightarrow> Inl e
      | Inr r \<Rightarrow>
          (case sc r of
             Inl e \<Rightarrow> Inl e
           | Inr p \<Rightarrow>
               Inr \<lparr>probability = p, decision = decide_spec p,
                    recommendations = recommend_spec (decide_spec p) p\<rparr>))"

section \<open>Abstraction of the handler\<close>

text \<open>
  The scorer a pipeline stands for: a probability of the unit interval, or
  \<open>ScoringError\<close> for anything else the scoring expression gives.
\<close>

definition scorer_of :: "pipeline \<Rightarrow> scorer" where
  "scorer_of m r =
     (case score m (input_df (form_of_record r)) of
        Inr (Finite x) \<Rightarrow> if 0 \<le> x \<and> x \<le> 1 then Inr x else Inl ScoringError
      | _ \<Rightarrow> Inl ScoringError)"

text \<open>What a reader of the page learns from the elements shown.\<close>

fun metric_probability :: "element \<Rightarrow> real option" where
  "metric_probability (Metric l (PercentOf (Finite x))) = Some x"
| "metric_probability _ = None"

fun banner_decision :: "element \<Rightarrow> decision_t option" where
  "banner_decision (Markdown (Lit n) html) =
     (if n = 212 \<and> html then Some Approved else if n = 214 \<and> html then Some NotApproved else None)"
| "banner_decision _ = None"

fun is_recommendation :: "element \<Rightarrow> bool" where
  "is_recommendation (Warning l) = (l = Lit 227)"
| "is_recommendation _ = False"

definition shown_result :: "element list \<Rightarrow> (spec_error + prediction_result) option" where
  "shown_result es =
     (let ls = all_leaves es in
      if list_ex is_error ls then Some (Inl ScoringError)
      else
        (case (List.map_filter metric_probability ls, List.map_filter banner_decision ls) of
           ([x], [d]) \<Rightarrow>
             Some (Inr \<lparr>probability = x, decision = d,
                        recommendations =
                          (if list_ex is_recommendation ls
                           then [ImproveCreditHistory, IncreaseIncome, ReduceRequestedAmount]
                           else [])\<rparr>)
         | _ \<Rightarrow> None))"

text \<open>
  The decisions in the order of the outcome, \<open>NotApproved\<close> below \<open>Approved\<close>, so that the
  library's \<open>mono\<close> states that a larger probability never turns an approval into a
  rejection.
\<close>

instantiation decision_t :: linorder
begin

definition less_eq_decision_t :: "decision_t \<Rightarrow> decision_t \<Rightarrow> bool" where
  "d \<le> e \<longleftrightarrow> d = NotApproved \<or> e = Approved"

definition less_decision_t :: "decision_t \<Rightarrow> decision_t \<Rightarrow> bool" where
  "d < e \<longleftrightarrow> d = NotApproved \<and> e = Approved"

instance
  by standard
    (auto simp: less_eq_decision_t_def less_decision_t_def intro: decision_t.exhaust)

end

section \<open>Facts about records\<close>

lemma parse_show [simp]:
  "parse_gender (show_gender g) = Some g"
  "parse_yes_no (show_yes_no y) = Some y"
  "parse_dependents (show_dependents d) = Some d"
  "parse_education (show_education e) = Some e"
  "parse_area (show_area a) = Some a"
  "parse_term (show_term t) = Some t"
  "parse_credit (show_credit c) = Some c"
  "parse_amount (int n) = Some n"
  by ((cases g; simp), (cases y; simp), (cases d; simp), (cases e; simp), (cases a; simp),
      (cases t; simp), (cases c; simp), simp)

lemma show_parse:
  "parse_gender s = Some g \<Longrightarrow> show_gender g = s"
  "parse_yes_no s = Some y \<Longrightarrow> show_yes_no y = s"
  "parse_dependents s = Some d \<Longrightarrow> show_dependents d = s"
  "parse_education s = Some e \<Longrightarrow> show_education e = s"
  "parse_area s = Some a \<Longrightarrow> show_area a = s"
  "parse_term i = Some t \<Longrightarrow> show_term t = i"
  "parse_credit x = Some c \<Longrightarrow> show_credit c = x"
  "parse_amount i = Some n \<Longrightarrow> int n = i"
  by (auto split: if_splits)

lemma parse_accepts:
  "parse_gender s \<noteq> None \<longleftrightarrow> selectbox_accepts gender_box s"
  "parse_yes_no s \<noteq> None \<longleftrightarrow> selectbox_accepts married_box s"
  "parse_yes_no s \<noteq> None \<longleftrightarrow> selectbox_accepts self_employed_box s"
  "parse_dependents s \<noteq> None \<longleftrightarrow> selectbox_accepts dependents_box s"
  "parse_education s \<noteq> None \<longleftrightarrow> selectbox_accepts education_box s"
  "parse_area s \<noteq> None \<longleftrightarrow> selectbox_accepts property_area_box s"
  "parse_term i \<noteq> None \<longleftrightarrow> selectbox_accepts loan_amount_term_box i"
  "parse_credit x \<noteq> None \<longleftrightarrow> selectbox_accepts credit_history_box x"
  "parse_amount i \<noteq> None \<longleftrightarrow> number_input_accepts applicant_income_input i"
  "parse_amount i \<noteq> None \<longleftrightarrow> number_input_accepts coapplicant_income_input i"
  "parse_amount i \<noteq> None \<longleftrightarrow> number_input_accepts loan_amount_input i"
  by (simp_all add: accepts_simps)

declare parse_gender.simps [simp del] parse_yes_no.simps [simp del]
  parse_dependents.simps [simp del] parse_education.simps [simp del] parse_area.simps [simp del]
  parse_term.simps [simp del] parse_credit.simps [simp del] parse_amount.simps [simp del]

lemma record_of_form_of_record [simp]: "record_of_form (form_of_record r) = Some r"
  by (simp add: record_of_form_def form_of_record_def)

lemma form_of_record_of_form:
  "record_of_form f = Some r \<Longrightarrow> form_of_record r = f"
  by (auto simp: record_of_form_def form_of_record_def bind_eq_Some_conv show_parse)

lemma record_of_form_Some_iff: "(\<exists>r. record_of_form f = Some r) \<longleftrightarrow> valid_form f"
proof
  assume "\<exists>r. record_of_form f = Some r"
  then show "valid_form f"
    unfolding valid_form_def parse_accepts [symmetric]
    by (auto simp: record_of_form_def bind_eq_Some_conv)
next
  assume "valid_form f"
  then show "\<exists>r. record_of_form f = Some r"
    unfolding valid_form_def parse_accepts [symmetric]
    by (auto simp: record_of_form_def)
qed

lemma buildRecord_Inr_iff: "buildRecord f = Inr r \<longleftrightarrow> record_of_form f = Some r"
  by (simp add: buildRecord_def split: option.splits)

lemma buildRecord_valid: "valid_form f \<Longrightarrow> \<exists>r. buildRecord f = Inr r \<and> form_of_record r = f"
  using record_of_form_Some_iff [of f]
  by (auto simp: buildRecord_Inr_iff dest: form_of_record_of_form)

lemma buildRecord_invalid: "\<not> valid_form f \<Longrightarrow> buildRecord f = Inl ValidationError"
  using record_of_form_Some_iff [of f] by (auto simp: buildRecord_def split: option.splits)

section \<open>Facts about the abstraction\<close>

lemma mono_decide_spec: "mono decide_spec"
  by (auto simp: mono_def decide_spec_def less_eq_decision_t_def)

lemma decide_spec_Approved_iff: "decide_spec x = Approved \<longleftrightarrow> decision_threshold \<le> x"
  by (simp add: decide_spec_def)

lemma decide_spec_decide:
  "decide (Finite x) = (case decide_spec x of Approved \<Rightarrow> ''Approved'' | NotApproved \<Rightarrow> ''Not Approved'')"
  by (simp add: decide_spec_def decision_threshold_def)

lemma shown_result_card:
  "shown_result (result_card (Finite x)) =
     Some (Inr \<lparr>probability = x, decision = decide_spec x,
                recommendations = recommend_spec (decide_spec x) x\<rparr>)"
  by (simp add: shown_result_def all_leaves_result_card decision_banner_def
      List.map_filter_simps decide_spec_def decision_threshold_def recommend_spec_def)

lemma map_filter_frame:
  assumes "\<forall>e \<in> set (pre @ post). f e = None"
  shows "List.map_filter f (pre @ xs @ post) = List.map_filter f xs"
proof -
  from assms have "filter (\<lambda>x. f x \<noteq> None) pre = []" "filter (\<lambda>x. f x \<noteq> None) post = []"
    by (auto simp: filter_empty_conv)
  then show ?thesis by (simp add: List.map_filter_def)
qed

lemma list_ex_frame:
  assumes "\<forall>e \<in> set (pre @ post). \<not> P e"
  shows "list_ex P (pre @ xs @ post) \<longleftrightarrow> list_ex P xs"
  using assms by (auto simp: list_ex_iff)

lemma shown_result_frame:
  assumes "all_leaves es' = pre @ all_leaves es @ post"
    and "\<forall>e \<in> set (pre @ post). \<not> is_error e \<and> \<not> is_recommendation e
           \<and> metric_probability e = None \<and> banner_decision e = None"
  shows "shown_result es' = shown_result es"
proof -
  let ?xs = "all_leaves es"
  from assms(2) have "List.map_filter metric_probability (pre @ ?xs @ post)
      = List.map_filter metric_probability ?xs"
    by (intro map_filter_frame) blast
  moreover from assms(2) have "List.map_filter banner_decision (pre @ ?xs @ post)
      = List.map_filter banner_decision ?xs"
    by (intro map_filter_frame) blast
  moreover from assms(2) have "list_ex is_error (pre @ ?xs @ post) \<longleftrightarrow> list_ex is_error ?xs"
    by (intro list_ex_frame) blast
  moreover from assms(2) have
    "list_ex is_recommendation (pre @ ?xs @ post) \<longleftrightarrow> list_ex is_recommendation ?xs"
    by (intro list_ex_frame) blast
  ultimately show ?thesis by (simp only: shown_result_def assms(1) Let_def)
qed

lemma shown_result_error: "shown_result [Error l x] = Some (Inl ScoringError)"
  by (simp add: shown_result_def)

lemma scorer_of_form:
  "form_of_record r = f \<Longrightarrow>
     scorer_of m r =
       (case score m (input_df f) of
          Inr (Finite x) \<Rightarrow> if 0 \<le> x \<and> x \<le> 1 then Inr x else Inl ScoringError
        | _ \<Rightarrow> Inl ScoringError)"
  by (simp add: scorer_of_def)

lemma predict_spec_scored:
  assumes "valid_form f" and "score m (input_df f) = Inr (Finite x)" and "0 \<le> x" and "x \<le> 1"
  shows "predict_spec (scorer_of m) f =
     Inr \<lparr>probability = x, decision = decide_spec x,
          recommendations = recommend_spec (decide_spec x) x\<rparr>"
proof -
  from assms(1) obtain r where "buildRecord f = Inr r" "form_of_record r = f"
    using buildRecord_valid by blast
  with assms(2-4) show ?thesis by (simp add: predict_spec_def scorer_of_form)
qed

lemma predict_spec_caught:
  assumes "valid_form f" and "score m (input_df f) = Inl e"
  shows "predict_spec (scorer_of m) f = Inl ScoringError"
proof -
  from assms(1) obtain r where "buildRecord f = Inr r" "form_of_record r = f"
    using buildRecord_valid by blast
  with assms(2) show ?thesis by (simp add: predict_spec_def scorer_of_form)
qed

lemma predict_spec_out_of_range:
  assumes "valid_form f" and "score m (input_df f) = Inr p" and "\<not> in_unit_interval p"
  shows "predict_spec (scorer_of m) f = Inl ScoringError"
proof -
  from assms(1) obtain r where "buildRecord f = Inr r" "form_of_record r = f"
    using buildRecord_valid by blast
  with assms(2,3) show ?thesis
    by (cases p) (auto simp: predict_spec_def scorer_of_form)
qed

lemma shown_result_no_error:
  "\<not> list_ex is_error (all_leaves es) \<Longrightarrow> shown_result es \<noteq> Some (Inl e)"
  by (auto simp: shown_result_def Let_def split: list.splits)

section \<open>Properties of the handler against the contract\<close>

text \<open>
  C6. The handler refines the contract. For a form whose values are in their domains and
  a pipeline that gives a probability of the unit interval or raises an \<open>Exception\<close>,
  what the handler shows is, read as a result, exactly what \<open>predict\<close> of the contract
  returns for the scorer the pipeline stands for: the same probability, decision and
  recommendations, or \<open>ScoringError\<close>.
\<close>

theorem prediction_refines_contract:
  assumes "valid_form f"
    and "(\<exists>x. score m (input_df f) = Inr (Finite x) \<and> 0 \<le> x \<and> x \<le> 1)
       \<or> (\<exists>e. score m (input_df f) = Inl e \<and> caught_by_Exception e)"
  shows "\<exists>es. prediction m f = Inr es \<and> shown_result es = Some (predict_spec (scorer_of m) f)"
  using assms(2)
proof
  assume "\<exists>x. score m (input_df f) = Inr (Finite x) \<and> 0 \<le> x \<and> x \<le> 1"
  then obtain x where x: "score m (input_df f) = Inr (Finite x)" "0 \<le> x" "x \<le> 1" by blast
  from predict_spec_scored [OF assms(1) x] x(1) show ?thesis
    by (simp add: prediction_scored shown_result_card)
next
  assume "\<exists>e. score m (input_df f) = Inl e \<and> caught_by_Exception e"
  then obtain e where e: "score m (input_df f) = Inl e" "caught_by_Exception e" by blast
  from predict_spec_caught [OF assms(1) e(1)] e show ?thesis
    by (simp add: prediction_caught shown_result_error)
qed

theorem prediction_refines_contract_witness:
  "\<exists>es. prediction (\<lambda>df. Inr [[Finite (18 / 100), Finite (82 / 100)]])
          (init_form\<lparr>self_employed := ''No''\<rparr>) = Inr es
     \<and> shown_result es =
         Some (Inr \<lparr>probability = 82 / 100, decision = Approved, recommendations = []\<rparr>)"
proof -
  let ?m = "\<lambda>df. Inr [[Finite (18 / 100), Finite (82 / 100)]] :: pyfloat list list result"
  let ?f = "init_form\<lparr>self_employed := ''No''\<rparr>"
  have v: "valid_form ?f"
    by (simp add: valid_form_def init_form_def accepts_simps)
  have s: "score ?m (input_df ?f) = Inr (Finite (82 / 100))"
    by (simp add: score_def)
  from buildRecord_valid [OF v] obtain r where r: "buildRecord ?f = Inr r" "form_of_record r = ?f"
    by blast
  with s have "predict_spec (scorer_of ?m) ?f =
      Inr \<lparr>probability = 82 / 100, decision = Approved, recommendations = []\<rparr>"
    by (simp add: predict_spec_def scorer_of_form decide_spec_def decision_threshold_def
        recommend_spec_def)
  moreover have "(\<exists>x. score ?m (input_df ?f) = Inr (Finite x) \<and> 0 \<le> x \<and> x \<le> 1)
      \<or> (\<exists>e. score ?m (input_df ?f) = Inl e \<and> caught_by_Exception e)"
    using s by (intro disjI1 exI [of _ "82 / 100"]) simp
  ultimately show ?thesis
    using prediction_refines_contract [OF v, of ?m] by simp
qed

text \<open>
  C23. The contract's validation cannot fail on a form the widgets produced: every
  reachable form builds a record, and the record determines the row sent to the
  pipeline. A form outside the domains would be refused by the contract, while the
  handler has no such test.
\<close>

theorem reachable_form_builds_record:
  assumes "reachable_form f"
  shows "\<exists>r. buildRecord f = Inr r \<and> input_row (form_of_record r) = input_row f"
  using buildRecord_valid [OF reachable_form_valid [OF assms]] by auto

theorem reachable_form_builds_record_witness:
  "\<exists>r. buildRecord init_form = Inr r \<and> input_row (form_of_record r) = input_row init_form"
  using reachable_form_builds_record [OF reachable_form.init] .

text \<open>
  C24. The refinement holds on the unit interval and nowhere else. For a form in its
  domains and a pipeline that returns a score, the handler shows the result card; what
  the card says is the result of the contract's \<open>predict\<close> exactly when the score is a
  probability. For any other score, \<open>NaN\<close> included, the contract answers
  \<open>ScoringError\<close> and the handler shows a decision: the code has no test of the range.
\<close>

theorem unchecked_score_is_shown:
  assumes "valid_form f" and "score m (input_df f) = Inr p"
  shows "prediction m f = Inr (result_card p)
     \<and> (shown_result (result_card p) = Some (predict_spec (scorer_of m) f)
          \<longleftrightarrow> in_unit_interval p)"
proof (cases "in_unit_interval p")
  case True
  then obtain x where x: "p = Finite x" "0 \<le> x" "x \<le> 1"
    by (auto simp: in_unit_interval_cases)
  with predict_spec_scored [OF assms(1), of m x] assms(2) show ?thesis
    by (simp add: prediction_scored shown_result_card)
next
  case False
  with assms have "predict_spec (scorer_of m) f = Inl ScoringError"
    by (rule predict_spec_out_of_range)
  with False assms(2) shown_result_no_error [OF result_card_no_error, of p] show ?thesis
    by (simp add: prediction_scored)
qed

theorem unchecked_score_is_shown_witness:
  "prediction (\<lambda>df. Inr [[NaN, NaN]]) init_form = Inr (result_card NaN)
     \<and> shown_result (result_card NaN)
         \<noteq> Some (predict_spec (scorer_of (\<lambda>df. Inr [[NaN, NaN]])) init_form)"
  using unchecked_score_is_shown [OF valid_form_init, of "\<lambda>df. Inr [[NaN, NaN]]" NaN]
  by (simp add: score_def in_unit_interval_def)

end
