(* ===== verification/Spec2Isabelle.thy ===== *)
theory Spec2Isabelle
  imports Prelude PyFloat Percent Streamlit Gateway Form Decision Handler Documentation App
    Session Layout Concurrent Contract
begin

text \<open>
  A verification development for the loan approval predictor, \<^verbatim>\<open>src/app.py\<close>.

  \<^bold>\<open>The program.\<close> The program is one script that a UI library runs from top to bottom,
  once when a session starts and once more after every action of the user. A run
  configures the page and its style sheet (lines 11-49); obtains the model from
  \<^verbatim>\<open>load_model\<close> (53-63), whose result the library caches for the life of the process;
  draws the sidebar with the navigation radio (66-75); and then draws one of three pages:
  the prediction page (78-235) with the form of eleven widgets, the button and, after a
  press, the scored result; the documentation page (238-332); the about page (335-368).
  It ends with the footer (371-377). Two things reach the script from outside: the file
  system, through \<^verbatim>\<open>joblib.load\<close> and \<^verbatim>\<open>Image.open\<close>, and the pipeline stored in the
  artifact, through \<^verbatim>\<open>predict_proba\<close>. Both are parameters here: every theorem holds for
  whatever they return or raise, unless it says otherwise.

  \<^bold>\<open>The theories\<close>, in the order of their imports.

  \<^item> \<^verbatim>\<open>Prelude\<close>: Python strings as UTF-8 bytes, so that \<^verbatim>\<open>==\<close> is equality; display-only
    literals as \<open>Lit n\<close>, the literal that starts on line \<open>n\<close>; exceptions as a class
    and a detail, classes as far as the two \<^verbatim>\<open>except\<close> clauses tell them apart; a call
    that may raise as a sum, \<open>Inl\<close> the exception; subscripts that raise \<open>IndexError\<close>.
  \<^item> \<^verbatim>\<open>PyFloat\<close>: floats as a real number, an infinity or \<open>NaN\<close>, with the comparisons
    of IEEE 754; the lemmas are the order properties that survive \<open>NaN\<close> and the scaling
    lemmas behind the gauge.
  \<^item> \<^verbatim>\<open>Percent\<close>: the format specification \<^verbatim>\<open>.1%\<close> of line 219 as Python computes it:
    the product with 100 rounded to the nearest double (\<open>fl64\<close>, ties to even, with the
    exponent found by \<open>expo\<close>), the double rounded half to even to one decimal, the
    decimal digits (a recursion on \<open>n div 10\<close>, with its termination proof) and the text;
    \<open>inf%\<close> for a product that overflows. The lemmas bound the rounding, show that
    it keeps the order, give the text of two doubles next to a tie, where an exact
    product would print another digit, and say when the text is \<open>50.0%\<close>.
  \<^item> \<^verbatim>\<open>Streamlit\<close>: the \<^verbatim>\<open>st.*\<close> calls as a datatype of elements, \<^verbatim>\<open>with\<close> blocks as
    nodes, and the output of a block as a trace, the elements emitted and the exception
    that ended it. \<open>seq_trace\<close> is statement sequencing; its lemmas are the algebra the
    page proofs compute with.
  \<^item> \<^verbatim>\<open>Gateway\<close>: \<^verbatim>\<open>load_model\<close> with its handler, \<^verbatim>\<open>@st.cache_resource\<close> as a one-slot
    cache that stores the returned value together with the elements to replay, the call
    of line 63 over the runs of a process, and the scoring expression of line 179. The
    theorems give \<open>load_model\<close> and \<open>score\<close> on every branch, that the body returns at most
    once per process, and that a failed load is cached like a successful one.
  \<^item> \<^verbatim>\<open>Form\<close>: the eleven widget calls (86-149) as configurations, the record of the
    variables they assign, and the actions of the user as events a widget accepts or
    refuses. The invariant \<open>valid_form\<close> holds of every reachable form.
  \<^item> \<^verbatim>\<open>Decision\<close>: the decision (180), the gauge (187-207), the banner (211-214), the
    metrics (217-221) and the recommendations (226-232). The theorems fix the decision at
    the threshold on every float, relate it to the gauge and to the text of the
    probability metric, and give the condition of line 226 on every float, with \<open>NaN\<close>
    as the one value that is rejected without recommendations.
  \<^item> \<^verbatim>\<open>Handler\<close>: the result column (151-235): the one-row data frame, the
    \<^verbatim>\<open>try\<close>/\<^verbatim>\<open>except Exception\<close> around scoring and display, the guard on the button and
    the model. The theorems say that a prediction is shown whole or not at all, and what
    the column shows on each branch.
  \<^item> \<^verbatim>\<open>Documentation\<close>: the documentation page: the table of variables, the image with
    its \<^verbatim>\<open>except FileNotFoundError\<close> fallback chart, the guide. The theorems say that the
    static tables are well formed and agree with the request of \<^verbatim>\<open>Handler\<close>, and give the
    page on every outcome of opening the image.
  \<^item> \<^verbatim>\<open>App\<close>: page configuration, sidebar, dispatch, about page, footer, and
    \<open>run_script\<close>, one run of the whole script as a function of the world, the cache and
    the widget values of the session. The theorems say which page a label selects, how a
    run is framed, and exactly when a run ends with an exception.
  \<^item> \<^verbatim>\<open>Session\<close>: runs in sequence. A state is the cache of the process and the widget
    values of the session; a step is one action of the user and the run it triggers.
    \<open>reachable\<close> is the inductive set of states, \<open>state_ok\<close> its invariant.
  \<^item> \<^verbatim>\<open>Layout\<close>: what the UI library requires of the calls of a run: the page
    configuration first and once, a \<^verbatim>\<open>with\<close> block only on a column or a tab that the call
    before it at the same level returned, no widget call twice. \<open>wf_layout\<close> checks one
    block with the columns and tabs it may enter, \<open>wf_script\<close> a whole run. The theorem
    is that every run is well formed, on every page and every outcome.
  \<^item> \<^verbatim>\<open>Concurrent\<close>: several sessions in one process, each with its own widget values,
    all sharing the cache of \<open>load_model\<close>. A run that finds the cache empty waits for
    the lock of the cache, reads the cache again under the lock and only then calls the
    body and stores its result, as the library does and as the specification asks
    (section 5). Each of these is a step of \<open>pstep\<close> (\<open>Begin\<close>, \<open>Acquire\<close>, \<open>Look\<close>,
    \<open>Load\<close>), and only \<open>Acquire\<close> asks whether the lock is free, so runs overlap
    everywhere the lock lets them. \<open>psteps\<close> runs a schedule, \<open>preachable\<close> is the
    inductive set of states, \<open>process_ok\<close> its invariant. The theorem: however the runs
    overlap, the body of \<open>load_model\<close> returns once, no run calls it on a filled cache,
    and a filled cache never changes. It needs the lock (it fails when \<open>Acquire\<close> does
    not wait) and the decorator (it fails when the returned value is not stored).
  \<^item> \<^verbatim>\<open>Contract\<close>: what the specification promises of a prediction, independently of
    the code: typed applicant records, \<open>buildRecord\<close>, \<open>decide_spec\<close>, \<open>recommend_spec\<close>,
    \<open>predict_spec\<close>; and \<open>shown_result\<close>, which reads a result off the elements of a page.
    \<open>shown_result\<close> reads the probability from the value the script passes to
    \<^verbatim>\<open>st.metric\<close> before it is formatted, and the decision from which of the two banner
    literals is shown. The refinement theorem says that the handler implements the
    contract where the contract's assumptions hold; two further theorems mark where the
    code does less: it has no validation of its own, and no range test on the score, so
    that the refinement holds for a score exactly when it is a probability.
  \<^item> This theory: the fixtures of the specification's scenarios and the theorems that
    need all components: a press of the button end to end, in one session and in a
    process with several, where the run shown reads as the result of the contract; the
    degraded mode over a whole session; and the two scenarios of the specification, run
    on the fixture.

  \<^bold>\<open>Assumptions of the model.\<close> They are the behaviour of the libraries the script calls.
  A select box returns one of its options and a number input a value not below its
  minimum; a widget that is not drawn in a run loses its value; the button reads true in
  the run its press triggers and false in every other; the resource cache stores the
  return value of a call that returns, replays the elements the call emitted, and stores
  nothing when the call raises; it computes a missing value under a lock, after a second
  look at the cache; calls that only draw, and \<^verbatim>\<open>pd.DataFrame\<close> on the row of lines 163
  to 175, do not raise, so that inside the \<^verbatim>\<open>try\<close> only the scoring expression can.

  \<^bold>\<open>Floats.\<close> A finite float is a real number: the model does not restrict it to the
  doubles and has no negative zero. Decimal literals (0.5, 0.35, ...) are the decimals
  they denote. The product \<^verbatim>\<open>prob * 100\<close> of the gauge (line 189) is exact; the two
  theorems that use it compare it with the mark 50 and the band limits 30 and 70. With
  the product rounded to a double the comparison with the mark has the same answer for
  every probability that is a double: rounding keeps the order (\<open>fl64_mono\<close>), 50 is
  a double, and the product of the largest double below one half rounds below 50
  (\<open>gauge_agrees_rounded\<close> in \<^verbatim>\<open>Decision\<close>). The product inside the format
  specification of line 219 is rounded to a double, because the text depends on it next
  to a tie; overflow of that product prints \<open>inf%\<close>.

  \<^bold>\<open>Bounds.\<close> There is none: the script has no loop, every definition is a total
  function (the one recursion that is not structural, \<open>digits_of\<close>, has its termination
  proof), and the theorems about sessions and about schedules hold for lists of any
  length, and for any number of clients, by induction.

  \<^bold>\<open>Not modelled.\<close> The text of display-only literals: a literal is named by the line
  it starts on, so the style sheet (lines 20 to 48), the guide, the about text and the
  help texts are calls with an opaque argument, and a theorem says nothing of their
  content. The number the gauge prints under its dial; the upper bound the library puts
  on a number input; the libraries themselves and the training of the pipeline. Of
  concurrent runs, the steps are the accesses to the cache and its lock: what a run
  draws between them touches nothing shared and is not split further, and a thread that
  dies while it holds the lock is outside the model (the library releases the lock when
  the body raises, which \<open>Load\<close> does). How long a run waits for the lock, and whether
  every run gets it, is the library's scheduling and not stated here.
\<close>

section \<open>Fixtures\<close>

text \<open>
  The fixture of the specification's end-to-end scenarios: a pipeline that gives the
  probability 0.82 to an applicant with a good credit history and 0.2 to one without, and
  a world that holds it.
\<close>

definition fixture_pipeline :: pipeline where
  "fixture_pipeline df =
     Inr (map (\<lambda>row. if map_of row ''Credit_History'' = Some (CFloat (Finite 1))
                      then [Finite (18 / 100), Finite (82 / 100)]
                      else [Finite (8 / 10), Finite (2 / 10)]) df)"

definition fixture_world :: world where
  "fixture_world = \<lparr>joblib_load = (\<lambda>p. Inr fixture_pipeline), image_open = (\<lambda>p. Inr ())\<rparr>"

text \<open>
  What a run shows that draws the prediction page with a result for the probability \<open>p\<close>
  and replays nothing from \<open>load_model\<close>.
\<close>

abbreviation scored_view :: "pyfloat \<Rightarrow> element list" where
  "scored_view p \<equiv>
     [page_config, style_sheet] @ sidebar
       @ [Markdown (Lit 80) True, Markdown (Lit 81) False, Columns [2, 1],
          Within (Column 0) form_section,
          Within (Column 1) ([Subheader (Lit 152), Button (Lit 156)] @ result_card p)]
       @ footer"

section \<open>Facts that span components\<close>

lemma no_gauge_without_model:
  "\<not> list_ex is_gauge (all_leaves (fst (page_body io None s)))"
  by (simp add: page_body_def prediction_page_def predict_column_no_model)

lemma first_run_missing_cache:
  assumes "joblib_load w0 artifact_path = Inl e" and "caught_by_FileNotFoundError e"
  shows "cache (snd (first_run w0)) = Some (None, [Error (Lit 58) None])"
  using assms
  by (simp add: first_run_def snd_run_script cached_load_model_miss load_model_missing)

lemma first_run_loaded_cache:
  "joblib_load w0 artifact_path = Inr m \<Longrightarrow> cache (snd (first_run w0)) = Some (Some m, [])"
  by (simp add: first_run_def snd_run_script cached_load_model_miss load_model_found)

lemma emits_result_card:
  "emits (result_card p) (PlotlyChart (Indicator (gauge_indicator p)) True)"
  "emits (result_card p) (Metric (Lit 219) (PercentOf p))"
  "emits (result_card p) (decision_banner (decide p))"
  "emits (result_card p) (Warning (Lit 227)) \<longleftrightarrow> float_lt p (Finite (1 / 2))"
  by (simp_all add: emits_def all_leaves_result_card decision_banner_def)

lemma fixture_score:
  "score fixture_pipeline (input_df f) =
     Inr (if credit_history f = Finite 1 then Finite (82 / 100) else Finite (2 / 10))"
  by (simp add: score_def fixture_pipeline_def input_df_def map_of_input_row)

lemma session_unpressed: "\<not> predict_btn s \<Longrightarrow> s\<lparr>predict_btn := True, predict_btn := False\<rparr> = s"
  by (cases s) simp

lemma static_leaves_no_result:
  "\<not> list_ex is_error (all_leaves sidebar)" "\<not> list_ex is_error (all_leaves form_section)"
  "\<not> list_ex is_error (all_leaves footer)"
  "Warning (Lit 227) \<notin> set (all_leaves sidebar)"
  "Warning (Lit 227) \<notin> set (all_leaves form_section)"
  "Warning (Lit 227) \<notin> set (all_leaves footer)"
  by (simp_all add: render_defs)

lemma shown_result_page:
  "shown_result (scored_view p) = shown_result (result_card p)"
  by (rule shown_result_frame [where post = "all_leaves footer"
        and pre = "all_leaves ([page_config, style_sheet] @ sidebar
          @ [Markdown (Lit 80) True, Markdown (Lit 81) False, Columns [2, 1],
             Within (Column 0) form_section, Subheader (Lit 152), Button (Lit 156)])"])
    (simp_all add: render_defs)

lemma interact_press_scored:
  assumes "page (current st) = page_options ! 0" and "\<not> predict_btn (current st)"
    and "cache st = Some (Some m, [])"
    and "score m (input_df (widgets (current st))) = Inr p"
  shows "interact w st Press = Some ((scored_view p, None), st)"
proof -
  let ?s = "(current st)\<lparr>predict_btn := True\<rparr>"
  have "fst (run_script w (Some (Some m, [])) ?s) = (scored_view p, None)"
    using assms(1,4) by (intro run_script_pressed_scored) simp_all
  with assms(1,2,3) show ?thesis
    by (simp add: interact_def run_script_keeps_cache session_unpressed)
qed

lemma fixture_press:
  assumes "page s = page_options ! 0" and "\<not> predict_btn s"
  shows "\<exists>t. interact fixture_world \<lparr>cache = Some (Some fixture_pipeline, []), current = s\<rparr> Press
        = Some (t, \<lparr>cache = Some (Some fixture_pipeline, []), current = s\<rparr>)
     \<and> shown_result (fst t) = shown_result (result_card
          (if credit_history (widgets s) = Finite 1 then Finite (82 / 100) else Finite (2 / 10)))"
proof -
  let ?st = "\<lparr>cache = Some (Some fixture_pipeline, []), current = s\<rparr>"
  let ?p = "if credit_history (widgets s) = Finite 1 then Finite (82 / 100) else Finite (2 / 10)"
  have "interact fixture_world ?st Press = Some ((scored_view ?p, None), ?st)"
    using assms
    by (intro interact_press_scored [where m = fixture_pipeline]) (simp_all add: fixture_score)
  then show ?thesis
    by (intro exI conjI) (assumption, simp only: fst_conv shown_result_page)
qed

lemma fixture_edit:
  assumes "page s = page_options ! 0" and "\<not> predict_btn s"
    and "apply_event (widgets s) ev = Some f"
  shows "interacts \<lparr>cache = Some (Some fixture_pipeline, []), current = s\<rparr>
           ((fixture_world, Edit ev) # evs)
       = interacts \<lparr>cache = Some (Some fixture_pipeline, []), current = s\<lparr>widgets := f\<rparr>\<rparr> evs"
  using assms by (cases s) (simp add: interact_def run_script_keeps_cache)

lemma first_run_fixture:
  "snd (first_run fixture_world)
     = \<lparr>cache = Some (Some fixture_pipeline, []), current = init_session\<rparr>"
  using first_run_loaded_cache [of fixture_world fixture_pipeline]
  by (simp add: first_run_def fixture_world_def)

section \<open>Properties that span components\<close>

text \<open>
  C5. End to end. In any state a session can reach, with the prediction page shown, a
  model in the cache and a pipeline that returns probabilities for the row of the form, a
  press of the button gives a run that completes and shows the gauge, the metric and the
  banner for the score of that row, a probability of the unit interval; it shows the
  recommendations exactly when the decision is \<open>Not Approved\<close>, shows no error, and
  leaves the form and the cache as they were.
\<close>

theorem pressed_button_shows_decision:
  assumes "reachable st" and "page (current st) = page_options ! 0"
    and "cache st = Some (Some m, notice)"
    and "proba_ok m (input_df (widgets (current st)))"
  shows "\<exists>t st' p. interact w st Press = Some (t, st') \<and> \<not> aborted t
     \<and> score m (input_df (widgets (current st))) = Inr p \<and> in_unit_interval p
     \<and> emits (fst t) (PlotlyChart (Indicator (gauge_indicator p)) True)
     \<and> emits (fst t) (Metric (Lit 219) (PercentOf p))
     \<and> emits (fst t) (decision_banner (decide p))
     \<and> (emits (fst t) (Warning (Lit 227)) \<longleftrightarrow> decide p = ''Not Approved'')
     \<and> \<not> list_ex is_error (all_leaves (fst t))
     \<and> current st' = current st \<and> cache st' = cache st"
proof -
  from assms(1) have ok: "state_ok st" by (rule reachable_state_ok)
  with assms(3) have notice: "notice = []" by (simp add: state_ok_def cache_ok_def)
  from ok have unpressed: "\<not> predict_btn (current st)" by (simp add: state_ok_def session_ok_def)
  from assms(4) obtain p where p: "score m (input_df (widgets (current st))) = Inr p"
    and unit: "in_unit_interval p"
    using score_proba_ok [of m "input_df (widgets (current st))"] by auto
  from unit have nn: "\<not> is_nan p" by (rule in_unit_interval_not_nan)
  have i: "interact w st Press = Some ((scored_view p, None), st)"
    using assms(2) unpressed assms(3) [unfolded notice] p by (rule interact_press_scored)
  have rec: "float_lt p (Finite (1 / 2)) \<longleftrightarrow> decide p = ''Not Approved''"
    using nn by (simp add: decide_Not_Approved_iff float_lt_iff_not_ge)
  show ?thesis
    unfolding i
    using p unit rec result_card_no_error [of p]
    by (simp add: emits_def all_leaves_result_card static_leaves_no_result
        page_config_def style_sheet_def decision_banner_def)
qed

theorem pressed_button_shows_decision_witness:
  "\<exists>t st'. interact fixture_world (snd (first_run fixture_world)) Press = Some (t, st')
     \<and> emits (fst t) (PlotlyChart (Indicator (gauge_indicator (Finite (82 / 100)))) True)
     \<and> emits (fst t) (Markdown (Lit 212) True)
     \<and> \<not> emits (fst t) (Warning (Lit 227))"
proof -
  let ?st = "snd (first_run fixture_world)"
  have c: "cache ?st = Some (Some fixture_pipeline, [])"
    by (rule first_run_loaded_cache) (simp add: fixture_world_def)
  have pg: "page (current ?st) = page_options ! 0"
    by (simp add: first_run_def init_session_page)
  have f: "widgets (current ?st) = init_form"
    by (simp add: first_run_def init_session_def)
  have ok: "proba_ok fixture_pipeline (input_df (widgets (current ?st)))"
    by (simp add: f proba_ok_def fixture_pipeline_def input_df_def)
  have s: "score fixture_pipeline (input_df (widgets (current ?st))) = Inr (Finite (82 / 100))"
    by (simp add: f fixture_score init_form_def)
  from pressed_button_shows_decision [OF reachable.start pg c ok, of fixture_world] s
  show ?thesis by (auto simp: decision_banner_def)
qed

text \<open>
  The two end-to-end scenarios of the specification, run through the session: with
  the first scenario's inputs and the fixture's 0.82 the page shows probability 0.82,
  the decision Approved and no recommendation; with the credit history changed to 0.0
  and the fixture's 0.2 it shows 0.2, Not Approved and the recommendations.
\<close>

theorem spec_scenarios:
  "(\<exists>st t. interacts (snd (first_run fixture_world))
         [(fixture_world, Edit (SetSelfEmployed ''No''))] = Some st
      \<and> interact fixture_world st Press = Some (t, st)
      \<and> shown_result (fst t) =
          Some (Inr \<lparr>probability = 82 / 100, decision = Approved, recommendations = []\<rparr>))
   \<and> (\<exists>st t. interacts (snd (first_run fixture_world))
         [(fixture_world, Edit (SetSelfEmployed ''No'')),
          (fixture_world, Edit (SetCreditHistory (Finite 0)))] = Some st
      \<and> interact fixture_world st Press = Some (t, st)
      \<and> shown_result (fst t) =
          Some (Inr \<lparr>probability = 2 / 10, decision = NotApproved,
                     recommendations =
                       [ImproveCreditHistory, IncreaseIncome, ReduceRequestedAmount]\<rparr>))"
proof -
  let ?s1 = "init_session\<lparr>widgets := init_form\<lparr>self_employed := ''No''\<rparr>\<rparr>"
  let ?s2 = "?s1\<lparr>widgets := widgets ?s1\<lparr>credit_history := Finite 0\<rparr>\<rparr>"
  let ?st = "\<lambda>s. \<lparr>cache = Some (Some fixture_pipeline, []), current = s\<rparr>"
  have pg: "page ?s1 = page_options ! 0" "\<not> predict_btn ?s1"
    "page ?s2 = page_options ! 0" "\<not> predict_btn ?s2"
    by (simp_all add: init_session_def page_options_def)
  have i1: "interacts (snd (first_run fixture_world))
      [(fixture_world, Edit (SetSelfEmployed ''No''))] = Some (?st ?s1)"
    unfolding first_run_fixture
    by (subst fixture_edit [where f = "init_form\<lparr>self_employed := ''No''\<rparr>"])
      (simp_all add: init_session_def page_options_def accepts_simps)
  have i2: "interacts (?st ?s1) [(fixture_world, Edit (SetCreditHistory (Finite 0)))]
      = Some (?st ?s2)"
    by (subst fixture_edit [where f = "widgets ?s1\<lparr>credit_history := Finite 0\<rparr>"])
      (simp_all add: init_session_def page_options_def accepts_simps)
  from fixture_press [OF pg(1,2)] i1 have "\<exists>st t. interacts (snd (first_run fixture_world))
         [(fixture_world, Edit (SetSelfEmployed ''No''))] = Some st
      \<and> interact fixture_world st Press = Some (t, st)
      \<and> shown_result (fst t) = shown_result (result_card (Finite (82 / 100)))"
    by (auto simp: init_session_def init_form_def)
  moreover from fixture_press [OF pg(3,4)] i1 i2 have
    "\<exists>st t. interacts (snd (first_run fixture_world))
         [(fixture_world, Edit (SetSelfEmployed ''No'')),
          (fixture_world, Edit (SetCreditHistory (Finite 0)))] = Some st
      \<and> interact fixture_world st Press = Some (t, st)
      \<and> shown_result (fst t) = shown_result (result_card (Finite (2 / 10)))"
    by (auto simp: init_session_def init_form_def split: option.splits)
  ultimately show ?thesis
    by (simp add: shown_result_card decide_spec_def decision_threshold_def recommend_spec_def)
qed

text \<open>
  C14. The degraded mode lasts for the life of the process. If the first run found the
  artifact missing, then after any interactions, against any later worlds, every run
  shows the not-found notice and no result, and the failure stays in the cache.
\<close>

theorem missing_artifact_session:
  assumes "joblib_load w0 artifact_path = Inl e" and "caught_by_FileNotFoundError e"
    and "interacts (snd (first_run w0)) evs = Some st"
    and "interact w st ev = Some (t, st')"
  shows "emits (fst t) (Error (Lit 58) None)
     \<and> \<not> list_ex is_gauge (all_leaves (fst t))
     \<and> cache st' = Some (None, [Error (Lit 58) None])"
proof -
  from assms(1,2) have "cache (snd (first_run w0)) = Some (None, [Error (Lit 58) None])"
    by (rule first_run_missing_cache)
  with assms(3) have c: "cache st = Some (None, [Error (Lit 58) None])"
    by (rule interacts_keeps_cache)
  from assms(4) obtain s where
    t: "t = fst (run_script w (cache st) s)" by (auto simp: interact_Some_iff)
  from assms(4) c have c': "cache st' = Some (None, [Error (Lit 58) None])"
    by (rule interact_keeps_cache)
  from t c show ?thesis
    by (simp add: c' run_script_warm fst_seq_trace emits_def no_gauge_without_model render_defs)
qed

theorem missing_artifact_session_witness:
  "\<exists>t st'. interact fixture_world
       (snd (first_run \<lparr>joblib_load = \<lambda>p. Inl (PyExn FileNotFoundError (Text p)),
                         image_open = \<lambda>p. Inr ()\<rparr>)) Press = Some (t, st')
     \<and> emits (fst t) (Error (Lit 58) None) \<and> \<not> list_ex is_gauge (all_leaves (fst t))"
proof -
  let ?w0 = "\<lparr>joblib_load = \<lambda>p. Inl (PyExn FileNotFoundError (Text p)), image_open = \<lambda>p. Inr ()\<rparr>"
  obtain t st' where i: "interact fixture_world (snd (first_run ?w0)) Press = Some (t, st')"
    by (simp add: interact_def first_run_def init_session_page)
  have "interacts (snd (first_run ?w0)) [] = Some (snd (first_run ?w0))" by simp
  from missing_artifact_session [OF _ _ this i, of "PyExn FileNotFoundError (Text artifact_path)"] i
  show ?thesis by simp
qed

text \<open>
  C15. End to end with several sessions. In every state a process can reach, a client on
  the prediction page with no run in progress, a model in the shared cache and a
  pipeline that returns probabilities for the row of its form is shown, by the one step
  its press of the button takes, a run that completes and that reads as the result the
  contract's \<open>predict\<close> returns for its form; its widget values and the cache are
  unchanged, whatever the other sessions are doing.
\<close>

theorem concurrent_press_refines_contract:
  assumes "preachable p" and "view (clients p i) = Some s" and "job (clients p i) = None"
    and "page s = page_options ! 0" and "shared p = Some (Some m, notice)"
    and "proba_ok m (input_df (widgets s))"
  shows "\<exists>t q. pstep p (Begin i (Do Press) w) = Some (Some t, q) \<and> \<not> aborted t
     \<and> shown_result (fst t) = Some (predict_spec (scorer_of m) (widgets s))
     \<and> view (clients q i) = Some s \<and> shared q = shared p"
proof -
  from assms(1) have ok: "views_ok p" using preachable_ok by (simp add: process_ok_def)
  with assms(2,5) have s: "valid_form (widgets s)" "\<not> predict_btn s" and notice: "notice = []"
    by (auto simp: views_ok_def session_ok_def cache_ok_def)
  from assms(6) obtain x where x: "score m (input_df (widgets s)) = Inr (Finite x)"
    "0 \<le> x" "x \<le> 1"
    using score_proba_ok [of m "input_df (widgets s)"] by (auto simp: in_unit_interval_cases)
  let ?s = "s\<lparr>predict_btn := True\<rparr>"
  have run: "fst (run_script w (Some (Some m, [])) ?s) = (scored_view (Finite x), None)"
    using assms(4) x(1) by (intro run_script_pressed_scored) simp_all
  have "shown_result (scored_view (Finite x)) = Some (predict_spec (scorer_of m) (widgets s))"
    using predict_spec_scored [OF s(1) x] by (simp only: shown_result_page shown_result_card)
  with assms(2-5) s(2) run show ?thesis
    by (simp add: notice run_script_keeps_cache session_unpressed)
qed

theorem concurrent_press_refines_contract_witness:
  "\<exists>t q. pstep (snd (the (psteps boot
        [Begin 0 Open fixture_world, Begin 1 Open fixture_world, Acquire 1,
         Look 1 fixture_world, Load 1 fixture_world, Acquire 0, Look 0 fixture_world])))
       (Begin 0 (Do Press) fixture_world) = Some (Some t, q)
     \<and> shown_result (fst t)
         = Some (Inr \<lparr>probability = 82 / 100, decision = Approved, recommendations = []\<rparr>)"
proof -
  let ?ls = "[Begin 0 Open fixture_world, Begin 1 Open fixture_world, Acquire 1,
    Look 1 fixture_world, Load 1 fixture_world, Acquire 0, Look 0 fixture_world]"
  obtain shown p where run: "psteps boot ?ls = Some (shown, p)"
    and p: "view (clients p 0) = Some init_session" "job (clients p 0) = None"
      "shared p = Some (Some fixture_pipeline, [])"
    by (simp add: boot_def finish_run_def cached_load_model_miss load_model_found
        fixture_world_def init_session_def)
  from preachable.boot run have "preachable p" by (rule psteps_preachable)
  moreover have "proba_ok fixture_pipeline (input_df (widgets init_session))"
    by (simp add: proba_ok_def fixture_pipeline_def input_df_def in_unit_interval_def)
  moreover have "predict_spec (scorer_of fixture_pipeline) (widgets init_session)
      = Inr \<lparr>probability = 82 / 100, decision = Approved, recommendations = []\<rparr>"
    using predict_spec_scored [OF valid_form_init, of fixture_pipeline "82 / 100"]
    by (simp add: init_session_def fixture_score init_form_def
        decide_spec_def decision_threshold_def recommend_spec_def)
  ultimately show ?thesis
    using concurrent_press_refines_contract [OF _ p(1,2) init_session_page p(3), of fixture_world] run
    by auto
qed

end
